theory Spec2Isabelle
  imports Complex_Main
begin

section \<open>Geometry and the scalars of a sparse matrix\<close>

text \<open>
  \<^verbatim>\<open>Geometry\<close> is declared in \<^verbatim>\<open>Geometry.hpp\<close>; the fields are the ones the two
  source files read (the field \<^verbatim>\<open>size\<close> is \<open>size_g\<close> here: \<open>size\<close> is a constant of HOL).
\<close>

record Geometry =
  size_g :: int
  rank :: int
  numThreads :: int
  nx :: int
  ny :: int
  nz :: int
  npx :: int
  npy :: int
  npz :: int
  ipx :: int
  ipy :: int
  ipz :: int
  stencilSize :: int

text \<open>\<^verbatim>\<open>struct SparseMatrixScalars\<close> (LegionMatrices.hpp).\<close>

record SparseMatrixScalars =
  maxNonzerosPerRow :: int
  totalNumberOfRows :: int
  totalNumberOfNonzeros :: int
  localNumberOfRows :: int
  localNumberOfColumns :: int
  localNumberOfNonzeros :: int
  numberOfExternalValues :: int
  numberOfSendNeighbors :: int
  totalToBeSent :: int

section \<open>The logical sparse matrix: allocate, partition, deallocate\<close>

text \<open>
  The fourteen \<^verbatim>\<open>LogicalArray\<close> members of \<^verbatim>\<open>struct LogicalSparseMatrix\<close>, by name
  (as constructors, with a capital first letter).
\<close>

datatype array_id =
    Geoms | Sclrs | NonzerosInRow | MtxIndG | MtxIndL | MatrixValues | MatrixDiagonal
  | LocalToGlobalMap | DcAllreduceSum | Neighbors | SendLength | Synchronizers | PullBEs
  | PullBuffer

text \<open>
  A dynamic collective handle, as \<^verbatim>\<open>create_dynamic_collective\<close> returns it: the
  identity of the collective and the number of arrivals it was created with.
\<close>

record DynamicCollective =
  dc_id :: nat
  dc_arrivals :: int

text \<open>
  Modelled from the spec: \<^verbatim>\<open>LogicalArray\<close> (LegionArrays.hpp is not among the sources).
  "A logical array is a named, typed, one-dimensional storage region of known length. It
  supports: allocate(length), partition(nParts) producing nParts equal-sized disjoint
  subregions, deallocate." The record keeps whether the array holds storage, its length,
  the number of parts of its partition, its launch domain (one point per part) and the
  cells of its region. Only cells holding a \<^verbatim>\<open>DynamicCollective\<close> are written by the
  functions modelled here, so a cell is \<open>None\<close> (never written) or \<open>Some\<close> handle.
\<close>

record LogicalArray =
  mAllocated :: bool
  mLength :: int
  mNParts :: "int option"
  la_launchDomain :: "int option"
  mCells :: "DynamicCollective option list"

text \<open>The calls that reach the runtime, in the order they are made.\<close>

datatype lrt_call =
    Allocate array_id int
  | Partition array_id int
  | Deallocate array_id
  | MapRegion array_id
  | UnmapRegion array_id
  | CreateDynamicCollective int

text \<open>
  The state the three member functions work on: the fourteen arrays of the matrix, its
  launch domain, and the runtime (\<^verbatim>\<open>ctx\<close>, \<^verbatim>\<open>lrt\<close>): the log of the calls made and the
  dynamic collectives created so far.
\<close>

record LogicalSparseMatrix =
  arrays :: "array_id \<Rightarrow> LogicalArray"
  launchDomain :: "int option"
  lrt_calls :: "lrt_call list"
  lrt_collectives :: "DynamicCollective list"

datatype lsm_error = OutOfBounds

definition LogicalArray_init :: LogicalArray where
  "LogicalArray_init =
     \<lparr>mAllocated = False, mLength = 0, mNParts = None, la_launchDomain = None, mCells = []\<rparr>"

text \<open>The constructor \<^verbatim>\<open>LogicalSparseMatrix(void)\<close>: nothing allocated, no call made.\<close>

definition LogicalSparseMatrix_init :: LogicalSparseMatrix where
  "LogicalSparseMatrix_init =
     \<lparr>arrays = (\<lambda>a. LogicalArray_init), launchDomain = None, lrt_calls = [],
      lrt_collectives = []\<rparr>"

text \<open>Modelled from the spec: \<^verbatim>\<open>LogicalArray::allocate(length, ctx, lrt)\<close>.\<close>

definition la_allocate :: "array_id \<Rightarrow> int \<Rightarrow> LogicalSparseMatrix \<Rightarrow> LogicalSparseMatrix" where
  "la_allocate a n m =
     m\<lparr>arrays := (arrays m)(a := (arrays m a)
          \<lparr>mAllocated := True, mLength := n, mCells := replicate (nat n) None\<rparr>),
       lrt_calls := lrt_calls m @ [Allocate a n]\<rparr>"

text \<open>
  Modelled from the spec: \<^verbatim>\<open>LogicalArray::partition(nParts, ctx, lrt)\<close>, "producing
  nParts equal-sized disjoint subregions"; the launch domain of the array has one point
  per part.
\<close>

definition la_partition :: "array_id \<Rightarrow> int \<Rightarrow> LogicalSparseMatrix \<Rightarrow> LogicalSparseMatrix" where
  "la_partition a nParts m =
     m\<lparr>arrays := (arrays m)(a := (arrays m a)
          \<lparr>mNParts := Some nParts, la_launchDomain := Some nParts\<rparr>),
       lrt_calls := lrt_calls m @ [Partition a nParts]\<rparr>"

text \<open>
  Modelled from the spec: the subregion \<open>i\<close> of a partitioned array, as (first index,
  number of cells): the parts are equal-sized and disjoint.
\<close>

definition subregion :: "LogicalArray \<Rightarrow> int \<Rightarrow> (int \<times> int) option" where
  "subregion la i =
     (case mNParts la of
        None \<Rightarrow> None
      | Some n \<Rightarrow>
          if 0 \<le> i \<and> i < n then Some (i * (mLength la div n), mLength la div n) else None)"

text \<open>Modelled from the spec: \<^verbatim>\<open>LogicalArray::deallocate(ctx, lrt)\<close>.\<close>

definition la_deallocate :: "array_id \<Rightarrow> LogicalSparseMatrix \<Rightarrow> LogicalSparseMatrix" where
  "la_deallocate a m =
     m\<lparr>arrays := (arrays m)(a := (arrays m a)\<lparr>mAllocated := False, mCells := []\<rparr>),
       lrt_calls := lrt_calls m @ [Deallocate a]\<rparr>"

text \<open>
  \<^verbatim>\<open>LogicalSparseMatrix::allocate\<close>. \<^verbatim>\<open>getGlobalXYZ\<close> is declared in Geometry.hpp, which
  is not among the sources: it is the parameter \<open>gxyz\<close>.
\<close>

definition allocate ::
  "(Geometry \<Rightarrow> int) \<Rightarrow> Geometry \<Rightarrow> LogicalSparseMatrix \<Rightarrow> LogicalSparseMatrix" where
  "allocate gxyz geom m0 =
     (let size = size_g geom;
          globalXYZ = gxyz geom;
          stencilSize = stencilSize geom;
          m = la_allocate Geoms size m0;
          m = la_allocate Sclrs size m;
          m = la_allocate NonzerosInRow globalXYZ m;
          m = la_allocate MtxIndG (globalXYZ * stencilSize) m;
          m = la_allocate MtxIndL (globalXYZ * stencilSize) m;
          m = la_allocate MatrixValues (globalXYZ * stencilSize) m;
          m = la_allocate MatrixDiagonal globalXYZ m;
          m = la_allocate LocalToGlobalMap globalXYZ m;
          m = la_allocate DcAllreduceSum size m;
          maxNumNeighbors = stencilSize - 1;
          m = la_allocate Neighbors (size * maxNumNeighbors) m;
          m = la_allocate SendLength (size * maxNumNeighbors) m;
          m = la_allocate Synchronizers size m;
          m = la_allocate PullBEs (size * maxNumNeighbors) m;
          m = la_allocate PullBuffer globalXYZ m
      in m)"

text \<open>
  The loop of \<^verbatim>\<open>mPopulateDynamicCollectives\<close>:
  \<^verbatim>\<open>for (int64_t i = 0; i < nArrivals; ++i) dcsd[i] = dc;\<close>
  on the cells of the mapped region. A write past the end of the region is an error of
  the model.
\<close>

function replicate_dc ::
  "int \<Rightarrow> int \<Rightarrow> DynamicCollective \<Rightarrow> DynamicCollective option list
     \<Rightarrow> lsm_error + DynamicCollective option list" where
  "replicate_dc i nArrivals dc dcsd =
     (if i < nArrivals then
        (if 0 \<le> i \<and> nat i < length dcsd
         then replicate_dc (i + 1) nArrivals dc (dcsd[nat i := Some dc])
         else Inl OutOfBounds)
      else Inr dcsd)"
  by pat_completeness auto
termination
  by (relation "measure (\<lambda>(i, nArrivals, dc, dcsd). nat (nArrivals - i))") auto

declare replicate_dc.simps [simp del]

text \<open>
  \<^verbatim>\<open>mPopulateDynamicCollectives\<close>: map the region of \<^verbatim>\<open>dcAllreduceSum\<close>, create one
  dynamic collective, write it to the first \<open>nArrivals\<close> cells, unmap.
\<close>

definition mPopulateDynamicCollectives ::
  "int \<Rightarrow> LogicalSparseMatrix \<Rightarrow> lsm_error + LogicalSparseMatrix" where
  "mPopulateDynamicCollectives nArrivals m0 =
     (let m = m0\<lparr>lrt_calls := lrt_calls m0 @ [MapRegion DcAllreduceSum]\<rparr>;
          dc = \<lparr>dc_id = length (lrt_collectives m), dc_arrivals = nArrivals\<rparr>;
          m = m\<lparr>lrt_collectives := lrt_collectives m @ [dc],
                lrt_calls := lrt_calls m @ [CreateDynamicCollective nArrivals]\<rparr>
      in case replicate_dc 0 nArrivals dc (mCells (arrays m DcAllreduceSum)) of
           Inl e \<Rightarrow> Inl e
         | Inr dcsd \<Rightarrow>
             Inr (m\<lparr>arrays := (arrays m)(DcAllreduceSum :=
                       (arrays m DcAllreduceSum)\<lparr>mCells := dcsd\<rparr>),
                     lrt_calls := lrt_calls m @ [UnmapRegion DcAllreduceSum]\<rparr>))"

text \<open>\<^verbatim>\<open>LogicalSparseMatrix::partition\<close> (\<open>partition\<close> is a constant of HOL's lists).\<close>

definition partition_m :: "int \<Rightarrow> LogicalSparseMatrix \<Rightarrow> lsm_error + LogicalSparseMatrix" where
  "partition_m nParts m0 =
     (let m = la_partition Geoms nParts m0;
          m = la_partition Sclrs nParts m;
          m = la_partition NonzerosInRow nParts m;
          m = la_partition MtxIndG nParts m;
          m = la_partition MtxIndL nParts m;
          m = la_partition MatrixValues nParts m;
          m = la_partition MatrixDiagonal nParts m;
          m = la_partition LocalToGlobalMap nParts m;
          m = la_partition DcAllreduceSum nParts m;
          m = la_partition Neighbors nParts m;
          m = la_partition SendLength nParts m;
          m = la_partition Synchronizers nParts m;
          m = la_partition PullBEs nParts m;
          m = la_partition PullBuffer nParts m
      in case mPopulateDynamicCollectives nParts m of
           Inl e \<Rightarrow> Inl e
         | Inr m \<Rightarrow> Inr (m\<lparr>launchDomain := la_launchDomain (arrays m Geoms)\<rparr>))"

text \<open>
  \<^verbatim>\<open>LogicalSparseMatrix::deallocate\<close>, call by call as the source has them (the last
  call is on \<^verbatim>\<open>pullBEs\<close> again).
\<close>

definition deallocate :: "LogicalSparseMatrix \<Rightarrow> LogicalSparseMatrix" where
  "deallocate m0 =
     (let m = la_deallocate Geoms m0;
          m = la_deallocate Sclrs m;
          m = la_deallocate MtxIndG m;
          m = la_deallocate MtxIndL m;
          m = la_deallocate NonzerosInRow m;
          m = la_deallocate MatrixValues m;
          m = la_deallocate MatrixDiagonal m;
          m = la_deallocate LocalToGlobalMap m;
          m = la_deallocate DcAllreduceSum m;
          m = la_deallocate Neighbors m;
          m = la_deallocate SendLength m;
          m = la_deallocate Synchronizers m;
          m = la_deallocate PullBEs m;
          m = la_deallocate PullBEs m
      in m)"

text \<open>The arrays a log of calls allocates and deallocates, in call order.\<close>

fun allocated_by :: "lrt_call list \<Rightarrow> array_id list" where
  "allocated_by [] = []"
| "allocated_by (Allocate a n # cs) = a # allocated_by cs"
| "allocated_by (c # cs) = allocated_by cs"

fun deallocated_by :: "lrt_call list \<Rightarrow> array_id list" where
  "deallocated_by [] = []"
| "deallocated_by (Deallocate a # cs) = a # deallocated_by cs"
| "deallocated_by (c # cs) = deallocated_by cs"

text \<open>A geometry to evaluate on: one rank, a 2 x 2 x 2 local domain.\<close>

definition geom1 :: Geometry where
  "geom1 = \<lparr>size_g = 1, rank = 0, numThreads = 1, nx = 2, ny = 2, nz = 2,
            npx = 1, npy = 1, npz = 1, ipx = 0, ipy = 0, ipz = 0, stencilSize = 27\<rparr>"

text \<open>
  Modelled from the spec: \<^verbatim>\<open>getGlobalXYZ\<close> (Geometry.hpp), the number of points of the
  global domain.
\<close>

definition getGlobalXYZ :: "Geometry \<Rightarrow> int" where
  "getGlobalXYZ g = (npx g * nx g) * (npy g * ny g) * (npz g * nz g)"

section \<open>PopulateGlobalToLocalMap (v3/LegionMatrices.hpp)\<close>

text \<open>
  The typedefs \<^verbatim>\<open>local_int_t\<close> and \<^verbatim>\<open>global_int_t\<close> are declared outside the two source
  files; they are signed integer types, taken here as a parameter: the largest value of
  each (the least one is \<open>- max - 1\<close>).
\<close>

record int_types =
  local_int_max :: int
  global_int_max :: int

text \<open>
  Signed overflow is undefined and an out-of-range conversion is implementation-defined:
  a result that does not fit its type is the error here, so that a run of the model that
  returns a map has computed every value exactly.
\<close>

datatype arith_error = IntegerOverflow

definition global_int :: "int_types \<Rightarrow> int \<Rightarrow> arith_error + int" where
  "global_int T v =
     (if - global_int_max T - 1 \<le> v \<and> v \<le> global_int_max T then Inr v
      else Inl IntegerOverflow)"

definition local_int :: "int_types \<Rightarrow> int \<Rightarrow> arith_error + int" where
  "local_int T v =
     (if - local_int_max T - 1 \<le> v \<and> v \<le> local_int_max T then Inr v
      else Inl IntegerOverflow)"

definition and_then :: "arith_error + 'a \<Rightarrow> ('a \<Rightarrow> arith_error + 'b) \<Rightarrow> arith_error + 'b" where
  "and_then x f = (case x of Inl e \<Rightarrow> Inl e | Inr v \<Rightarrow> f v)"

text \<open>Multiplication and addition in \<^verbatim>\<open>global_int_t\<close>.\<close>

definition gmul :: "int_types \<Rightarrow> int \<Rightarrow> int \<Rightarrow> arith_error + int" where
  "gmul T a b = global_int T (a * b)"

definition gadd :: "int_types \<Rightarrow> int \<Rightarrow> int \<Rightarrow> arith_error + int" where
  "gadd T a b = global_int T (a + b)"

text \<open>
  The body of the innermost loop, to the pair that is stored:
  \<^verbatim>\<open>gix = ipx*nx+ix\<close>, \<^verbatim>\<open>currentLocalRow = iz*nx*ny+iy*nx+ix\<close> (computed in
  \<^verbatim>\<open>global_int_t\<close>, since \<^verbatim>\<open>nx\<close> and \<^verbatim>\<open>ny\<close> are, and then converted to \<^verbatim>\<open>local_int_t\<close>) and
  \<^verbatim>\<open>currentGlobalRow = giz*gnx*gny+giy*gnx+gix\<close>, each operation in the order of C.
\<close>

definition row_entry ::
  "int_types \<Rightarrow> Geometry \<Rightarrow> int \<Rightarrow> int \<Rightarrow> int \<Rightarrow> int \<Rightarrow> int \<Rightarrow> int \<Rightarrow> int
     \<Rightarrow> arith_error + (int \<times> int)" where
  "row_entry T g gnx gny giz giy iz iy ix =
     and_then (gmul T (ipx g) (nx g)) (\<lambda>t.
     and_then (gadd T t ix) (\<lambda>gix.
     and_then (gmul T iz (nx g)) (\<lambda>t.
     and_then (gmul T t (ny g)) (\<lambda>l1.
     and_then (gmul T iy (nx g)) (\<lambda>l2.
     and_then (gadd T l1 l2) (\<lambda>t.
     and_then (gadd T t ix) (\<lambda>t.
     and_then (local_int T t) (\<lambda>currentLocalRow.
     and_then (gmul T giz gnx) (\<lambda>t.
     and_then (gmul T t gny) (\<lambda>g1.
     and_then (gmul T giy gnx) (\<lambda>g2.
     and_then (gadd T g1 g2) (\<lambda>t.
     and_then (gadd T t gix) (\<lambda>currentGlobalRow.
     Inr (currentGlobalRow, currentLocalRow))))))))))))))"

text \<open>
  The three loops. A counter is a \<^verbatim>\<open>local_int_t\<close>: it is converted to \<^verbatim>\<open>global_int_t\<close> for
  the comparison with the bound and for the arithmetic of the body, and \<^verbatim>\<open>++\<close> is an
  addition in \<^verbatim>\<open>local_int_t\<close>. \<^verbatim>\<open>globalToLocalMap[k] = v\<close> inserts or overwrites.
\<close>

function loop_ix ::
  "int_types \<Rightarrow> Geometry \<Rightarrow> int \<Rightarrow> int \<Rightarrow> int \<Rightarrow> int \<Rightarrow> int \<Rightarrow> int \<Rightarrow> int
     \<Rightarrow> (int \<rightharpoonup> int) \<Rightarrow> arith_error + (int \<rightharpoonup> int)" where
  "loop_ix T g gnx gny giz giy iz iy ix m =
     (case global_int T ix of
        Inl e \<Rightarrow> Inl e
      | Inr _ \<Rightarrow>
          if ix < nx g then
            (case row_entry T g gnx gny giz giy iz iy ix of
               Inl e \<Rightarrow> Inl e
             | Inr (currentGlobalRow, currentLocalRow) \<Rightarrow>
                 (case local_int T (ix + 1) of
                    Inl e \<Rightarrow> Inl e
                  | Inr _ \<Rightarrow>
                      loop_ix T g gnx gny giz giy iz iy (ix + 1)
                        (m(currentGlobalRow \<mapsto> currentLocalRow))))
          else Inr m)"
  by pat_completeness auto
termination
  by (relation "measure (\<lambda>(T, g, gnx, gny, giz, giy, iz, iy, ix, m). nat (nx g - ix))") auto

declare loop_ix.simps [simp del]

function loop_iy ::
  "int_types \<Rightarrow> Geometry \<Rightarrow> int \<Rightarrow> int \<Rightarrow> int \<Rightarrow> int \<Rightarrow> int
     \<Rightarrow> (int \<rightharpoonup> int) \<Rightarrow> arith_error + (int \<rightharpoonup> int)" where
  "loop_iy T g gnx gny giz iz iy m =
     (case global_int T iy of
        Inl e \<Rightarrow> Inl e
      | Inr _ \<Rightarrow>
          if iy < ny g then
            (case and_then (gmul T (ipy g) (ny g)) (\<lambda>t. gadd T t iy) of
               Inl e \<Rightarrow> Inl e
             | Inr giy \<Rightarrow>
                 (case loop_ix T g gnx gny giz giy iz iy 0 m of
                    Inl e \<Rightarrow> Inl e
                  | Inr m' \<Rightarrow>
                      (case local_int T (iy + 1) of
                         Inl e \<Rightarrow> Inl e
                       | Inr _ \<Rightarrow> loop_iy T g gnx gny giz iz (iy + 1) m')))
          else Inr m)"
  by pat_completeness auto
termination
  by (relation "measure (\<lambda>(T, g, gnx, gny, giz, iz, iy, m). nat (ny g - iy))") auto

declare loop_iy.simps [simp del]

function loop_iz ::
  "int_types \<Rightarrow> Geometry \<Rightarrow> int \<Rightarrow> int \<Rightarrow> int
     \<Rightarrow> (int \<rightharpoonup> int) \<Rightarrow> arith_error + (int \<rightharpoonup> int)" where
  "loop_iz T g gnx gny iz m =
     (case global_int T iz of
        Inl e \<Rightarrow> Inl e
      | Inr _ \<Rightarrow>
          if iz < nz g then
            (case and_then (gmul T (ipz g) (nz g)) (\<lambda>t. gadd T t iz) of
               Inl e \<Rightarrow> Inl e
             | Inr giz \<Rightarrow>
                 (case loop_iy T g gnx gny giz iz 0 m of
                    Inl e \<Rightarrow> Inl e
                  | Inr m' \<Rightarrow>
                      (case local_int T (iz + 1) of
                         Inl e \<Rightarrow> Inl e
                       | Inr _ \<Rightarrow> loop_iz T g gnx gny (iz + 1) m')))
          else Inr m)"
  by pat_completeness auto
termination
  by (relation "measure (\<lambda>(T, g, gnx, gny, iz, m). nat (nz g - iz))") auto

declare loop_iz.simps [simp del]

text \<open>
  \<^verbatim>\<open>PopulateGlobalToLocalMap\<close> on the geometry of the matrix and its \<^verbatim>\<open>globalToLocalMap\<close>: the
  copies of the geometry into \<^verbatim>\<open>global_int_t\<close>, \<^verbatim>\<open>gnx\<close> and \<^verbatim>\<open>gny\<close>, and the loops.
\<close>

definition PopulateGlobalToLocalMap ::
  "int_types \<Rightarrow> Geometry \<Rightarrow> (int \<rightharpoonup> int) \<Rightarrow> arith_error + (int \<rightharpoonup> int)" where
  "PopulateGlobalToLocalMap T Ageom globalToLocalMap =
     and_then (global_int T (nx Ageom)) (\<lambda>_.
     and_then (global_int T (ny Ageom)) (\<lambda>_.
     and_then (global_int T (nz Ageom)) (\<lambda>_.
     and_then (global_int T (npx Ageom)) (\<lambda>_.
     and_then (global_int T (npy Ageom)) (\<lambda>_.
     and_then (global_int T (ipx Ageom)) (\<lambda>_.
     and_then (global_int T (ipy Ageom)) (\<lambda>_.
     and_then (global_int T (ipz Ageom)) (\<lambda>_.
     and_then (gmul T (nx Ageom) (npx Ageom)) (\<lambda>gnx.
     and_then (gmul T (ny Ageom) (npy Ageom)) (\<lambda>gny.
     loop_iz T Ageom gnx gny 0 globalToLocalMap))))))))))"

text \<open>
  A geometry whose values the two integer types hold: positive local dimensions, a
  process position inside the process grid, the local number of rows within
  \<^verbatim>\<open>local_int_t\<close> and the global number of rows within \<^verbatim>\<open>global_int_t\<close>.
\<close>

definition geometry_fits :: "int_types \<Rightarrow> Geometry \<Rightarrow> bool" where
  "geometry_fits T g =
     (0 < nx g \<and> 0 < ny g \<and> 0 < nz g
      \<and> 0 \<le> ipx g \<and> ipx g < npx g \<and> 0 \<le> ipy g \<and> ipy g < npy g
      \<and> 0 \<le> ipz g \<and> ipz g < npz g
      \<and> nx g * ny g * nz g \<le> local_int_max T
      \<and> (nx g * npx g) * (ny g * npy g) * (nz g * npz g) \<le> global_int_max T)"

text \<open>
  The row indexing, after the claim's words: the global row and the local row of the
  local grid point \<open>(ix, iy, iz)\<close>.
\<close>

definition global_row :: "Geometry \<Rightarrow> int \<Rightarrow> int \<Rightarrow> int \<Rightarrow> int" where
  "global_row g ix iy iz =
     (ipz g * nz g + iz) * (nx g * npx g) * (ny g * npy g)
       + (ipy g * ny g + iy) * (nx g * npx g) + (ipx g * nx g + ix)"

definition local_row :: "Geometry \<Rightarrow> int \<Rightarrow> int \<Rightarrow> int \<Rightarrow> int" where
  "local_row g ix iy iz = iz * nx g * ny g + iy * nx g + ix"

text \<open>
  The assignments of a whole run in their order, as pairs of key and value, and the map
  they leave behind.
\<close>

definition x_entries :: "Geometry \<Rightarrow> int \<Rightarrow> int \<Rightarrow> int \<Rightarrow> (int \<times> int) list" where
  "x_entries g iz iy ix0 =
     map (\<lambda>ix. (global_row g ix iy iz, local_row g ix iy iz)) [ix0..nx g - 1]"

definition y_entries :: "Geometry \<Rightarrow> int \<Rightarrow> int \<Rightarrow> (int \<times> int) list" where
  "y_entries g iz iy0 = concat (map (\<lambda>iy. x_entries g iz iy 0) [iy0..ny g - 1])"

definition z_entries :: "Geometry \<Rightarrow> int \<Rightarrow> (int \<times> int) list" where
  "z_entries g iz0 = concat (map (\<lambda>iz. y_entries g iz 0) [iz0..nz g - 1])"

definition store :: "(int \<rightharpoonup> int) \<Rightarrow> int \<times> int \<Rightarrow> (int \<rightharpoonup> int)" where
  "store m e = m(fst e \<mapsto> snd e)"

text \<open>Two processes along x, the second one, with a local grid of 2 by 2 by 2.\<close>

definition ex_types :: int_types where
  "ex_types = \<lparr>local_int_max = 2147483647, global_int_max = 9223372036854775807\<rparr>"

definition ex_geom2 :: Geometry where
  "ex_geom2 =
     \<lparr>size_g = 2, rank = 1, numThreads = 1, nx = 2, ny = 2, nz = 2,
      npx = 2, npy = 1, npz = 1, ipx = 1, ipy = 0, ipz = 0, stencilSize = 27\<rparr>"

section \<open>The YAML document\<close>

text \<open>
  Modelled from the spec: \<^verbatim>\<open>YAML_Doc\<close> and \<^verbatim>\<open>YAML_Element\<close> (YAML_Doc.hpp and
  YAML_Element.hpp are not among the sources). The spec calls the report a
  "human-readable key/value tree" with top-level sections in order. An element has a
  key, a value and its children in the order they were added; \<^verbatim>\<open>add(key, value)\<close>
  appends a child and \<^verbatim>\<open>get(key)\<close> returns the first child with that key, or the null
  pointer. A value keeps the type it was added with (a string, an integer or a double).
\<close>

datatype 'd yaml_value = YString string | YInt int | YDouble 'd

datatype 'd YAML_Element =
  YAML_Element (key: string) (yvalue: "'d yaml_value") (children: "'d YAML_Element list")

definition add :: "string \<Rightarrow> 'd yaml_value \<Rightarrow> 'd YAML_Element \<Rightarrow> 'd YAML_Element" where
  "add k v e = YAML_Element (key e) (yvalue e) (children e @ [YAML_Element k v []])"

definition get :: "string \<Rightarrow> 'd YAML_Element \<Rightarrow> 'd YAML_Element option" where
  "get k e = find (\<lambda>c. key c = k) (children e)"

text \<open>
  \<^verbatim>\<open>e.get(k)->...\<close> changes, in place, the first child of \<open>e\<close> with key \<open>k\<close>;
  \<open>None\<close> when there is no such child (the null pointer is dereferenced).
\<close>

fun update_child ::
  "string \<Rightarrow> ('d YAML_Element \<Rightarrow> 'd YAML_Element option) \<Rightarrow> 'd YAML_Element list
     \<Rightarrow> 'd YAML_Element list option" where
  "update_child k f [] = None"
| "update_child k f (c # cs) =
     (if key c = k then map_option (\<lambda>c'. c' # cs) (f c)
      else map_option (\<lambda>cs'. c # cs') (update_child k f cs))"

text \<open>
  One statement of \<^verbatim>\<open>ReportResults\<close> on the document:
  \<^verbatim>\<open>doc.add(k, v)\<close> is \<open>Add [] k v\<close>, \<^verbatim>\<open>doc.get(a)->add(k, v)\<close> is \<open>Add [a] k v\<close> and
  \<^verbatim>\<open>doc.get(a)->get(b)->add(k, v)\<close> is \<open>Add [a, b] k v\<close>.
\<close>

datatype 'd doc_stmt = Add "string list" string "'d yaml_value"

primrec add_at ::
  "string list \<Rightarrow> string \<Rightarrow> 'd yaml_value \<Rightarrow> 'd YAML_Element \<Rightarrow> 'd YAML_Element option" where
  "add_at [] k v e = Some (add k v e)"
| "add_at (a # p) k v e =
     map_option (YAML_Element (key e) (yvalue e)) (update_child a (add_at p k v) (children e))"

fun exec :: "'d doc_stmt \<Rightarrow> 'd YAML_Element \<Rightarrow> 'd YAML_Element option" where
  "exec (Add p k v) e = add_at p k v e"

fun run :: "'d doc_stmt list \<Rightarrow> 'd YAML_Element \<Rightarrow> 'd YAML_Element option" where
  "run [] e = Some e"
| "run (s # ss) e = (case exec s e of None \<Rightarrow> None | Some e' \<Rightarrow> run ss e')"

text \<open>Reading the document: the element at a path of keys, and its value.\<close>

fun get_path :: "string list \<Rightarrow> 'd YAML_Element \<Rightarrow> 'd YAML_Element option" where
  "get_path [] e = Some e"
| "get_path (a # p) e = (case get a e of None \<Rightarrow> None | Some c \<Rightarrow> get_path p c)"

definition lookup :: "string list \<Rightarrow> 'd YAML_Element \<Rightarrow> 'd yaml_value option" where
  "lookup p e = map_option yvalue (get_path p e)"

section \<open>The inputs of ReportResults\<close>

text \<open>
  \<^verbatim>\<open>ReportResults.hpp\<close> includes the \<^verbatim>\<open>LegionMatrices.hpp\<close> of its own directory, which is
  not among the sources; the sparse matrix is modelled from the fields that
  \<^verbatim>\<open>ReportResults\<close> reads and from the data model of the spec: "one per multigrid level,
  linked to a coarser Ac or null at the base", with "mgData (null at coarsest)". A null
  pointer is \<open>None\<close>.
\<close>

record MGData =
  numberOfPresmootherSteps :: int
  numberOfPostsmootherSteps :: int

datatype SparseMatrix =
  SparseMatrix (geom: Geometry) (sclrs: SparseMatrixScalars) (mgData: "MGData option")
    (Ac: "SparseMatrix option") (isDotProductOptimized: bool) (isSpmvOptimized: bool)
    (isMgOptimized: bool) (isWaxpbyOptimized: bool)

text \<open>The test results, with the fields that the report reads.\<close>

record TestCGData =
  count_fail :: int
  niters_max_no_prec :: int
  expected_niters_no_prec :: int
  niters_max_prec :: int
  expected_niters_prec :: int

record 'd TestSymmetryData =
  count_fail :: int
  depsym_spmv :: 'd
  depsym_mg :: 'd

record 'd TestNormsData =
  pass :: bool
  mean :: 'd
  variance :: 'd

text \<open>
  The values of \<^verbatim>\<open>sizeof\<close> that the memory models use: they depend on the platform and
  on declarations that are not among the sources, so they are parameters.
\<close>

record sizes =
  sizeof_double :: int
  sizeof_char :: int
  sizeof_int :: int
  sizeof_local_int_t :: int
  sizeof_global_int_t :: int
  sizeof_global_int_t_ptr :: int
  sizeof_local_int_t_ptr :: int
  sizeof_double_ptr :: int
  sizeof_Geometry :: int
  sizeof_SparseMatrix :: int
  sizeof_Array_floatType :: int
  sizeof_MGData :: int

text \<open>
  The three collectives of the matrix that \<^verbatim>\<open>allReduce\<close> is called on
  (\<^verbatim>\<open>dcAllRedMinFT\<close>, \<^verbatim>\<open>dcAllRedMaxFT\<close>, \<^verbatim>\<open>dcAllRedSumFT\<close>), and what lies outside
  \<^verbatim>\<open>ReportResults\<close>: the value a reduction yields on this rank, the value of
  \<^verbatim>\<open>OptimizeProblemMemoryUse(A)\<close>, and whether the build defines \<^verbatim>\<open>HPCG_DEBUG\<close>.
\<close>

datatype reduce_op = MinFT | MaxFT | SumFT

record 'd externals =
  allReduce :: "reduce_op \<Rightarrow> 'd \<Rightarrow> 'd"
  OptimizeProblemMemoryUse :: "SparseMatrix \<Rightarrow> 'd"
  HPCG_DEBUG :: bool

text \<open>
  Doubles. The type \<open>'d\<close> stands for \<^verbatim>\<open>double\<close>, with \<open>+\<close>, \<open>*\<close>, \<open>/\<close> and \<open>\<le>\<close> of the
  syntactic classes only: no law of arithmetic is assumed, so whatever is proved holds
  for IEEE arithmetic with its rounding, infinities and NaN. The parameter
  \<open>D :: int \<Rightarrow> 'd\<close> is the conversion of an integer to \<^verbatim>\<open>double\<close>; a literal such as
  \<^verbatim>\<open>3.0\<close> or \<^verbatim>\<open>1.0E9\<close> is the conversion of that integer. The array \<^verbatim>\<open>times[]\<close> is the
  function \<open>tms\<close> from the index to the double stored there. Products of \<^verbatim>\<open>int\<close> values
  that are only printed (\<^verbatim>\<open>npx * nx\<close>, \<^verbatim>\<open>refMaxIters * numberOfCgSets\<close>) are products
  of integers.
\<close>

datatype report_error = NullPointer | AssertionFailed | VectorOutOfRange | VectorLengthError

section \<open>The FLOP count model\<close>

record 'd flop_counts =
  fnops_ddot :: 'd
  fnops_waxpby :: 'd
  fnops_sparsemv :: 'd
  fnops_precond :: 'd
  fnops :: 'd
  frefnops :: 'd

text \<open>
  \<^verbatim>\<open>for (int i = 1; i < numberOfMgLevels; ++i) { ... Af = Af->Ac; }\<close> of the FLOP count
  model: \<open>Af\<close> is the pointer to the current level, \<open>acc\<close> is \<^verbatim>\<open>fnops_precond\<close>.
\<close>

function fnops_precond_loop ::
  "(int \<Rightarrow> 'd) \<Rightarrow> 'd \<Rightarrow> int \<Rightarrow> int \<Rightarrow> SparseMatrix option \<Rightarrow> 'd
     \<Rightarrow> report_error + (SparseMatrix option \<times> 'd::{plus,times,inverse,ord})" where
  "fnops_precond_loop D fniters i numberOfMgLevels Af acc =
     (if i < numberOfMgLevels then
        (case Af of
           None \<Rightarrow> Inl NullPointer
         | Some M \<Rightarrow>
             (case mgData M of
                None \<Rightarrow> Inl NullPointer
              | Some mg \<Rightarrow>
                  (let fnnz_Af = D (totalNumberOfNonzeros (sclrs M));
                       fnumberOfPresmootherSteps = D (numberOfPresmootherSteps mg);
                       fnumberOfPostsmootherSteps = D (numberOfPostsmootherSteps mg);
                       acc = acc + fnumberOfPresmootherSteps * fniters * D 4 * fnnz_Af;
                       acc = acc + fniters * D 2 * fnnz_Af;
                       acc = acc + fnumberOfPostsmootherSteps * fniters * D 4 * fnnz_Af
                   in fnops_precond_loop D fniters (i + 1) numberOfMgLevels (Ac M) acc)))
      else Inr (Af, acc))"
  by pat_completeness auto
termination
  by (relation "measure (\<lambda>(D, fniters, i, n, Af, acc). nat (n - i))") auto

declare fnops_precond_loop.simps [simp del]

definition flop_count_model ::
  "(int \<Rightarrow> 'd) \<Rightarrow> SparseMatrix \<Rightarrow> int \<Rightarrow> int \<Rightarrow> int \<Rightarrow> int
     \<Rightarrow> report_error + ('d::{plus,times,inverse,ord}) flop_counts" where
  "flop_count_model D A numberOfMgLevels numberOfCgSets refMaxIters optMaxIters =
     (let fNumberOfCgSets = D numberOfCgSets;
          fniters = fNumberOfCgSets * D optMaxIters;
          fnrow = D (totalNumberOfRows (sclrs A));
          fnnz = D (totalNumberOfNonzeros (sclrs A));
          ddot = (D 3 * fniters + fNumberOfCgSets) * D 2 * fnrow;
          waxpby = (D 3 * fniters + fNumberOfCgSets) * D 2 * fnrow;
          sparsemv = (fniters + fNumberOfCgSets) * D 2 * fnnz
      in case fnops_precond_loop D fniters 1 numberOfMgLevels (Some A) (D 0) of
           Inl e \<Rightarrow> Inl e
         | Inr (Af, precond) \<Rightarrow>
             (case Af of
                None \<Rightarrow> Inl NullPointer
              | Some Afm \<Rightarrow>
                  (let precond = precond + fniters * D 4 * D (totalNumberOfNonzeros (sclrs Afm));
                       ops = ddot + waxpby + sparsemv + precond;
                       refops = ops * D refMaxIters / D optMaxIters
                   in Inr \<lparr>fnops_ddot = ddot, fnops_waxpby = waxpby,
                           fnops_sparsemv = sparsemv, fnops_precond = precond,
                           fnops = ops, frefnops = refops\<rparr>)))"

section \<open>The memory bandwidth model\<close>

record 'd bandwidth_counts =
  fnreads_precond :: 'd
  fnwrites_precond :: 'd
  fnreads :: 'd
  fnwrites :: 'd
  frefnreads :: 'd
  frefnwrites :: 'd

text \<open>
  The loop over the levels of the memory bandwidth model; \<open>r\<close> is \<^verbatim>\<open>fnreads_precond\<close>
  and \<open>w\<close> is \<^verbatim>\<open>fnwrites_precond\<close>, each updated three times in a pass, in the order of
  the source.
\<close>

function rw_precond_loop ::
  "(int \<Rightarrow> 'd) \<Rightarrow> sizes \<Rightarrow> 'd \<Rightarrow> int \<Rightarrow> int \<Rightarrow> SparseMatrix option \<Rightarrow> 'd \<Rightarrow> 'd
     \<Rightarrow> report_error + (SparseMatrix option \<times> 'd \<times> 'd::{plus,times,inverse,ord})" where
  "rw_precond_loop D S fniters i numberOfMgLevels Af r w =
     (if i < numberOfMgLevels then
        (case Af of
           None \<Rightarrow> Inl NullPointer
         | Some M \<Rightarrow>
             (case mgData M of
                None \<Rightarrow> Inl NullPointer
              | Some mg \<Rightarrow>
                  (let fnnz_Af = D (totalNumberOfNonzeros (sclrs M));
                       fnrow_Af = D (totalNumberOfRows (sclrs M));
                       fnumberOfPresmootherSteps = D (numberOfPresmootherSteps mg);
                       fnumberOfPostsmootherSteps = D (numberOfPostsmootherSteps mg);
                       r = r + fnumberOfPresmootherSteps * fniters *
                             (D 2 * fnnz_Af * D (sizeof_double S + sizeof_local_int_t S)
                              + fnrow_Af * D (sizeof_double S));
                       w = w + fnumberOfPresmootherSteps * fniters * fnrow_Af * D (sizeof_double S);
                       r = r + fniters *
                             (fnnz_Af * D (sizeof_double S + sizeof_local_int_t S)
                              + fnrow_Af * D (sizeof_double S));
                       w = w + fniters * fnnz_Af * D (sizeof_double S);
                       r = r + fnumberOfPostsmootherSteps * fniters *
                             (D 2 * fnnz_Af * D (sizeof_double S + sizeof_local_int_t S)
                              + fnrow_Af * D (sizeof_double S));
                       w = w + fnumberOfPostsmootherSteps * fniters * fnnz_Af * D (sizeof_double S)
                   in rw_precond_loop D S fniters (i + 1) numberOfMgLevels (Ac M) r w)))
      else Inr (Af, r, w))"
  by pat_completeness auto
termination
  by (relation "measure (\<lambda>(D, S, fniters, i, n, Af, r, w). nat (n - i))") auto

declare rw_precond_loop.simps [simp del]

definition memory_bandwidth_model ::
  "(int \<Rightarrow> 'd) \<Rightarrow> sizes \<Rightarrow> SparseMatrix \<Rightarrow> int \<Rightarrow> int \<Rightarrow> int \<Rightarrow> int
     \<Rightarrow> report_error + ('d::{plus,times,inverse,ord}) bandwidth_counts" where
  "memory_bandwidth_model D S A numberOfMgLevels numberOfCgSets refMaxIters optMaxIters =
     (let fNumberOfCgSets = D numberOfCgSets;
          fniters = fNumberOfCgSets * D optMaxIters;
          fnrow = D (totalNumberOfRows (sclrs A));
          fnnz = D (totalNumberOfNonzeros (sclrs A));
          fnreads_ddot = (D 3 * fniters + fNumberOfCgSets) * D 2 * fnrow * D (sizeof_double S);
          fnwrites_ddot = (D 3 * fniters + fNumberOfCgSets) * D (sizeof_double S);
          fnreads_waxpby = (D 3 * fniters + fNumberOfCgSets) * D 2 * fnrow * D (sizeof_double S);
          fnwrites_waxpby = (D 3 * fniters + fNumberOfCgSets) * fnrow * D (sizeof_double S);
          fnreads_sparsemv = (fniters + fNumberOfCgSets) *
             (fnnz * D (sizeof_double S + sizeof_local_int_t S) + fnrow * D (sizeof_double S));
          fnwrites_sparsemv = (fniters + fNumberOfCgSets) * fnrow * D (sizeof_double S)
      in case rw_precond_loop D S fniters 1 numberOfMgLevels (Some A) (D 0) (D 0) of
           Inl e \<Rightarrow> Inl e
         | Inr (Af, r, w) \<Rightarrow>
             (case Af of
                None \<Rightarrow> Inl NullPointer
              | Some Afm \<Rightarrow>
                  (let fnnz_Af = D (totalNumberOfNonzeros (sclrs Afm));
                       fnrow_Af = D (totalNumberOfRows (sclrs Afm));
                       r = r + fniters *
                             (D 2 * fnnz_Af * D (sizeof_double S + sizeof_local_int_t S)
                              + fnrow_Af * D (sizeof_double S));
                       w = w + fniters * fnrow_Af * D (sizeof_double S);
                       reads = fnreads_ddot + fnreads_waxpby + fnreads_sparsemv + r;
                       writes = fnwrites_ddot + fnwrites_waxpby + fnwrites_sparsemv + w
                   in Inr \<lparr>fnreads_precond = r, fnwrites_precond = w,
                           fnreads = reads, fnwrites = writes,
                           frefnreads = reads * D refMaxIters / D optMaxIters,
                           frefnwrites = writes * D refMaxIters / D optMaxIters\<rparr>)))"

section \<open>The memory usage model\<close>

record 'd memory_use =
  fnbytes :: 'd
  fnbytes_OptimizedProblem :: 'd
  fnbytesPerEquation :: 'd
  fnbytesPerLevel :: "'d list"

text \<open>\<^verbatim>\<open>fnbytes_Af\<close> of one coarse level, as the body of the loop accumulates it.\<close>

definition fnbytes_level ::
  "(int \<Rightarrow> 'd) \<Rightarrow> sizes \<Rightarrow> 'd \<Rightarrow> SparseMatrix \<Rightarrow> 'd::{plus,times,inverse,ord}" where
  "fnbytes_level D S dsize Af =
     (let Afsclrs = sclrs Af;
          fnrow_Af = D (totalNumberOfRows Afsclrs);
          fncol_Af = D (localNumberOfColumns Afsclrs) * dsize;
          numberOfNonzerosPerRow = D 27;
          b = D 0;
          b = b + fnrow_Af * D (sizeof_local_int_t S);
          b = b + fnrow_Af * D (sizeof_double S);
          b = b + D 2 * fncol_Af * D (sizeof_double S);
          b = b + D (sizeof_Geometry S + sizeof_SparseMatrix S
                     + 3 * sizeof_Array_floatType S + sizeof_MGData S);
          b = b + fnrow_Af * D (sizeof_char S);
          b = b + fnrow_Af * D (sizeof_global_int_t_ptr S);
          b = b + fnrow_Af * D (sizeof_local_int_t_ptr S);
          b = b + fnrow_Af * D (sizeof_double_ptr S);
          b = b + fnrow_Af * D (sizeof_double_ptr S);
          b = b + fnrow_Af * numberOfNonzerosPerRow * D (sizeof_local_int_t S);
          b = b + fnrow_Af * numberOfNonzerosPerRow * D (sizeof_double S);
          b = b + fnrow_Af * numberOfNonzerosPerRow * D (sizeof_global_int_t S);
          b = b + D (sizeof_double S) * D (totalToBeSent Afsclrs);
          b = b + D (sizeof_local_int_t S) * D (totalToBeSent Afsclrs);
          b = b + D (sizeof_int S) * D (numberOfSendNeighbors Afsclrs);
          b = b + D (sizeof_local_int_t S) * D (numberOfSendNeighbors Afsclrs)
      in b)"

text \<open>
  The loop over the coarse levels of the memory usage model, from \<^verbatim>\<open>Af = A.Ac\<close>;
  \<open>perLevel\<close> is the vector \<^verbatim>\<open>fnbytesPerLevel\<close>.
\<close>

function fnbytes_loop ::
  "(int \<Rightarrow> 'd) \<Rightarrow> sizes \<Rightarrow> 'd \<Rightarrow> int \<Rightarrow> int \<Rightarrow> SparseMatrix option \<Rightarrow> 'd list \<Rightarrow> 'd
     \<Rightarrow> report_error + (SparseMatrix option \<times> 'd list \<times> 'd::{plus,times,inverse,ord})" where
  "fnbytes_loop D S dsize i numberOfMgLevels Af perLevel bytes =
     (if i < numberOfMgLevels then
        (case Af of
           None \<Rightarrow> Inl NullPointer
         | Some M \<Rightarrow>
             (let fnbytes_Af = fnbytes_level D S dsize M
              in if 0 \<le> i \<and> nat i < length perLevel
                 then fnbytes_loop D S dsize (i + 1) numberOfMgLevels (Ac M)
                        (perLevel[nat i := fnbytes_Af]) (bytes + fnbytes_Af)
                 else Inl VectorOutOfRange))
      else Inr (Af, perLevel, bytes))"
  by pat_completeness auto
termination
  by (relation "measure (\<lambda>(D, S, dsize, i, n, Af, perLevel, bytes). nat (n - i))") auto

declare fnbytes_loop.simps [simp del]

text \<open>
  The memory usage model, to \<^verbatim>\<open>assert(Af == 0)\<close> and \<^verbatim>\<open>fnbytesPerEquation\<close>. The vector
  \<^verbatim>\<open>fnbytesPerLevel(numberOfMgLevels)\<close> cannot be built with a negative length, and its
  element 0 exists only when \<open>numberOfMgLevels\<close> is at least 1.
\<close>

definition memory_usage_model ::
  "(int \<Rightarrow> 'd) \<Rightarrow> sizes \<Rightarrow> 'd externals \<Rightarrow> SparseMatrix \<Rightarrow> int \<Rightarrow> int
     \<Rightarrow> report_error + ('d::{plus,times,inverse,ord}) memory_use" where
  "memory_usage_model D S X A numberOfMgLevels numberOfCgSets =
     (let Asclrs = sclrs A;
          Ageom = geom A;
          fNumberOfCgSets = D numberOfCgSets;
          fnrow = D (totalNumberOfRows Asclrs);
          numberOfNonzerosPerRow = D 27;
          dsize = D (size_g Ageom);
          b = D (sizeof_Geometry S);
          b = b + D (sizeof_double S) * fNumberOfCgSets;
          b = b + fnrow * D (sizeof_char S);
          b = b + fnrow * D (sizeof_global_int_t_ptr S);
          b = b + fnrow * D (sizeof_local_int_t_ptr S);
          b = b + fnrow * D (sizeof_double_ptr S);
          b = b + fnrow * D (sizeof_double_ptr S);
          b = b + fnrow * numberOfNonzerosPerRow * D (sizeof_local_int_t S);
          b = b + fnrow * numberOfNonzerosPerRow * D (sizeof_double S);
          b = b + fnrow * numberOfNonzerosPerRow * D (sizeof_global_int_t S);
          b = b + fnrow * (D 3 * D (sizeof_double S));
          fncol = D (localNumberOfColumns Asclrs) * dsize;
          b = b + fnrow * (D 2 * D (sizeof_double S));
          b = b + fncol * (D 2 * D (sizeof_double S))
      in if numberOfMgLevels < 0 then Inl VectorLengthError
         else
           (let perLevel = replicate (nat numberOfMgLevels) (D 0)
            in if \<not> 0 < length perLevel then Inl VectorOutOfRange
               else
                 (let perLevel = perLevel[0 := b];
                      optimized = OptimizeProblemMemoryUse X A;
                      b = b + optimized
                  in case fnbytes_loop D S dsize 1 numberOfMgLevels (Ac A) perLevel b of
                       Inl e \<Rightarrow> Inl e
                     | Inr (Af, perLevel, b) \<Rightarrow>
                         if Af \<noteq> None then Inl AssertionFailed
                         else Inr \<lparr>fnbytes = b, fnbytes_OptimizedProblem = optimized,
                                   fnbytesPerEquation = b / fnrow,
                                   fnbytesPerLevel = perLevel\<rparr>)))"

section \<open>The statements that build the report\<close>

text \<open>The document as \<^verbatim>\<open>YAML_Doc doc("HPCG-Benchmark", "3.0")\<close> constructs it.\<close>

definition YAML_Doc :: "string \<Rightarrow> string \<Rightarrow> 'd YAML_Element" where
  "YAML_Doc miniApp_Name miniApp_Version = YAML_Element miniApp_Name (YString miniApp_Version) []"

text \<open>
  The statements of \<^verbatim>\<open>ReportResults\<close> on \<^verbatim>\<open>doc\<close>, in the order of the source, one list
  for each top-level \<^verbatim>\<open>doc.add\<close> and the statements that follow it.
\<close>

definition stmts_release_date :: "'d doc_stmt list" where
  "stmts_release_date = [Add [] ''Release date'' (YString ''November 11, 2015'')]"

definition stmts_machine_summary :: "Geometry \<Rightarrow> 'd doc_stmt list" where
  "stmts_machine_summary Ageom =
     [Add [] ''Machine Summary'' (YString ''''),
      Add [''Machine Summary''] ''Distributed Processes'' (YInt (size_g Ageom)),
      Add [''Machine Summary''] ''Threads per processes'' (YInt (numThreads Ageom))]"

definition stmts_global_problem_dimensions :: "Geometry \<Rightarrow> 'd doc_stmt list" where
  "stmts_global_problem_dimensions Ageom =
     [Add [] ''Global Problem Dimensions'' (YString ''''),
      Add [''Global Problem Dimensions''] ''Global nx'' (YInt (npx Ageom * nx Ageom)),
      Add [''Global Problem Dimensions''] ''Global ny'' (YInt (npy Ageom * ny Ageom)),
      Add [''Global Problem Dimensions''] ''Global nz'' (YInt (npz Ageom * nz Ageom))]"

definition stmts_processor_dimensions :: "Geometry \<Rightarrow> 'd doc_stmt list" where
  "stmts_processor_dimensions Ageom =
     [Add [] ''Processor Dimensions'' (YString ''''),
      Add [''Processor Dimensions''] ''npx'' (YInt (npx Ageom)),
      Add [''Processor Dimensions''] ''npy'' (YInt (npy Ageom)),
      Add [''Processor Dimensions''] ''npz'' (YInt (npz Ageom))]"

definition stmts_local_domain_dimensions :: "Geometry \<Rightarrow> 'd doc_stmt list" where
  "stmts_local_domain_dimensions Ageom =
     [Add [] ''Local Domain Dimensions'' (YString ''''),
      Add [''Local Domain Dimensions''] ''nx'' (YInt (nx Ageom)),
      Add [''Local Domain Dimensions''] ''ny'' (YInt (ny Ageom)),
      Add [''Local Domain Dimensions''] ''nz'' (YInt (nz Ageom))]"

definition stmts_problem_summary :: "'d doc_stmt list" where
  "stmts_problem_summary = [Add [] ''########## Problem Summary  ##########'' (YString '''')]"

definition stmts_setup_information :: "(nat \<Rightarrow> 'd) \<Rightarrow> 'd doc_stmt list" where
  "stmts_setup_information tms =
     [Add [] ''Setup Information'' (YString ''''),
      Add [''Setup Information''] ''Setup Time'' (YDouble (tms 9))]"

definition stmts_linear_system_information :: "SparseMatrixScalars \<Rightarrow> 'd doc_stmt list" where
  "stmts_linear_system_information Asclrs =
     [Add [] ''Linear System Information'' (YString ''''),
      Add [''Linear System Information''] ''Number of Equations''
        (YInt (totalNumberOfRows Asclrs)),
      Add [''Linear System Information''] ''Number of Nonzero Terms''
        (YInt (totalNumberOfNonzeros Asclrs))]"

text \<open>
  The loop that lists the coarse grids under "Multigrid Information": it reads
  \<^verbatim>\<open>Af->Ac->sclrs\<close> and \<^verbatim>\<open>Af->mgData\<close>, then steps to \<^verbatim>\<open>Af->Ac\<close>.
\<close>

function stmts_coarse_grids ::
  "int \<Rightarrow> int \<Rightarrow> SparseMatrix option \<Rightarrow> report_error + 'd doc_stmt list" where
  "stmts_coarse_grids i numberOfMgLevels Af =
     (if i < numberOfMgLevels then
        (case Af of
           None \<Rightarrow> Inl NullPointer
         | Some M \<Rightarrow>
             (case Ac M of
                None \<Rightarrow> Inl NullPointer
              | Some Mc \<Rightarrow>
                  (case mgData M of
                     None \<Rightarrow> Inl NullPointer
                   | Some mg \<Rightarrow>
                       (case stmts_coarse_grids (i + 1) numberOfMgLevels (Ac M) of
                          Inl e \<Rightarrow> Inl e
                        | Inr rest \<Rightarrow>
                            Inr ([Add [''Multigrid Information'', ''Coarse Grids'']
                                    ''Grid Level'' (YInt i),
                                  Add [''Multigrid Information'', ''Coarse Grids'']
                                    ''Number of Equations''
                                    (YInt (totalNumberOfRows (sclrs Mc))),
                                  Add [''Multigrid Information'', ''Coarse Grids'']
                                    ''Number of Nonzero Terms''
                                    (YInt (totalNumberOfNonzeros (sclrs Mc))),
                                  Add [''Multigrid Information'', ''Coarse Grids'']
                                    ''Number of Presmoother Steps''
                                    (YInt (numberOfPresmootherSteps mg)),
                                  Add [''Multigrid Information'', ''Coarse Grids'']
                                    ''Number of Postsmoother Steps''
                                    (YInt (numberOfPostsmootherSteps mg))] @ rest)))))
      else Inr [])"
  by pat_completeness auto
termination
  by (relation "measure (\<lambda>(i, n, Af). nat (n - i))") auto

declare stmts_coarse_grids.simps [simp del]

definition stmts_multigrid_information ::
  "SparseMatrix \<Rightarrow> int \<Rightarrow> report_error + 'd doc_stmt list" where
  "stmts_multigrid_information A numberOfMgLevels =
     (case stmts_coarse_grids 1 numberOfMgLevels (Some A) of
        Inl e \<Rightarrow> Inl e
      | Inr grids \<Rightarrow>
          Inr ([Add [] ''Multigrid Information'' (YString ''''),
                Add [''Multigrid Information''] ''Number of coarse grid levels''
                  (YInt (numberOfMgLevels - 1)),
                Add [''Multigrid Information''] ''Coarse Grids'' (YString '''')] @ grids))"

definition stmts_memory_use_summary :: "'d doc_stmt list" where
  "stmts_memory_use_summary =
     [Add [] ''########## Memory Use Summary  ##########'' (YString '''')]"

text \<open>The loop that lists the memory of the coarse grids, from the vector.\<close>

function stmts_memory_coarse_grids ::
  "(int \<Rightarrow> 'd) \<Rightarrow> int \<Rightarrow> int \<Rightarrow> 'd list
     \<Rightarrow> report_error + ('d::{plus,times,inverse,ord}) doc_stmt list" where
  "stmts_memory_coarse_grids D i numberOfMgLevels perLevel =
     (if i < numberOfMgLevels then
        (if 0 \<le> i \<and> nat i < length perLevel then
           (case stmts_memory_coarse_grids D (i + 1) numberOfMgLevels perLevel of
              Inl e \<Rightarrow> Inl e
            | Inr rest \<Rightarrow>
                Inr ([Add [''Memory Use Information'', ''Coarse Grids'']
                        ''Grid Level'' (YInt i),
                      Add [''Memory Use Information'', ''Coarse Grids'']
                        ''Memory used'' (YDouble (perLevel ! nat i / D 1000000000))] @ rest))
         else Inl VectorOutOfRange)
      else Inr [])"
  by pat_completeness auto
termination
  by (relation "measure (\<lambda>(D, i, n, perLevel). nat (n - i))") auto

declare stmts_memory_coarse_grids.simps [simp del]

definition stmts_memory_use_information ::
  "(int \<Rightarrow> 'd) \<Rightarrow> int \<Rightarrow> 'd memory_use
     \<Rightarrow> report_error + ('d::{plus,times,inverse,ord}) doc_stmt list" where
  "stmts_memory_use_information D numberOfMgLevels mem =
     (if \<not> 0 < length (fnbytesPerLevel mem) then Inl VectorOutOfRange
      else
        (case stmts_memory_coarse_grids D 1 numberOfMgLevels (fnbytesPerLevel mem) of
           Inl e \<Rightarrow> Inl e
         | Inr grids \<Rightarrow>
             Inr ([Add [] ''Memory Use Information'' (YString ''''),
                   Add [''Memory Use Information''] ''Total memory used for data (Gbytes)''
                     (YDouble (fnbytes mem / D 1000000000)),
                   Add [''Memory Use Information'']
                     ''Memory used for OptimizeProblem data (Gbytes)''
                     (YDouble (fnbytes_OptimizedProblem mem / D 1000000000)),
                   Add [''Memory Use Information'']
                     ''Bytes per equation (Total memory / Number of Equations)''
                     (YDouble (fnbytesPerEquation mem)),
                   Add [''Memory Use Information'']
                     ''Memory used for linear system and CG (Gbytes)''
                     (YDouble (fnbytesPerLevel mem ! 0 / D 1000000000)),
                   Add [''Memory Use Information''] ''Coarse Grids'' (YString '''')] @ grids)))"

definition stmts_vv_testing_summary :: "'d doc_stmt list" where
  "stmts_vv_testing_summary =
     [Add [] ''########## V&V Testing Summary  ##########'' (YString '''')]"

definition stmts_spectral_convergence_tests :: "TestCGData \<Rightarrow> 'd doc_stmt list" where
  "stmts_spectral_convergence_tests testcg_data =
     [Add [] ''Spectral Convergence Tests'' (YString ''''),
      (if TestCGData.count_fail testcg_data = 0
       then Add [''Spectral Convergence Tests''] ''Result'' (YString ''PASSED'')
       else Add [''Spectral Convergence Tests''] ''Result'' (YString ''FAILED'')),
      Add [''Spectral Convergence Tests''] ''Unpreconditioned'' (YString ''''),
      Add [''Spectral Convergence Tests'', ''Unpreconditioned''] ''Maximum iteration count''
        (YInt (niters_max_no_prec testcg_data)),
      Add [''Spectral Convergence Tests'', ''Unpreconditioned''] ''Expected iteration count''
        (YInt (expected_niters_no_prec testcg_data)),
      Add [''Spectral Convergence Tests''] ''Preconditioned'' (YString ''''),
      Add [''Spectral Convergence Tests'', ''Preconditioned''] ''Maximum iteration count''
        (YInt (niters_max_prec testcg_data)),
      Add [''Spectral Convergence Tests'', ''Preconditioned''] ''Expected iteration count''
        (YInt (expected_niters_prec testcg_data))]"

definition DepartureFromSymmetry :: string where
  "DepartureFromSymmetry =
     ''Departure from Symmetry |x'Ay-y'Ax|/(2*||x||*||A||*||y||)/epsilon''"

definition stmts_departure_from_symmetry :: "'d TestSymmetryData \<Rightarrow> 'd doc_stmt list" where
  "stmts_departure_from_symmetry testsymmetry_data =
     [Add [] DepartureFromSymmetry (YString ''''),
      (if TestSymmetryData.count_fail testsymmetry_data = 0
       then Add [DepartureFromSymmetry] ''Result'' (YString ''PASSED'')
       else Add [DepartureFromSymmetry] ''Result'' (YString ''FAILED'')),
      Add [DepartureFromSymmetry] ''Departure for SpMV''
        (YDouble (depsym_spmv testsymmetry_data)),
      Add [DepartureFromSymmetry] ''Departure for MG''
        (YDouble (depsym_mg testsymmetry_data))]"

definition stmts_iterations_summary :: "'d doc_stmt list" where
  "stmts_iterations_summary =
     [Add [] ''########## Iterations Summary  ##########'' (YString '''')]"

definition stmts_iteration_count_information ::
  "int \<Rightarrow> int \<Rightarrow> int \<Rightarrow> int \<Rightarrow> 'd doc_stmt list" where
  "stmts_iteration_count_information global_failure refMaxIters optMaxIters numberOfCgSets =
     [Add [] ''Iteration Count Information'' (YString ''''),
      (if global_failure = 0
       then Add [''Iteration Count Information''] ''Result'' (YString ''PASSED'')
       else Add [''Iteration Count Information''] ''Result'' (YString ''FAILED'')),
      Add [''Iteration Count Information''] ''Reference CG iterations per set''
        (YInt refMaxIters),
      Add [''Iteration Count Information''] ''Optimized CG iterations per set''
        (YInt optMaxIters),
      Add [''Iteration Count Information''] ''Total number of reference iterations''
        (YInt (refMaxIters * numberOfCgSets)),
      Add [''Iteration Count Information''] ''Total number of optimized iterations''
        (YInt (optMaxIters * numberOfCgSets))]"

definition stmts_reproducibility_summary :: "'d doc_stmt list" where
  "stmts_reproducibility_summary =
     [Add [] ''########## Reproducibility Summary  ##########'' (YString '''')]"

definition stmts_reproducibility_information :: "'d TestNormsData \<Rightarrow> 'd doc_stmt list" where
  "stmts_reproducibility_information testnorms_data =
     [Add [] ''Reproducibility Information'' (YString ''''),
      (if pass testnorms_data
       then Add [''Reproducibility Information''] ''Result'' (YString ''PASSED'')
       else Add [''Reproducibility Information''] ''Result'' (YString ''FAILED'')),
      Add [''Reproducibility Information''] ''Scaled residual mean''
        (YDouble (mean testnorms_data)),
      Add [''Reproducibility Information''] ''Scaled residual variance''
        (YDouble (variance testnorms_data))]"

definition stmts_performance_summary :: "'d doc_stmt list" where
  "stmts_performance_summary =
     [Add [] ''########## Performance Summary (times in sec) ##########'' (YString '''')]"

definition stmts_benchmark_time_summary :: "(nat \<Rightarrow> 'd) \<Rightarrow> 'd doc_stmt list" where
  "stmts_benchmark_time_summary tms =
     [Add [] ''Benchmark Time Summary'' (YString ''''),
      Add [''Benchmark Time Summary''] ''Optimization phase'' (YDouble (tms 7)),
      Add [''Benchmark Time Summary''] ''DDOT'' (YDouble (tms 1)),
      Add [''Benchmark Time Summary''] ''WAXPBY'' (YDouble (tms 2)),
      Add [''Benchmark Time Summary''] ''SpMV'' (YDouble (tms 3)),
      Add [''Benchmark Time Summary''] ''MG'' (YDouble (tms 5)),
      Add [''Benchmark Time Summary''] ''Total'' (YDouble (tms 0))]"

definition stmts_floating_point_operations_summary :: "'d flop_counts \<Rightarrow> 'd doc_stmt list" where
  "stmts_floating_point_operations_summary ops =
     [Add [] ''Floating Point Operations Summary'' (YString ''''),
      Add [''Floating Point Operations Summary''] ''Raw DDOT'' (YDouble (fnops_ddot ops)),
      Add [''Floating Point Operations Summary''] ''Raw WAXPBY'' (YDouble (fnops_waxpby ops)),
      Add [''Floating Point Operations Summary''] ''Raw SpMV'' (YDouble (fnops_sparsemv ops)),
      Add [''Floating Point Operations Summary''] ''Raw MG'' (YDouble (fnops_precond ops)),
      Add [''Floating Point Operations Summary''] ''Total'' (YDouble (fnops ops)),
      Add [''Floating Point Operations Summary''] ''Total with convergence overhead''
        (YDouble (frefnops ops))]"

definition stmts_gbs_summary ::
  "(int \<Rightarrow> 'd) \<Rightarrow> (nat \<Rightarrow> 'd) \<Rightarrow> 'd \<Rightarrow> 'd bandwidth_counts
     \<Rightarrow> ('d::{plus,times,inverse,ord}) doc_stmt list" where
  "stmts_gbs_summary D tms fNumberOfCgSets bw =
     [Add [] ''GB/s Summary'' (YString ''''),
      Add [''GB/s Summary''] ''Raw Read B/W''
        (YDouble (fnreads bw / tms 0 / D 1000000000)),
      Add [''GB/s Summary''] ''Raw Write B/W''
        (YDouble (fnwrites bw / tms 0 / D 1000000000)),
      Add [''GB/s Summary''] ''Raw Total B/W''
        (YDouble ((fnreads bw + fnwrites bw) / tms 0 / D 1000000000)),
      Add [''GB/s Summary''] ''Total with convergence and optimization phase overhead''
        (YDouble ((frefnreads bw + frefnwrites bw)
                  / (tms 0 + fNumberOfCgSets * (tms 7 / D 10 + tms 9 / D 10))
                  / D 1000000000))]"

text \<open>\<^verbatim>\<open>totalGflops\<close> and \<^verbatim>\<open>totalGflops24\<close>.\<close>

definition totalGflops ::
  "(int \<Rightarrow> 'd) \<Rightarrow> (nat \<Rightarrow> 'd) \<Rightarrow> 'd \<Rightarrow> 'd flop_counts \<Rightarrow> 'd::{plus,times,inverse,ord}" where
  "totalGflops D tms fNumberOfCgSets ops =
     frefnops ops / (tms 0 + fNumberOfCgSets * (tms 7 / D 10 + tms 9 / D 10)) / D 1000000000"

definition totalGflops24 ::
  "(int \<Rightarrow> 'd) \<Rightarrow> (nat \<Rightarrow> 'd) \<Rightarrow> 'd \<Rightarrow> 'd flop_counts \<Rightarrow> 'd::{plus,times,inverse,ord}" where
  "totalGflops24 D tms fNumberOfCgSets ops =
     frefnops ops / (tms 0 + fNumberOfCgSets * tms 7 / D 10) / D 1000000000"

definition stmts_gflops_summary ::
  "(int \<Rightarrow> 'd) \<Rightarrow> (nat \<Rightarrow> 'd) \<Rightarrow> 'd \<Rightarrow> 'd flop_counts
     \<Rightarrow> ('d::{plus,times,inverse,ord}) doc_stmt list" where
  "stmts_gflops_summary D tms fNumberOfCgSets ops =
     [Add [] ''GFLOP/s Summary'' (YString ''''),
      Add [''GFLOP/s Summary''] ''Raw DDOT''
        (YDouble (fnops_ddot ops / tms 1 / D 1000000000)),
      Add [''GFLOP/s Summary''] ''Raw WAXPBY''
        (YDouble (fnops_waxpby ops / tms 2 / D 1000000000)),
      Add [''GFLOP/s Summary''] ''Raw SpMV''
        (YDouble (fnops_sparsemv ops / tms 3 / D 1000000000)),
      Add [''GFLOP/s Summary''] ''Raw MG''
        (YDouble (fnops_precond ops / tms 5 / D 1000000000)),
      Add [''GFLOP/s Summary''] ''Raw Total''
        (YDouble (fnops ops / tms 0 / D 1000000000)),
      Add [''GFLOP/s Summary''] ''Total with convergence overhead''
        (YDouble (frefnops ops / tms 0 / D 1000000000)),
      Add [''GFLOP/s Summary''] ''Total with convergence and optimization phase overhead''
        (YDouble (totalGflops D tms fNumberOfCgSets ops))]"

definition stmts_user_optimization_overheads ::
  "(nat \<Rightarrow> 'd) \<Rightarrow> ('d::{plus,times,inverse,ord}) doc_stmt list" where
  "stmts_user_optimization_overheads tms =
     [Add [] ''User Optimization Overheads'' (YString ''''),
      Add [''User Optimization Overheads''] ''Optimization phase time (sec)''
        (YDouble (tms 7)),
      Add [''User Optimization Overheads'']
        ''Optimization phase time vs reference SpMV+MG time'' (YDouble (tms 7 / tms 8))]"

definition stmts_ddot_timing_variations :: "'d \<Rightarrow> 'd \<Rightarrow> 'd \<Rightarrow> 'd doc_stmt list" where
  "stmts_ddot_timing_variations t4min t4max t4avg =
     [Add [] ''DDOT Timing Variations'' (YString ''''),
      Add [''DDOT Timing Variations''] ''Min DDOT MPI_Allreduce time'' (YDouble t4min),
      Add [''DDOT Timing Variations''] ''Max DDOT MPI_Allreduce time'' (YDouble t4max),
      Add [''DDOT Timing Variations''] ''Avg DDOT MPI_Allreduce time'' (YDouble t4avg)]"

text \<open>\<^verbatim>\<open>bool isValidRun\<close>; \<^verbatim>\<open>!global_failure\<close> on an \<^verbatim>\<open>int\<close> is \<open>global_failure = 0\<close>.\<close>

definition isValidRun :: "TestCGData \<Rightarrow> 'd TestSymmetryData \<Rightarrow> 'd TestNormsData \<Rightarrow> int \<Rightarrow> bool" where
  "isValidRun testcg_data testsymmetry_data testnorms_data global_failure =
     (TestCGData.count_fail testcg_data = 0
      \<and> TestSymmetryData.count_fail testsymmetry_data = 0
      \<and> pass testnorms_data
      \<and> global_failure = 0)"

definition FinalSummary :: string where
  "FinalSummary = ''__________ Final Summary __________''"

definition stmts_final_summary ::
  "(int \<Rightarrow> 'd) \<Rightarrow> SparseMatrix \<Rightarrow> (nat \<Rightarrow> 'd) \<Rightarrow> 'd \<Rightarrow> 'd flop_counts \<Rightarrow> bool \<Rightarrow> bool
     \<Rightarrow> ('d::{plus,times,inverse,ord}) doc_stmt list" where
  "stmts_final_summary D A tms fNumberOfCgSets ops valid quickPath =
     (let minOfficialTime = D 1800 in
      [Add [] FinalSummary (YString '''')] @
      (if valid then
         [Add [FinalSummary] ''HPCG result is VALID with a GFLOP/s rating of''
            (YDouble (totalGflops D tms fNumberOfCgSets ops)),
          Add [FinalSummary] ''    HPCG 2.4 Rating (for historical value) is''
            (YDouble (totalGflops24 D tms fNumberOfCgSets ops))] @
         (if \<not> isDotProductOptimized A then
            [Add [FinalSummary] ''Reference version of ComputeDotProduct used''
               (YString ''Performance results are most likely suboptimal'')]
          else []) @
         (if \<not> isSpmvOptimized A then
            [Add [FinalSummary] ''Reference version of ComputeSPMV used''
               (YString ''Performance results are most likely suboptimal'')]
          else []) @
         (if \<not> isMgOptimized A then
            (if numThreads (geom A) > 1 then
               [Add [FinalSummary]
                  ''Reference version of ComputeMG used and number of threads greater than 1''
                  (YString ''Performance results are severely suboptimal'')]
             else
               [Add [FinalSummary] ''Reference version of ComputeMG used''
                  (YString ''Performance results are most likely suboptimal'')])
          else []) @
         (if \<not> isWaxpbyOptimized A then
            [Add [FinalSummary] ''Reference version of ComputeWAXPBY used''
               (YString ''Performance results are most likely suboptimal'')]
          else []) @
         (if tms 0 \<ge> minOfficialTime then
            [Add [FinalSummary] ''Please upload results from the YAML file contents to''
               (YString ''http://hpcg-benchmark.org'')]
          else
            [Add [FinalSummary] ''Results are valid but execution time (sec) is''
               (YDouble (tms 0))] @
            (if quickPath then
               [Add [FinalSummary] ''     You have selected the QuickPath option''
                  (YString ''Results are official for legacy installed systems with confirmation from the HPCG Benchmark leaders.''),
                Add [FinalSummary]
                  ''     After confirmation please upload results from the YAML file contents to''
                  (YString ''http://hpcg-benchmark.org'')]
             else
               [Add [FinalSummary]
                  ''     Official results execution time (sec) must be at least''
                  (YDouble minOfficialTime)]))
       else
         [Add [FinalSummary] ''HPCG result is'' (YString ''INVALID.''),
          Add [FinalSummary] ''Please review the YAML file contents''
            (YString ''You may NOT submit these results for consideration.'')]))"

text \<open>All the statements on the document, from the first \<^verbatim>\<open>doc.add\<close> to the last.\<close>

definition report_statements ::
  "(int \<Rightarrow> 'd) \<Rightarrow> SparseMatrix \<Rightarrow> int \<Rightarrow> int \<Rightarrow> int \<Rightarrow> int \<Rightarrow> (nat \<Rightarrow> 'd)
     \<Rightarrow> TestCGData \<Rightarrow> 'd TestSymmetryData \<Rightarrow> 'd TestNormsData \<Rightarrow> int \<Rightarrow> bool
     \<Rightarrow> 'd \<Rightarrow> 'd \<Rightarrow> 'd \<Rightarrow> 'd flop_counts \<Rightarrow> 'd bandwidth_counts \<Rightarrow> 'd memory_use
     \<Rightarrow> report_error + ('d::{plus,times,inverse,ord}) doc_stmt list" where
  "report_statements D A numberOfMgLevels numberOfCgSets refMaxIters optMaxIters tms
       testcg_data testsymmetry_data testnorms_data global_failure quickPath
       t4min t4max t4avg ops bw mem =
     (case stmts_multigrid_information A numberOfMgLevels of
        Inl e \<Rightarrow> Inl e
      | Inr multigrid_information \<Rightarrow>
          (case stmts_memory_use_information D numberOfMgLevels mem of
             Inl e \<Rightarrow> Inl e
           | Inr memory_use_information \<Rightarrow>
               Inr (stmts_release_date
                  @ stmts_machine_summary (geom A)
                  @ stmts_global_problem_dimensions (geom A)
                  @ stmts_processor_dimensions (geom A)
                  @ stmts_local_domain_dimensions (geom A)
                  @ stmts_problem_summary
                  @ stmts_setup_information tms
                  @ stmts_linear_system_information (sclrs A)
                  @ multigrid_information
                  @ stmts_memory_use_summary
                  @ memory_use_information
                  @ stmts_vv_testing_summary
                  @ stmts_spectral_convergence_tests testcg_data
                  @ stmts_departure_from_symmetry testsymmetry_data
                  @ stmts_iterations_summary
                  @ stmts_iteration_count_information global_failure refMaxIters optMaxIters
                      numberOfCgSets
                  @ stmts_reproducibility_summary
                  @ stmts_reproducibility_information testnorms_data
                  @ stmts_performance_summary
                  @ stmts_benchmark_time_summary tms
                  @ stmts_floating_point_operations_summary ops
                  @ stmts_gbs_summary D tms (D numberOfCgSets) bw
                  @ stmts_gflops_summary D tms (D numberOfCgSets) ops
                  @ stmts_user_optimization_overheads tms
                  @ stmts_ddot_timing_variations t4min t4max t4avg
                  @ stmts_final_summary D A tms (D numberOfCgSets) ops
                      (isValidRun testcg_data testsymmetry_data testnorms_data global_failure)
                      quickPath)))"

section \<open>ReportResults\<close>

text \<open>
  What a call of \<^verbatim>\<open>ReportResults\<close> leaves behind: the reductions it took part in, in
  order, each with the value it contributed; the document it built and handed to
  \<^verbatim>\<open>generateYAML\<close> (\<open>None\<close> when it built none); and what it wrote to \<^verbatim>\<open>HPCG_fout\<close>.
\<close>

record 'd report_outcome =
  reductions :: "(reduce_op \<times> 'd) list"
  yaml :: "'d YAML_Element option"
  HPCG_fout :: "'d YAML_Element list"

definition ReportResults ::
  "(int \<Rightarrow> 'd) \<Rightarrow> sizes \<Rightarrow> 'd externals \<Rightarrow> SparseMatrix \<Rightarrow> int \<Rightarrow> int \<Rightarrow> int \<Rightarrow> int
     \<Rightarrow> (nat \<Rightarrow> 'd) \<Rightarrow> TestCGData \<Rightarrow> 'd TestSymmetryData \<Rightarrow> 'd TestNormsData \<Rightarrow> int \<Rightarrow> bool
     \<Rightarrow> report_error + ('d::{plus,times,inverse,ord}) report_outcome" where
  "ReportResults D S X A numberOfMgLevels numberOfCgSets refMaxIters optMaxIters tms
       testcg_data testsymmetry_data testnorms_data global_failure quickPath =
     (let Ageom = geom A;
          t4 = tms 4;
          t4min = allReduce X MinFT t4;
          t4max = allReduce X MaxFT t4;
          t4avg = allReduce X SumFT t4;
          t4avg = t4avg / D (size_g Ageom);
          reds = [(MinFT, t4), (MaxFT, t4), (SumFT, t4)]
      in if rank Ageom = 0 then
           (case flop_count_model D A numberOfMgLevels numberOfCgSets refMaxIters optMaxIters of
              Inl e \<Rightarrow> Inl e
            | Inr ops \<Rightarrow>
           (case memory_bandwidth_model D S A numberOfMgLevels numberOfCgSets refMaxIters
                   optMaxIters of
              Inl e \<Rightarrow> Inl e
            | Inr bw \<Rightarrow>
           (case memory_usage_model D S X A numberOfMgLevels numberOfCgSets of
              Inl e \<Rightarrow> Inl e
            | Inr mem \<Rightarrow>
           (case report_statements D A numberOfMgLevels numberOfCgSets refMaxIters optMaxIters
                   tms testcg_data testsymmetry_data testnorms_data global_failure quickPath
                   t4min t4max t4avg ops bw mem of
              Inl e \<Rightarrow> Inl e
            | Inr stmts \<Rightarrow>
           (case run stmts (YAML_Doc ''HPCG-Benchmark'' ''3.0'') of
              None \<Rightarrow> Inl NullPointer
            | Some doc \<Rightarrow>
                Inr \<lparr>reductions = reds, yaml = Some doc,
                     HPCG_fout = (if HPCG_DEBUG X then [doc] else [])\<rparr>)))))
         else Inr \<lparr>reductions = reds, yaml = None, HPCG_fout = []\<rparr>)"

section \<open>Notions used to state and prove the properties of the report\<close>

text \<open>
  A block is a top-level \<^verbatim>\<open>doc.add(a, v)\<close> followed by statements that all go through
  \<^verbatim>\<open>doc.get(a)\<close>. Such a block adds one element to the document: the one obtained by
  running the statements, with the leading \<^verbatim>\<open>doc.get(a)\<close> removed, on the new element.
\<close>

fun stmt_path :: "'d doc_stmt \<Rightarrow> string list" where
  "stmt_path (Add p k v) = p"

fun pop :: "'d doc_stmt \<Rightarrow> 'd doc_stmt" where
  "pop (Add p k v) = Add (tl p) k v"

fun leaf_of :: "'d doc_stmt \<Rightarrow> 'd YAML_Element" where
  "leaf_of (Add p k v) = YAML_Element k v []"

definition under :: "string \<Rightarrow> 'd doc_stmt \<Rightarrow> bool" where
  "under a s = (stmt_path s \<noteq> [] \<and> hd (stmt_path s) = a)"

fun block_key :: "'d doc_stmt list \<Rightarrow> string" where
  "block_key [] = []"
| "block_key (Add p a v # L) = a"

fun block_value :: "'d doc_stmt list \<Rightarrow> 'd yaml_value" where
  "block_value [] = YString []"
| "block_value (Add p a v # L) = v"

fun block_elt :: "'d doc_stmt list \<Rightarrow> 'd YAML_Element" where
  "block_elt [] = YAML_Element [] (YString []) []"
| "block_elt (Add p a v # L) = the (run (map pop L) (YAML_Element a v []))"

fun block_ok :: "'d doc_stmt list \<Rightarrow> bool" where
  "block_ok [] = False"
| "block_ok (Add p a v # L) =
     (p = [] \<and> list_all (under a) L \<and> run (map pop L) (YAML_Element a v []) \<noteq> None)"

text \<open>
  The levels of a matrix, finest first: \<^verbatim>\<open>A\<close>, \<^verbatim>\<open>A.Ac\<close>, \<^verbatim>\<open>A.Ac->Ac\<close>, ... to the
  level whose \<^verbatim>\<open>Ac\<close> is null.
\<close>

fun levels :: "SparseMatrix \<Rightarrow> SparseMatrix list" where
  "levels (SparseMatrix g s mg ac o1 o2 o3 o4) =
     SparseMatrix g s mg ac o1 o2 o3 o4 # (case ac of None \<Rightarrow> [] | Some M \<Rightarrow> levels M)"

text \<open>
  The hierarchy that \<^verbatim>\<open>ReportResults\<close> expects: \<open>numberOfMgLevels\<close> is at least 1, the
  matrix has exactly that many levels, and every level but the coarsest has its
  \<^verbatim>\<open>mgData\<close>.
\<close>

definition hierarchy_ok :: "int \<Rightarrow> SparseMatrix \<Rightarrow> bool" where
  "hierarchy_ok numberOfMgLevels A =
     (1 \<le> numberOfMgLevels \<and> int (length (levels A)) = numberOfMgLevels
      \<and> list_all (\<lambda>M. mgData M \<noteq> None) (butlast (levels A)))"

text \<open>
  The top-level sections that the spec requires, in its order; the header that the spec
  abbreviates ("Departure from Symmetry ...") is written out.
\<close>

definition required_sections :: "string list" where
  "required_sections =
     [''Machine Summary'', ''Global Problem Dimensions'', ''Processor Dimensions'',
      ''Local Domain Dimensions'', ''########## Problem Summary  ##########'',
      ''Setup Information'', ''Linear System Information'', ''Multigrid Information'',
      ''########## Memory Use Summary  ##########'', ''Memory Use Information'',
      ''########## V&V Testing Summary  ##########'', ''Spectral Convergence Tests'',
      ''Departure from Symmetry |x'Ay-y'Ax|/(2*||x||*||A||*||y||)/epsilon'',
      ''########## Iterations Summary  ##########'', ''Iteration Count Information'',
      ''########## Reproducibility Summary  ##########'', ''Reproducibility Information'',
      ''########## Performance Summary (times in sec) ##########'',
      ''Benchmark Time Summary'', ''Floating Point Operations Summary'', ''GB/s Summary'',
      ''GFLOP/s Summary'', ''User Optimization Overheads'', ''DDOT Timing Variations'',
      ''__________ Final Summary __________'']"

text \<open>
  The blocks of the report, in the order of \<open>report_statements\<close>; \<open>mi\<close> and \<open>mu\<close> are the
  statements of "Multigrid Information" and of "Memory Use Information".
\<close>

definition report_blocks ::
  "(int \<Rightarrow> 'd) \<Rightarrow> SparseMatrix \<Rightarrow> int \<Rightarrow> int \<Rightarrow> int \<Rightarrow> (nat \<Rightarrow> 'd)
     \<Rightarrow> TestCGData \<Rightarrow> 'd TestSymmetryData \<Rightarrow> 'd TestNormsData \<Rightarrow> int \<Rightarrow> bool
     \<Rightarrow> 'd \<Rightarrow> 'd \<Rightarrow> 'd \<Rightarrow> 'd flop_counts \<Rightarrow> 'd bandwidth_counts
     \<Rightarrow> 'd doc_stmt list \<Rightarrow> 'd doc_stmt list
     \<Rightarrow> ('d::{plus,times,inverse,ord}) doc_stmt list list" where
  "report_blocks D A numberOfCgSets refMaxIters optMaxIters tms
       testcg_data testsymmetry_data testnorms_data global_failure quickPath
       t4min t4max t4avg ops bw mi mu =
     [stmts_release_date,
      stmts_machine_summary (geom A),
      stmts_global_problem_dimensions (geom A),
      stmts_processor_dimensions (geom A),
      stmts_local_domain_dimensions (geom A),
      stmts_problem_summary,
      stmts_setup_information tms,
      stmts_linear_system_information (sclrs A),
      mi,
      stmts_memory_use_summary,
      mu,
      stmts_vv_testing_summary,
      stmts_spectral_convergence_tests testcg_data,
      stmts_departure_from_symmetry testsymmetry_data,
      stmts_iterations_summary,
      stmts_iteration_count_information global_failure refMaxIters optMaxIters numberOfCgSets,
      stmts_reproducibility_summary,
      stmts_reproducibility_information testnorms_data,
      stmts_performance_summary,
      stmts_benchmark_time_summary tms,
      stmts_floating_point_operations_summary ops,
      stmts_gbs_summary D tms (D numberOfCgSets) bw,
      stmts_gflops_summary D tms (D numberOfCgSets) ops,
      stmts_user_optimization_overheads tms,
      stmts_ddot_timing_variations t4min t4max t4avg,
      stmts_final_summary D A tms (D numberOfCgSets) ops
        (isValidRun testcg_data testsymmetry_data testnorms_data global_failure) quickPath]"

text \<open>The blocks of a call, with the three values that its reductions yield.\<close>

definition built_blocks ::
  "(int \<Rightarrow> 'd) \<Rightarrow> 'd externals \<Rightarrow> SparseMatrix \<Rightarrow> int \<Rightarrow> int \<Rightarrow> int \<Rightarrow> (nat \<Rightarrow> 'd)
     \<Rightarrow> TestCGData \<Rightarrow> 'd TestSymmetryData \<Rightarrow> 'd TestNormsData \<Rightarrow> int \<Rightarrow> bool
     \<Rightarrow> 'd flop_counts \<Rightarrow> 'd bandwidth_counts \<Rightarrow> 'd doc_stmt list \<Rightarrow> 'd doc_stmt list
     \<Rightarrow> ('d::{plus,times,inverse,ord}) doc_stmt list list" where
  "built_blocks D X A numberOfCgSets refMaxIters optMaxIters tms
       testcg_data testsymmetry_data testnorms_data global_failure quickPath ops bw mi mu =
     report_blocks D A numberOfCgSets refMaxIters optMaxIters tms
       testcg_data testsymmetry_data testnorms_data global_failure quickPath
       (allReduce X MinFT (tms 4)) (allReduce X MaxFT (tms 4))
       (allReduce X SumFT (tms 4) / D (size_g (geom A))) ops bw mi mu"

text \<open>
  What one pass of the loop of the memory bandwidth model adds to the running sum \<open>w\<close> of
  \<^verbatim>\<open>fnwrites_precond\<close> for a level \<open>Af\<close> with \<^verbatim>\<open>mgData\<close>: the presmoother writes, the writes
  of the fine grid residual calculation, and the postsmoother writes, in this order.
\<close>

definition level_writes ::
  "(int \<Rightarrow> 'd) \<Rightarrow> sizes \<Rightarrow> 'd \<Rightarrow> 'd \<Rightarrow> SparseMatrix \<Rightarrow> 'd::{plus,times,inverse,ord}" where
  "level_writes D S fniters w Af =
     w + D (numberOfPresmootherSteps (the (mgData Af))) * fniters
           * D (totalNumberOfRows (sclrs Af)) * D (sizeof_double S)
       + fniters * D (totalNumberOfNonzeros (sclrs Af)) * D (sizeof_double S)
       + D (numberOfPostsmootherSteps (the (mgData Af))) * fniters
           * D (totalNumberOfNonzeros (sclrs Af)) * D (sizeof_double S)"

section \<open>Example inputs\<close>

text \<open>
  A problem of two levels on one process: a fine level of 64 rows and 1000 nonzeros with
  one presmoother and one postsmoother step, over a coarsest level of 8 rows and 64
  nonzeros. Doubles are read as reals here, so that the arithmetic of the examples is
  exact.
\<close>

definition ex_sclrs :: "int \<Rightarrow> int \<Rightarrow> SparseMatrixScalars" where
  "ex_sclrs r nnz =
     \<lparr>maxNonzerosPerRow = 27, totalNumberOfRows = r, totalNumberOfNonzeros = nnz,
      localNumberOfRows = r, localNumberOfColumns = r, localNumberOfNonzeros = nnz,
      numberOfExternalValues = 0, numberOfSendNeighbors = 0, totalToBeSent = 0\<rparr>"

definition ex_geom :: "int \<Rightarrow> int \<Rightarrow> Geometry" where
  "ex_geom sz rk =
     \<lparr>size_g = sz, rank = rk, numThreads = 1, nx = 4, ny = 4, nz = 4,
      npx = sz, npy = 1, npz = 1, ipx = rk, ipy = 0, ipz = 0, stencilSize = 27\<rparr>"

definition ex_coarse :: "Geometry \<Rightarrow> SparseMatrix" where
  "ex_coarse g = SparseMatrix g (ex_sclrs 8 64) None None False False False False"

definition ex_fine :: "Geometry \<Rightarrow> SparseMatrix" where
  "ex_fine g =
     SparseMatrix g (ex_sclrs 64 1000)
       (Some \<lparr>numberOfPresmootherSteps = 1, numberOfPostsmootherSteps = 1\<rparr>)
       (Some (ex_coarse g)) False False False False"

definition ex_sizes :: sizes where
  "ex_sizes =
     \<lparr>sizeof_double = 8, sizeof_char = 1, sizeof_int = 4, sizeof_local_int_t = 4,
      sizeof_global_int_t = 8, sizeof_global_int_t_ptr = 8, sizeof_local_int_t_ptr = 8,
      sizeof_double_ptr = 8, sizeof_Geometry = 52, sizeof_SparseMatrix = 200,
      sizeof_Array_floatType = 32, sizeof_MGData = 64\<rparr>"

definition ex_externals :: "real externals" where
  "ex_externals =
     \<lparr>allReduce = (\<lambda>op v. v), OptimizeProblemMemoryUse = (\<lambda>A. 0), HPCG_DEBUG = False\<rparr>"

definition ex_testcg :: "int \<Rightarrow> TestCGData" where
  "ex_testcg fails =
     \<lparr>TestCGData.count_fail = fails, niters_max_no_prec = 11, expected_niters_no_prec = 12,
      niters_max_prec = 1, expected_niters_prec = 2\<rparr>"

definition ex_testsym :: "real TestSymmetryData" where
  "ex_testsym = \<lparr>TestSymmetryData.count_fail = 0, depsym_spmv = 0, depsym_mg = 0\<rparr>"

definition ex_testnorms :: "real TestNormsData" where
  "ex_testnorms = \<lparr>pass = True, mean = 0, variance = 0\<rparr>"

text \<open>Timers: \<open>times[i] = t + i\<close>.\<close>

definition ex_times :: "real \<Rightarrow> nat \<Rightarrow> real" where
  "ex_times t i = t + of_nat i"

section \<open>Proofs: the life cycle of the logical sparse matrix\<close>


lemma la_allocate_calls: "lrt_calls (la_allocate a n m) = lrt_calls m @ [Allocate a n]"
  by (simp add: la_allocate_def)

lemma la_deallocate_calls: "lrt_calls (la_deallocate a m) = lrt_calls m @ [Deallocate a]"
  by (simp add: la_deallocate_def)

lemma allocate_calls:
  "lrt_calls (allocate gxyz g m) = lrt_calls m @
     [Allocate Geoms (size_g g), Allocate Sclrs (size_g g),
      Allocate NonzerosInRow (gxyz g),
      Allocate MtxIndG (gxyz g * stencilSize g),
      Allocate MtxIndL (gxyz g * stencilSize g),
      Allocate MatrixValues (gxyz g * stencilSize g),
      Allocate MatrixDiagonal (gxyz g),
      Allocate LocalToGlobalMap (gxyz g),
      Allocate DcAllreduceSum (size_g g),
      Allocate Neighbors (size_g g * (stencilSize g - 1)),
      Allocate SendLength (size_g g * (stencilSize g - 1)),
      Allocate Synchronizers (size_g g),
      Allocate PullBEs (size_g g * (stencilSize g - 1)),
      Allocate PullBuffer (gxyz g)]"
  by (simp add: allocate_def Let_def la_allocate_calls)

lemma deallocate_calls:
  "lrt_calls (deallocate m) = lrt_calls m @
     map Deallocate [Geoms, Sclrs, MtxIndG, MtxIndL, NonzerosInRow, MatrixValues,
       MatrixDiagonal, LocalToGlobalMap, DcAllreduceSum, Neighbors, SendLength,
       Synchronizers, PullBEs, PullBEs]"
  by (simp add: deallocate_def Let_def la_deallocate_calls)


lemma allocated_by_append: "allocated_by (xs @ ys) = allocated_by xs @ allocated_by ys"
  by (induction xs rule: allocated_by.induct) simp_all

lemma deallocated_by_append: "deallocated_by (xs @ ys) = deallocated_by xs @ deallocated_by ys"
  by (induction xs rule: deallocated_by.induct) simp_all

lemma init_calls: "lrt_calls LogicalSparseMatrix_init = []"
  by (simp add: LogicalSparseMatrix_init_def)

lemma replicate_dc_gen:
  "0 \<le> i \<Longrightarrow> i \<le> n \<Longrightarrow> length xs = nat n \<Longrightarrow>
   replicate_dc i n dc xs = Inr (take (nat i) xs @ replicate (nat (n - i)) (Some dc))"
proof (induction i n dc xs rule: replicate_dc.induct)
  case (1 i n dc xs)
  show ?case
  proof (cases "i < n")
    case False
    with 1 show ?thesis by (simp add: replicate_dc.simps)
  next
    case True
    with 1 have inb: "nat i < length xs" by simp
    have IH: "replicate_dc (i + 1) n dc (xs[nat i := Some dc]) =
       Inr (take (nat (i + 1)) (xs[nat i := Some dc]) @ replicate (nat (n - (i + 1))) (Some dc))"
      using 1 True inb by simp
    have t: "take (nat (i + 1)) (xs[nat i := Some dc]) = take (nat i) xs @ [Some dc]"
      using 1(2) inb by (simp add: nat_add_distrib take_Suc_conv_app_nth)
    have "nat (n - i) = Suc (nat (n - (i + 1)))"
      using True by simp
    then have r: "replicate (nat (n - i)) (Some dc) = Some dc # replicate (nat (n - (i + 1))) (Some dc)"
      by simp
    show ?thesis
      using True 1(2) inb IH t r by (subst replicate_dc.simps) simp
  qed
qed

lemma replicate_dc_all:
  assumes "length xs = nat n"
  shows "replicate_dc 0 n dc xs = Inr (replicate (nat n) (Some dc))"
proof (cases "0 \<le> n")
  case True
  then show ?thesis using replicate_dc_gen [of 0 n xs dc] assms by simp
next
  case False
  then show ?thesis using assms by (simp add: replicate_dc.simps)
qed

lemma arrays_la_partition:
  "arrays (la_partition a n m) =
     (arrays m)(a := (arrays m a)\<lparr>mNParts := Some n, la_launchDomain := Some n\<rparr>)"
  by (simp add: la_partition_def)

lemma collectives_la_partition: "lrt_collectives (la_partition a n m) = lrt_collectives m"
  by (simp add: la_partition_def)

lemma arrays_la_allocate:
  "arrays (la_allocate a n m) =
     (arrays m)(a := (arrays m a)\<lparr>mAllocated := True, mLength := n, mCells := replicate (nat n) None\<rparr>)"
  by (simp add: la_allocate_def)

lemma collectives_la_allocate: "lrt_collectives (la_allocate a n m) = lrt_collectives m"
  by (simp add: la_allocate_def)

lemma cells_allocate:
  "mCells (arrays (allocate gxyz g m0) DcAllreduceSum) = replicate (nat (size_g g)) None"
  by (simp add: allocate_def Let_def arrays_la_allocate)

lemma collectives_allocate: "lrt_collectives (allocate gxyz g m0) = lrt_collectives m0"
  by (simp add: allocate_def Let_def collectives_la_allocate)

lemma partition_m_result:
  assumes "length (mCells (arrays m DcAllreduceSum)) = nat n"
  shows "\<exists>m'. partition_m n m = Inr m' \<and>
     lrt_collectives m' =
       lrt_collectives m @ [\<lparr>dc_id = length (lrt_collectives m), dc_arrivals = n\<rparr>] \<and>
     mCells (arrays m' DcAllreduceSum) =
       replicate (nat n) (Some \<lparr>dc_id = length (lrt_collectives m), dc_arrivals = n\<rparr>) \<and>
     (\<forall>a. mNParts (arrays m' a) = Some n) \<and>
     (\<forall>a. mLength (arrays m' a) = mLength (arrays m a)) \<and>
     launchDomain m' = Some n"
proof -
  define p where "p = la_partition PullBuffer n (la_partition PullBEs n
    (la_partition Synchronizers n (la_partition SendLength n (la_partition Neighbors n
    (la_partition DcAllreduceSum n (la_partition LocalToGlobalMap n
    (la_partition MatrixDiagonal n (la_partition MatrixValues n (la_partition MtxIndL n
    (la_partition MtxIndG n (la_partition NonzerosInRow n (la_partition Sclrs n
    (la_partition Geoms n m)))))))))))))"
  have pc: "mCells (arrays p DcAllreduceSum) = mCells (arrays m DcAllreduceSum)"
    by (simp add: p_def arrays_la_partition)
  have pcol: "lrt_collectives p = lrt_collectives m"
    by (simp add: p_def collectives_la_partition)
  have pn: "mNParts (arrays p a) = Some n" for a
    by (cases a) (simp_all add: p_def arrays_la_partition)
  have pl: "mLength (arrays p a) = mLength (arrays m a)" for a
    by (cases a) (simp_all add: p_def arrays_la_partition)
  have pd: "la_launchDomain (arrays p Geoms) = Some n"
    by (simp add: p_def arrays_la_partition)
  have r: "replicate_dc 0 n dc (mCells (arrays p DcAllreduceSum)) = Inr (replicate (nat n) (Some dc))" for dc
    using replicate_dc_all [of "mCells (arrays p DcAllreduceSum)" n dc] assms pc by simp
  have "partition_m n m =
      (case mPopulateDynamicCollectives n p of Inl e \<Rightarrow> Inl e
       | Inr m \<Rightarrow> Inr (m\<lparr>launchDomain := la_launchDomain (arrays m Geoms)\<rparr>))"
    by (simp add: partition_m_def p_def Let_def)
  then show ?thesis
    using pn pl pd by (simp add: mPopulateDynamicCollectives_def Let_def r pcol)
qed

lemma allocated_by_allocate:
  "allocated_by (lrt_calls (allocate gxyz g LogicalSparseMatrix_init)) =
     [Geoms, Sclrs, NonzerosInRow, MtxIndG, MtxIndL, MatrixValues, MatrixDiagonal,
      LocalToGlobalMap, DcAllreduceSum, Neighbors, SendLength, Synchronizers, PullBEs,
      PullBuffer]"
  by (simp add: allocate_calls init_calls)

lemma deallocated_by_deallocate:
  "deallocated_by (lrt_calls (deallocate (allocate gxyz g LogicalSparseMatrix_init))) =
     [Geoms, Sclrs, MtxIndG, MtxIndL, NonzerosInRow, MatrixValues, MatrixDiagonal,
      LocalToGlobalMap, DcAllreduceSum, Neighbors, SendLength, Synchronizers, PullBEs,
      PullBEs]"
  by (simp add: deallocate_calls allocate_calls init_calls deallocated_by_append)

text \<open>
  What the second call on \<^verbatim>\<open>pullBEs\<close> leaves behind: \<^verbatim>\<open>pullBuffer\<close>, allocated by
  \<^verbatim>\<open>allocate\<close>, still holds its storage after \<^verbatim>\<open>deallocate\<close>.
\<close>

lemma deallocate_keeps_pullBuffer:
  "mAllocated (arrays (deallocate (allocate gxyz g m0)) PullBuffer)"
  by (simp add: deallocate_def allocate_def Let_def la_deallocate_def la_allocate_def)

text \<open>
  C6, as stated, fails: on the one-rank geometry \<open>geom1\<close> the arrays that
  \<^verbatim>\<open>deallocate\<close> deallocates are not the reverse of the arrays that \<^verbatim>\<open>allocate\<close>
  allocated; \<^verbatim>\<open>pullBuffer\<close> is never deallocated and \<^verbatim>\<open>pullBEs\<close> is deallocated twice.
\<close>

theorem deallocate_not_reverse_counterexample:
  "deallocated_by (lrt_calls (deallocate (allocate getGlobalXYZ geom1 LogicalSparseMatrix_init)))
     \<noteq> rev (allocated_by (lrt_calls (allocate getGlobalXYZ geom1 LogicalSparseMatrix_init)))
   \<and> count_list (deallocated_by
         (lrt_calls (deallocate (allocate getGlobalXYZ geom1 LogicalSparseMatrix_init))))
       PullBuffer = 0
   \<and> count_list (deallocated_by
         (lrt_calls (deallocate (allocate getGlobalXYZ geom1 LogicalSparseMatrix_init))))
       PullBEs = 2"
  by (simp add: deallocated_by_deallocate allocated_by_allocate)

text \<open>
  C6, amended: \<^verbatim>\<open>LogicalSparseMatrix::deallocate\<close> deallocates the thirteen arrays of
  the region list (\<^verbatim>\<open>geoms\<close> ... \<^verbatim>\<open>pullBEs\<close>, the first thirteen arrays that
  \<^verbatim>\<open>allocate\<close> allocates), one call each in its first thirteen calls, in allocation
  order except that \<^verbatim>\<open>nonzerosInRow\<close> comes after \<^verbatim>\<open>mtxIndG\<close> and \<^verbatim>\<open>mtxIndL\<close>: not in
  reverse order.
\<close>

theorem deallocate_region_list:
  "take 13 (deallocated_by (lrt_calls (deallocate (allocate gxyz g LogicalSparseMatrix_init)))) =
     [Geoms, Sclrs, MtxIndG, MtxIndL, NonzerosInRow, MatrixValues, MatrixDiagonal,
      LocalToGlobalMap, DcAllreduceSum, Neighbors, SendLength, Synchronizers, PullBEs]
   \<and> distinct (take 13
        (deallocated_by (lrt_calls (deallocate (allocate gxyz g LogicalSparseMatrix_init)))))
   \<and> set (take 13
        (deallocated_by (lrt_calls (deallocate (allocate gxyz g LogicalSparseMatrix_init)))))
     = set (take 13 (allocated_by (lrt_calls (allocate gxyz g LogicalSparseMatrix_init))))"
  by (simp add: deallocated_by_deallocate allocated_by_allocate) blast

text \<open>
  C7: \<^verbatim>\<open>partition\<close> called with \<open>nParts = geom.size\<close> on the allocated matrix returns;
  exactly one dynamic collective is created, with \<open>geom.size\<close> arrivals; the region of
  \<^verbatim>\<open>dcAllreduceSum\<close> holds that one handle in every one of its \<open>geom.size\<close> cells, so
  every index point reads the same handle; and every array of the matrix is partitioned
  into the same \<open>geom.size\<close> parts, of equal size.
\<close>

theorem partition_replicates_one_collective:
  "\<exists>m' dc. partition_m (size_g g) (allocate gxyz g m0) = Inr m'
     \<and> lrt_collectives m' = lrt_collectives m0 @ [dc]
     \<and> dc_arrivals dc = size_g g
     \<and> mCells (arrays m' DcAllreduceSum) = replicate (nat (size_g g)) (Some dc)
     \<and> (\<forall>i. 0 \<le> i \<and> i < size_g g \<longrightarrow> mCells (arrays m' DcAllreduceSum) ! nat i = Some dc)
     \<and> (\<forall>a. mNParts (arrays m' a) = Some (size_g g))
     \<and> (\<forall>a i. 0 \<le> i \<and> i < size_g g \<longrightarrow>
           subregion (arrays m' a) i =
             Some (i * (mLength (arrays m' a) div size_g g), mLength (arrays m' a) div size_g g))"
proof -
  let ?m = "allocate gxyz g m0"
  let ?dc = "\<lparr>dc_id = length (lrt_collectives ?m), dc_arrivals = size_g g\<rparr>"
  have len: "length (mCells (arrays ?m DcAllreduceSum)) = nat (size_g g)"
    by (simp add: cells_allocate)
  from partition_m_result [OF len] obtain m' where
    r: "partition_m (size_g g) ?m = Inr m'" and
    c: "lrt_collectives m' = lrt_collectives ?m @ [?dc]" and
    d: "mCells (arrays m' DcAllreduceSum) = replicate (nat (size_g g)) (Some ?dc)" and
    n: "\<forall>a. mNParts (arrays m' a) = Some (size_g g)"
    by blast
  have "\<forall>i. 0 \<le> i \<and> i < size_g g \<longrightarrow> mCells (arrays m' DcAllreduceSum) ! nat i = Some ?dc"
    using d by simp
  moreover have "\<forall>a i. 0 \<le> i \<and> i < size_g g \<longrightarrow>
      subregion (arrays m' a) i =
        Some (i * (mLength (arrays m' a) div size_g g), mLength (arrays m' a) div size_g g)"
    using n by (simp add: subregion_def)
  ultimately show ?thesis
    using r c d n by (simp add: collectives_allocate)
qed

theorem partition_replicates_one_collective_witness:
  "\<exists>m' dc. partition_m 1 (allocate getGlobalXYZ geom1 LogicalSparseMatrix_init) = Inr m'
     \<and> lrt_collectives m' = [dc]
     \<and> dc_arrivals dc = 1
     \<and> mCells (arrays m' DcAllreduceSum) = [Some dc]
     \<and> mCells (arrays m' DcAllreduceSum) ! 0 = Some dc
     \<and> mNParts (arrays m' PullBuffer) = Some 1
     \<and> subregion (arrays m' PullBuffer) 0 = Some (0, mLength (arrays m' PullBuffer))"
proof -
  have s: "size_g geom1 = 1"
    by (simp add: geom1_def)
  from partition_replicates_one_collective [of geom1 getGlobalXYZ LogicalSparseMatrix_init]
  obtain m' dc where
    r: "partition_m 1 (allocate getGlobalXYZ geom1 LogicalSparseMatrix_init) = Inr m'" and
    c: "lrt_collectives m' = lrt_collectives LogicalSparseMatrix_init @ [dc]" and
    a: "dc_arrivals dc = 1" and
    d: "mCells (arrays m' DcAllreduceSum) = replicate (nat 1) (Some dc)" and
    i: "\<forall>i. 0 \<le> i \<and> i < 1 \<longrightarrow> mCells (arrays m' DcAllreduceSum) ! nat i = Some dc" and
    n: "\<forall>a. mNParts (arrays m' a) = Some 1" and
    e: "\<forall>a i. 0 \<le> i \<and> i < 1 \<longrightarrow> subregion (arrays m' a) i =
          Some (i * (mLength (arrays m' a) div 1), mLength (arrays m' a) div 1)"
    unfolding s by blast
  have "subregion (arrays m' PullBuffer) 0 = Some (0, mLength (arrays m' PullBuffer))"
    using e [rule_format, of 0 PullBuffer] by simp
  then show ?thesis
    using r c a d n by (simp add: LogicalSparseMatrix_init_def)
qed

section \<open>Proofs: PopulateGlobalToLocalMap\<close>

subsection \<open>The arithmetic of the row numbers\<close>

lemma le_mult_right:
  fixes a b :: int
  assumes "0 \<le> a" and "1 \<le> b"
  shows "a \<le> a * b"
  using mult_left_mono [OF assms(2) assms(1)] by simp

lemma block_bound:
  fixes i n ip np :: int
  assumes "0 \<le> i" and "i < n" and "0 \<le> ip" and "ip < np"
  shows "0 \<le> ip * n" and "0 \<le> ip * n + i" and "ip * n + i < n * np"
proof -
  from assms have n: "0 \<le> n" by simp
  show "0 \<le> ip * n" using assms(3) n by simp
  then show "0 \<le> ip * n + i" using assms(1) by simp
  have "ip * n + i < ip * n + n" using assms(2) by simp
  also have "\<dots> = (ip + 1) * n" by (simp add: algebra_simps)
  also have "\<dots> \<le> np * n"
    by (rule mult_right_mono) (use assms(4) n in simp_all)
  finally show "ip * n + i < n * np" by (simp add: mult.commute)
qed

lemma radix_bound:
  fixes a b c A B C :: int
  assumes "0 \<le> a" and "a < A" and "0 \<le> b" and "b < B" and "0 \<le> c" and "c < C"
  shows "c * A * B + b * A + a < C * A * B"
proof -
  have A: "0 \<le> A" and B: "0 \<le> B" using assms by simp_all
  have "b * A + a < b * A + A" using assms(2) by simp
  also have "\<dots> = (b + 1) * A" by (simp add: algebra_simps)
  also have "\<dots> \<le> B * A"
    by (rule mult_right_mono) (use assms(4) A in simp_all)
  finally have 1: "b * A + a < A * B" by (simp add: mult.commute)
  have AB: "0 \<le> A * B" using A B by simp
  have "c * A * B + b * A + a = c * (A * B) + (b * A + a)" by (simp add: algebra_simps)
  also have "\<dots> < c * (A * B) + A * B" using 1 by simp
  also have "\<dots> = (c + 1) * (A * B)" by (simp add: algebra_simps)
  also have "\<dots> \<le> C * (A * B)"
    by (rule mult_right_mono) (use assms(6) AB in simp_all)
  finally show ?thesis by (simp add: algebra_simps)
qed

lemma radix_inj:
  fixes a b c a' b' c' A B :: int
  assumes a: "0 \<le> a" "a < A" and a': "0 \<le> a'" "a' < A"
    and b: "0 \<le> b" "b < B" and b': "0 \<le> b'" "b' < B"
    and eq: "c * A * B + b * A + a = c' * A * B + b' * A + a'"
  shows "a = a' \<and> b = b' \<and> c = c'"
proof -
  have e: "(c * B + b) * A + a = (c' * B + b') * A + a'"
    using eq by (simp add: algebra_simps)
  have "((c * B + b) * A + a) mod A = a" using a by simp
  moreover have "((c' * B + b') * A + a') mod A = a'" using a' by simp
  ultimately have 1: "a = a'" using e by simp
  have "((c * B + b) * A + a) div A = c * B + b" using a by simp
  moreover have "((c' * B + b') * A + a') div A = c' * B + b'" using a' by simp
  ultimately have f: "c * B + b = c' * B + b'" using e by simp
  have "(c * B + b) mod B = b" using b by simp
  moreover have "(c' * B + b') mod B = b'" using b' by simp
  ultimately have 2: "b = b'" using f by simp
  have "(c * B + b) div B = c" using b by simp
  moreover have "(c' * B + b') div B = c'" using b' by simp
  ultimately have 3: "c = c'" using f by simp
  from 1 2 3 show ?thesis by simp
qed

subsection \<open>Values that fit\<close>

lemma and_then_Inr: "and_then (Inr v) f = f v"
  by (simp add: and_then_def)

lemma global_int_ok:
  assumes "0 \<le> v" and "v \<le> w" and "w \<le> global_int_max T"
  shows "global_int T v = Inr v"
  using assms by (simp add: global_int_def)

lemma local_int_ok:
  assumes "0 \<le> v" and "v \<le> w" and "w \<le> local_int_max T"
  shows "local_int T v = Inr v"
  using assms by (simp add: local_int_def)

lemma geometry_fitsD:
  assumes "geometry_fits T g"
  shows "0 < nx g" and "0 < ny g" and "0 < nz g"
    and "0 \<le> ipx g" and "ipx g < npx g" and "0 \<le> ipy g" and "ipy g < npy g"
    and "0 \<le> ipz g" and "ipz g < npz g"
    and "nx g * ny g * nz g \<le> local_int_max T"
    and "(nx g * npx g) * (ny g * npy g) * (nz g * npz g) \<le> global_int_max T"
  using assms by (simp_all add: geometry_fits_def)

lemma local_rows_le_global:
  assumes "geometry_fits T g"
  shows "nx g * ny g * nz g \<le> (nx g * npx g) * (ny g * npy g) * (nz g * npz g)"
proof -
  note f = geometry_fitsD [OF assms]
  have x: "nx g \<le> nx g * npx g" by (rule le_mult_right) (use f in simp_all)
  have y: "ny g \<le> ny g * npy g" by (rule le_mult_right) (use f in simp_all)
  have z: "nz g \<le> nz g * npz g" by (rule le_mult_right) (use f in simp_all)
  have xy: "nx g * ny g \<le> (nx g * npx g) * (ny g * npy g)"
    by (rule mult_mono [OF x y]) (use f x in simp_all)
  show ?thesis
    by (rule mult_mono [OF xy z]) (use f x y in simp_all)
qed

lemma global_dims:
  assumes "geometry_fits T g"
  shows "nx g \<le> nx g * npx g" and "ny g \<le> ny g * npy g" and "nz g \<le> nz g * npz g"
    and "nx g * npx g \<le> (nx g * npx g) * (ny g * npy g) * (nz g * npz g)"
    and "ny g * npy g \<le> (nx g * npx g) * (ny g * npy g) * (nz g * npz g)"
    and "nz g * npz g \<le> (nx g * npx g) * (ny g * npy g) * (nz g * npz g)"
    and "npx g \<le> nx g * npx g" and "npy g \<le> ny g * npy g" and "npz g \<le> nz g * npz g"
proof -
  note f = geometry_fitsD [OF assms]
  show x: "nx g \<le> nx g * npx g" by (rule le_mult_right) (use f in simp_all)
  show y: "ny g \<le> ny g * npy g" by (rule le_mult_right) (use f in simp_all)
  show z: "nz g \<le> nz g * npz g" by (rule le_mult_right) (use f in simp_all)
  from x y z f(1-3) have p: "1 \<le> nx g * npx g" "1 \<le> ny g * npy g" "1 \<le> nz g * npz g"
    by linarith+
  have xy: "nx g * npx g \<le> (nx g * npx g) * (ny g * npy g)"
    by (rule le_mult_right) (use p in simp_all)
  have "0 \<le> (nx g * npx g) * (ny g * npy g)" using p xy by simp
  then have xyz: "(nx g * npx g) * (ny g * npy g)
       \<le> (nx g * npx g) * (ny g * npy g) * (nz g * npz g)"
    using p(3) by (rule le_mult_right)
  from xy xyz show "nx g * npx g \<le> (nx g * npx g) * (ny g * npy g) * (nz g * npz g)"
    by simp
  have yx: "ny g * npy g \<le> (ny g * npy g) * (nx g * npx g)"
    by (rule le_mult_right) (use p in simp_all)
  with xyz show "ny g * npy g \<le> (nx g * npx g) * (ny g * npy g) * (nz g * npz g)"
    by (simp add: mult.commute)
  have "nz g * npz g \<le> (nz g * npz g) * ((nx g * npx g) * (ny g * npy g))"
    by (rule le_mult_right) (use p xy in simp_all)
  then show "nz g * npz g \<le> (nx g * npx g) * (ny g * npy g) * (nz g * npz g)"
    by (simp add: mult.commute)
  have "npx g \<le> npx g * nx g" by (rule le_mult_right) (use f in simp_all)
  then show "npx g \<le> nx g * npx g" by (simp add: mult.commute)
  have "npy g \<le> npy g * ny g" by (rule le_mult_right) (use f in simp_all)
  then show "npy g \<le> ny g * npy g" by (simp add: mult.commute)
  have "npz g \<le> npz g * nz g" by (rule le_mult_right) (use f in simp_all)
  then show "npz g \<le> nz g * npz g" by (simp add: mult.commute)
qed

lemma row_entry_ok:
  assumes fit: "geometry_fits T g"
    and box: "0 \<le> ix" "ix < nx g" "0 \<le> iy" "iy < ny g" "0 \<le> iz" "iz < nz g"
  shows "row_entry T g (nx g * npx g) (ny g * npy g) (ipz g * nz g + iz) (ipy g * ny g + iy)
           iz iy ix
         = Inr ((ipz g * nz g + iz) * (nx g * npx g) * (ny g * npy g)
                  + (ipy g * ny g + iy) * (nx g * npx g) + (ipx g * nx g + ix),
                iz * nx g * ny g + iy * nx g + ix)"
proof -
  note f = geometry_fitsD [OF fit]
  let ?gnx = "nx g * npx g" and ?gny = "ny g * npy g" and ?gnz = "nz g * npz g"
  let ?gix = "ipx g * nx g + ix" and ?giy = "ipy g * ny g + iy" and ?giz = "ipz g * nz g + iz"
  let ?G = "?giz * ?gnx * ?gny + ?giy * ?gnx + ?gix"
  let ?L = "iz * nx g * ny g + iy * nx g + ix"
  let ?Tot = "?gnx * ?gny * ?gnz"
  let ?N = "nx g * ny g * nz g"
  note bx = block_bound [OF box(1,2) f(4,5)]
  note by' = block_bound [OF box(3,4) f(6,7)]
  note bz = block_bound [OF box(5,6) f(8,9)]
  have gny1: "1 \<le> ?gny" and gnx1: "1 \<le> ?gnx" using by' bx by simp_all
  have "?G < ?gnz * ?gnx * ?gny"
    by (rule radix_bound [OF bx(2,3) by'(2,3) bz(2,3)])
  then have G: "?G < ?Tot" by (simp add: mult.commute mult.left_commute)
  note T = f(11)
  have p1: "0 \<le> ?giz * ?gnx" using bz(2) gnx1 by simp
  have p2: "0 \<le> ?giz * ?gnx * ?gny" using p1 gny1 by simp
  have p3: "0 \<le> ?giy * ?gnx" using by'(2) gnx1 by simp
  have q1: "?giz * ?gnx \<le> ?giz * ?gnx * ?gny" using p1 gny1 by (rule le_mult_right)
  have "?L < nz g * nx g * ny g"
    by (rule radix_bound [OF box])
  then have L: "?L < ?N" by (simp add: mult.commute mult.left_commute)
  note NT = local_rows_le_global [OF fit]
  have ny1: "1 \<le> ny g" and nx0: "0 \<le> nx g" using f by simp_all
  have l1: "0 \<le> iz * nx g" using box(5) nx0 by simp
  have l2: "0 \<le> iz * nx g * ny g" using l1 ny1 by simp
  have l3: "0 \<le> iy * nx g" using box(3) nx0 by simp
  have l4: "iz * nx g \<le> iz * nx g * ny g" using l1 ny1 by (rule le_mult_right)
  have c1: "global_int T (ipx g * nx g) = Inr (ipx g * nx g)"
    by (rule global_int_ok [OF bx(1) _ T]) (use bx G p2 p3 box in linarith)
  have c2: "global_int T ?gix = Inr ?gix"
    by (rule global_int_ok [OF bx(2) _ T]) (use bx G p2 p3 in linarith)
  have c3: "global_int T (iz * nx g) = Inr (iz * nx g)"
    by (rule global_int_ok [OF l1 _ T]) (use l3 l4 box L NT in linarith)
  have c4: "global_int T (iz * nx g * ny g) = Inr (iz * nx g * ny g)"
    by (rule global_int_ok [OF l2 _ T]) (use l3 box L NT in linarith)
  have c5: "global_int T (iy * nx g) = Inr (iy * nx g)"
    by (rule global_int_ok [OF l3 _ T]) (use l2 box L NT in linarith)
  have c6: "global_int T (iz * nx g * ny g + iy * nx g) = Inr (iz * nx g * ny g + iy * nx g)"
    by (rule global_int_ok [OF _ _ T]) (use l2 l3 box L NT in linarith)+
  have c7: "global_int T ?L = Inr ?L"
    by (rule global_int_ok [OF _ _ T]) (use l2 l3 box L NT in linarith)+
  have c8: "local_int T ?L = Inr ?L"
    by (rule local_int_ok [OF _ _ f(10)]) (use l2 l3 box L in linarith)+
  have c9: "global_int T (?giz * ?gnx) = Inr (?giz * ?gnx)"
    by (rule global_int_ok [OF p1 _ T]) (use q1 p3 bx G in linarith)
  have c10: "global_int T (?giz * ?gnx * ?gny) = Inr (?giz * ?gnx * ?gny)"
    by (rule global_int_ok [OF p2 _ T]) (use p3 bx G in linarith)
  have c11: "global_int T (?giy * ?gnx) = Inr (?giy * ?gnx)"
    by (rule global_int_ok [OF p3 _ T]) (use p2 bx G in linarith)
  have c12: "global_int T (?giz * ?gnx * ?gny + ?giy * ?gnx)
      = Inr (?giz * ?gnx * ?gny + ?giy * ?gnx)"
    by (rule global_int_ok [OF _ _ T]) (use p2 p3 bx G in linarith)+
  have c13: "global_int T ?G = Inr ?G"
    by (rule global_int_ok [OF _ _ T]) (use p2 p3 bx G in linarith)+
  show ?thesis
    unfolding row_entry_def gmul_def gadd_def
    by (simp only: c1 c2 c3 c4 c5 c6 c7 c8 c9 c10 c11 c12 c13 and_then_Inr)
qed

subsection \<open>The loops\<close>

lemma local_dims:
  assumes "geometry_fits T g"
  shows "nx g \<le> nx g * ny g * nz g" and "ny g \<le> nx g * ny g * nz g"
    and "nz g \<le> nx g * ny g * nz g"
proof -
  note f = geometry_fitsD [OF assms]
  have xy: "nx g \<le> nx g * ny g" by (rule le_mult_right) (use f in simp_all)
  have yx: "ny g \<le> ny g * nx g" by (rule le_mult_right) (use f in simp_all)
  have p: "1 \<le> nx g * ny g" using xy f by linarith
  then have xyz: "nx g * ny g \<le> nx g * ny g * nz g"
    by (intro le_mult_right) (use f in simp_all)
  from xy xyz show "nx g \<le> nx g * ny g * nz g" by simp
  from yx xyz show "ny g \<le> nx g * ny g * nz g" by (simp add: mult.commute)
  have "nz g \<le> nz g * (nx g * ny g)" by (rule le_mult_right) (use f p in simp_all)
  then show "nz g \<le> nx g * ny g * nz g" by (simp add: mult.commute)
qed

lemma counter_ok:
  assumes "geometry_fits T g" and "0 \<le> i"
    and "i \<le> nx g \<or> i \<le> ny g \<or> i \<le> nz g"
  shows "global_int T i = Inr i" and "local_int T i = Inr i"
proof -
  note f = geometry_fitsD [OF assms(1)]
  note l = local_dims [OF assms(1)]
  note t = local_rows_le_global [OF assms(1)]
  from assms(3) l have n: "i \<le> nx g * ny g * nz g" by linarith
  show "local_int T i = Inr i"
    by (rule local_int_ok [OF assms(2) n f(10)])
  from n t have "i \<le> (nx g * npx g) * (ny g * npy g) * (nz g * npz g)" by simp
  then show "global_int T i = Inr i"
    by (rule global_int_ok [OF assms(2) _ f(11)])
qed

lemma loop_ix_ok:
  assumes fit: "geometry_fits T g"
    and box: "0 \<le> iy" "iy < ny g" "0 \<le> iz" "iz < nz g"
    and ix: "0 \<le> ix" "ix \<le> nx g"
  shows "loop_ix T g (nx g * npx g) (ny g * npy g) (ipz g * nz g + iz) (ipy g * ny g + iy)
           iz iy ix m = Inr (foldl store m (x_entries g iz iy ix))"
  using ix
proof (induction "nat (nx g - ix)" arbitrary: ix m)
  case 0
  then have e: "ix = nx g" by simp
  have c: "global_int T ix = Inr ix"
    by (rule counter_ok(1) [OF fit "0.prems"(1)]) (simp add: "0.prems"(2))
  show ?case
    by (subst loop_ix.simps) (simp add: c [unfolded e] e x_entries_def)
next
  case (Suc k)
  from Suc.hyps(2) have lt: "ix < nx g" by simp
  have c: "global_int T ix = Inr ix"
    by (rule counter_ok(1) [OF fit Suc.prems(1)]) (simp add: Suc.prems(2))
  have c': "local_int T (ix + 1) = Inr (ix + 1)"
    by (rule counter_ok(2) [OF fit]) (use Suc.prems(1) lt in simp_all)
  note r = row_entry_ok [OF fit Suc.prems(1) lt box]
  have k: "k = nat (nx g - (ix + 1))" using Suc.hyps(2) by simp
  have u: "[ix..nx g - 1] = ix # [ix + 1..nx g - 1]"
    using lt by (simp add: upto_rec1)
  have "loop_ix T g (nx g * npx g) (ny g * npy g) (ipz g * nz g + iz) (ipy g * ny g + iy)
           iz iy ix m
        = loop_ix T g (nx g * npx g) (ny g * npy g) (ipz g * nz g + iz) (ipy g * ny g + iy)
           iz iy (ix + 1) (m(global_row g ix iy iz \<mapsto> local_row g ix iy iz))"
    by (subst loop_ix.simps) (simp add: c c' r lt global_row_def local_row_def)
  also have "\<dots> = Inr (foldl store (m(global_row g ix iy iz \<mapsto> local_row g ix iy iz))
                          (x_entries g iz iy (ix + 1)))"
    by (rule Suc.hyps(1) [OF k]) (use Suc.prems(1) lt in simp_all)
  also have "\<dots> = Inr (foldl store m (x_entries g iz iy ix))"
    by (simp add: x_entries_def u store_def)
  finally show ?case .
qed

lemma block_index_ok:
  assumes "geometry_fits T g"
  shows "0 \<le> i \<Longrightarrow> i < ny g \<Longrightarrow>
           and_then (gmul T (ipy g) (ny g)) (\<lambda>t. gadd T t i) = Inr (ipy g * ny g + i)"
    and "0 \<le> i \<Longrightarrow> i < nz g \<Longrightarrow>
           and_then (gmul T (ipz g) (nz g)) (\<lambda>t. gadd T t i) = Inr (ipz g * nz g + i)"
proof -
  note f = geometry_fitsD [OF assms]
  note d = global_dims [OF assms]
  {
    assume i: "0 \<le> i" "i < ny g"
    note b = block_bound [OF i f(6,7)]
    from b(3) d(5) have t: "ipy g * ny g + i \<le> (nx g * npx g) * (ny g * npy g) * (nz g * npz g)"
      by simp
    have 1: "global_int T (ipy g * ny g) = Inr (ipy g * ny g)"
      by (rule global_int_ok [OF b(1) _ f(11)]) (use t i in linarith)
    have 2: "global_int T (ipy g * ny g + i) = Inr (ipy g * ny g + i)"
      by (rule global_int_ok [OF b(2) t f(11)])
    show "and_then (gmul T (ipy g) (ny g)) (\<lambda>t. gadd T t i) = Inr (ipy g * ny g + i)"
      by (simp add: gmul_def gadd_def 1 2 and_then_Inr)
  }
  {
    assume i: "0 \<le> i" "i < nz g"
    note b = block_bound [OF i f(8,9)]
    from b(3) d(6) have t: "ipz g * nz g + i \<le> (nx g * npx g) * (ny g * npy g) * (nz g * npz g)"
      by simp
    have 1: "global_int T (ipz g * nz g) = Inr (ipz g * nz g)"
      by (rule global_int_ok [OF b(1) _ f(11)]) (use t i in linarith)
    have 2: "global_int T (ipz g * nz g + i) = Inr (ipz g * nz g + i)"
      by (rule global_int_ok [OF b(2) t f(11)])
    show "and_then (gmul T (ipz g) (nz g)) (\<lambda>t. gadd T t i) = Inr (ipz g * nz g + i)"
      by (simp add: gmul_def gadd_def 1 2 and_then_Inr)
  }
qed

lemma loop_iy_ok:
  assumes fit: "geometry_fits T g"
    and box: "0 \<le> iz" "iz < nz g"
    and iy: "0 \<le> iy" "iy \<le> ny g"
  shows "loop_iy T g (nx g * npx g) (ny g * npy g) (ipz g * nz g + iz) iz iy m
           = Inr (foldl store m (y_entries g iz iy))"
  using iy
proof (induction "nat (ny g - iy)" arbitrary: iy m)
  case 0
  then have e: "iy = ny g" by simp
  have c: "global_int T iy = Inr iy"
    by (rule counter_ok(1) [OF fit "0.prems"(1)]) (simp add: "0.prems"(2))
  show ?case
    by (subst loop_iy.simps) (simp add: c [unfolded e] e y_entries_def)
next
  case (Suc k)
  from Suc.hyps(2) have lt: "iy < ny g" by simp
  have c: "global_int T iy = Inr iy"
    by (rule counter_ok(1) [OF fit Suc.prems(1)]) (simp add: Suc.prems(2))
  have c': "local_int T (iy + 1) = Inr (iy + 1)"
    by (rule counter_ok(2) [OF fit]) (use Suc.prems(1) lt in simp_all)
  note b = block_index_ok(1) [OF fit Suc.prems(1) lt]
  have x: "loop_ix T g (nx g * npx g) (ny g * npy g) (ipz g * nz g + iz) (ipy g * ny g + iy)
           iz iy 0 m = Inr (foldl store m (x_entries g iz iy 0))"
    by (rule loop_ix_ok [OF fit Suc.prems(1) lt box])
       (use geometry_fitsD(1) [OF fit] in simp_all)
  have k: "k = nat (ny g - (iy + 1))" using Suc.hyps(2) by simp
  have u: "[iy..ny g - 1] = iy # [iy + 1..ny g - 1]"
    using lt by (simp add: upto_rec1)
  have "loop_iy T g (nx g * npx g) (ny g * npy g) (ipz g * nz g + iz) iz iy m
        = loop_iy T g (nx g * npx g) (ny g * npy g) (ipz g * nz g + iz) iz (iy + 1)
            (foldl store m (x_entries g iz iy 0))"
    by (subst loop_iy.simps) (simp add: c c' b x lt)
  also have "\<dots> = Inr (foldl store (foldl store m (x_entries g iz iy 0))
                          (y_entries g iz (iy + 1)))"
    by (rule Suc.hyps(1) [OF k]) (use Suc.prems(1) lt in simp_all)
  also have "\<dots> = Inr (foldl store m (y_entries g iz iy))"
    by (simp add: y_entries_def u)
  finally show ?case .
qed

lemma loop_iz_ok:
  assumes fit: "geometry_fits T g"
    and iz: "0 \<le> iz" "iz \<le> nz g"
  shows "loop_iz T g (nx g * npx g) (ny g * npy g) iz m
           = Inr (foldl store m (z_entries g iz))"
  using iz
proof (induction "nat (nz g - iz)" arbitrary: iz m)
  case 0
  then have e: "iz = nz g" by simp
  have c: "global_int T iz = Inr iz"
    by (rule counter_ok(1) [OF fit "0.prems"(1)]) (simp add: "0.prems"(2))
  show ?case
    by (subst loop_iz.simps) (simp add: c [unfolded e] e z_entries_def)
next
  case (Suc k)
  from Suc.hyps(2) have lt: "iz < nz g" by simp
  have c: "global_int T iz = Inr iz"
    by (rule counter_ok(1) [OF fit Suc.prems(1)]) (simp add: Suc.prems(2))
  have c': "local_int T (iz + 1) = Inr (iz + 1)"
    by (rule counter_ok(2) [OF fit]) (use Suc.prems(1) lt in simp_all)
  note b = block_index_ok(2) [OF fit Suc.prems(1) lt]
  have y: "loop_iy T g (nx g * npx g) (ny g * npy g) (ipz g * nz g + iz) iz 0 m
           = Inr (foldl store m (y_entries g iz 0))"
    by (rule loop_iy_ok [OF fit Suc.prems(1) lt])
       (use geometry_fitsD(2) [OF fit] in simp_all)
  have k: "k = nat (nz g - (iz + 1))" using Suc.hyps(2) by simp
  have u: "[iz..nz g - 1] = iz # [iz + 1..nz g - 1]"
    using lt by (simp add: upto_rec1)
  have "loop_iz T g (nx g * npx g) (ny g * npy g) iz m
        = loop_iz T g (nx g * npx g) (ny g * npy g) (iz + 1)
            (foldl store m (y_entries g iz 0))"
    by (subst loop_iz.simps) (simp add: c c' b y lt)
  also have "\<dots> = Inr (foldl store (foldl store m (y_entries g iz 0))
                          (z_entries g (iz + 1)))"
    by (rule Suc.hyps(1) [OF k]) (use Suc.prems(1) lt in simp_all)
  also have "\<dots> = Inr (foldl store m (z_entries g iz))"
    by (simp add: z_entries_def u)
  finally show ?case .
qed

lemma PopulateGlobalToLocalMap_ok:
  assumes fit: "geometry_fits T g"
  shows "PopulateGlobalToLocalMap T g m = Inr (foldl store m (z_entries g 0))"
proof -
  note f = geometry_fitsD [OF fit]
  note d = global_dims [OF fit]
  note t = f(11)
  have c: "global_int T (nx g) = Inr (nx g)" "global_int T (ny g) = Inr (ny g)"
    "global_int T (nz g) = Inr (nz g)"
    by (rule counter_ok(1) [OF fit]; use f in simp)+
  have np: "global_int T (npx g) = Inr (npx g)" "global_int T (npy g) = Inr (npy g)"
    by (rule global_int_ok [OF _ _ t]; use f d in linarith)+
  have ip: "global_int T (ipx g) = Inr (ipx g)" "global_int T (ipy g) = Inr (ipy g)"
    "global_int T (ipz g) = Inr (ipz g)"
    by (rule global_int_ok [OF _ _ t]; use f d in linarith)+
  have gn: "global_int T (nx g * npx g) = Inr (nx g * npx g)"
    "global_int T (ny g * npy g) = Inr (ny g * npy g)"
    by (rule global_int_ok [OF _ _ t]; use f d in linarith)+
  have "loop_iz T g (nx g * npx g) (ny g * npy g) 0 m = Inr (foldl store m (z_entries g 0))"
    by (rule loop_iz_ok [OF fit]) (use f in simp_all)
  then show ?thesis
    by (simp add: PopulateGlobalToLocalMap_def gmul_def c np ip gn and_then_Inr)
qed

subsection \<open>The map that the assignments leave behind\<close>

lemma foldl_store_other:
  "k \<notin> fst ` set es \<Longrightarrow> foldl store m es k = m k"
  by (induction es arbitrary: m) (auto simp: store_def)

lemma foldl_store_dom:
  "dom (foldl store m es) = dom m \<union> fst ` set es"
  by (induction es arbitrary: m) (auto simp: store_def)

lemma foldl_store_lookup:
  assumes "\<And>v'. (k, v') \<in> set es \<Longrightarrow> v' = v" and "(k, v) \<in> set es"
  shows "foldl store m es k = Some v"
  using assms
proof (induction es arbitrary: m)
  case Nil
  then show ?case by simp
next
  case (Cons e es)
  show ?case
  proof (cases "k \<in> fst ` set es")
    case True
    then obtain v' where v': "(k, v') \<in> set es" by auto
    then have "v' = v" using Cons.prems(1) [of v'] by simp
    with v' have in2: "(k, v) \<in> set es" by simp
    have "foldl store (store m e) es k = Some v"
    proof (rule Cons.IH [OF _ in2])
      fix w
      assume "(k, w) \<in> set es"
      then show "w = v" using Cons.prems(1) [of w] by simp
    qed
    then show ?thesis by simp
  next
    case False
    have "(k, v) \<notin> set es"
    proof
      assume "(k, v) \<in> set es"
      then have "fst (k, v) \<in> fst ` set es" by (rule imageI)
      with False show False by simp
    qed
    with Cons.prems(2) have e: "e = (k, v)" by simp
    have 1: "foldl store (store m e) es k = store m e k"
      by (rule foldl_store_other [OF False])
    have 2: "store m e k = Some v"
      by (simp add: e store_def)
    show ?thesis by (simp add: 1 2)
  qed
qed

lemma set_z_entries:
  "set (z_entries g 0) =
     (\<lambda>(ix, iy, iz). (global_row g ix iy iz, local_row g ix iy iz))
       ` ({0..<nx g} \<times> {0..<ny g} \<times> {0..<nz g})"
proof -
  have u: "{0..n - 1} = {0..<n}" for n :: int by auto
  have "set (z_entries g 0) =
      (\<Union>iz\<in>{0..<nz g}. \<Union>iy\<in>{0..<ny g}.
         (\<lambda>ix. (global_row g ix iy iz, local_row g ix iy iz)) ` {0..<nx g})"
    by (simp add: z_entries_def y_entries_def x_entries_def u)
  also have "\<dots> = (\<lambda>(ix, iy, iz). (global_row g ix iy iz, local_row g ix iy iz))
       ` ({0..<nx g} \<times> {0..<ny g} \<times> {0..<nz g})"
  proof (intro set_eqI iffI)
    fix e
    assume "e \<in> (\<Union>iz\<in>{0..<nz g}. \<Union>iy\<in>{0..<ny g}.
         (\<lambda>ix. (global_row g ix iy iz, local_row g ix iy iz)) ` {0..<nx g})"
    then obtain ix iy iz where "ix \<in> {0..<nx g}" "iy \<in> {0..<ny g}" "iz \<in> {0..<nz g}"
      and e: "e = (global_row g ix iy iz, local_row g ix iy iz)" by blast
    then have "(ix, iy, iz) \<in> {0..<nx g} \<times> {0..<ny g} \<times> {0..<nz g}" by simp
    then show "e \<in> (\<lambda>(ix, iy, iz). (global_row g ix iy iz, local_row g ix iy iz))
       ` ({0..<nx g} \<times> {0..<ny g} \<times> {0..<nz g})"
      by (rule rev_image_eqI) (simp add: e)
  next
    fix e
    assume "e \<in> (\<lambda>(ix, iy, iz). (global_row g ix iy iz, local_row g ix iy iz))
       ` ({0..<nx g} \<times> {0..<ny g} \<times> {0..<nz g})"
    then show "e \<in> (\<Union>iz\<in>{0..<nz g}. \<Union>iy\<in>{0..<ny g}.
         (\<lambda>ix. (global_row g ix iy iz, local_row g ix iy iz)) ` {0..<nx g})"
      by auto
  qed
  finally show ?thesis .
qed

lemma global_row_inj:
  assumes fit: "geometry_fits T g"
    and c: "0 \<le> ix" "ix < nx g" "0 \<le> iy" "iy < ny g"
    and c': "0 \<le> ix'" "ix' < nx g" "0 \<le> iy'" "iy' < ny g"
    and eq: "global_row g ix iy iz = global_row g ix' iy' iz'"
  shows "ix = ix' \<and> iy = iy' \<and> iz = iz'"
proof -
  note f = geometry_fitsD [OF fit]
  note bx = block_bound [OF c(1,2) f(4,5)]
  note by' = block_bound [OF c(3,4) f(6,7)]
  note bx' = block_bound [OF c'(1,2) f(4,5)]
  note by'' = block_bound [OF c'(3,4) f(6,7)]
  from eq have "ipx g * nx g + ix = ipx g * nx g + ix'
      \<and> ipy g * ny g + iy = ipy g * ny g + iy'
      \<and> ipz g * nz g + iz = ipz g * nz g + iz'"
    unfolding global_row_def
    by (rule radix_inj [OF bx(2,3) bx'(2,3) by'(2,3) by''(2,3)])
  then show ?thesis by simp
qed

lemma inj_on_global_row:
  assumes "geometry_fits T g"
  shows "inj_on (\<lambda>(ix, iy, iz). global_row g ix iy iz)
           ({0..<nx g} \<times> {0..<ny g} \<times> {0..<nz g})"
proof (rule inj_onI)
  fix c c'
  assume c: "c \<in> {0..<nx g} \<times> {0..<ny g} \<times> {0..<nz g}"
    and c': "c' \<in> {0..<nx g} \<times> {0..<ny g} \<times> {0..<nz g}"
    and eq: "(case c of (ix, iy, iz) \<Rightarrow> global_row g ix iy iz)
           = (case c' of (ix, iy, iz) \<Rightarrow> global_row g ix iy iz)"
  obtain ix iy iz where 1: "c = (ix, iy, iz)" by (cases c) auto
  obtain ix' iy' iz' where 2: "c' = (ix', iy', iz')" by (cases c') auto
  from c have b: "0 \<le> ix" "ix < nx g" "0 \<le> iy" "iy < ny g" by (simp_all add: 1)
  from c' have b': "0 \<le> ix'" "ix' < nx g" "0 \<le> iy'" "iy' < ny g" by (simp_all add: 2)
  from eq have "global_row g ix iy iz = global_row g ix' iy' iz'" by (simp add: 1 2)
  then have "ix = ix' \<and> iy = iy' \<and> iz = iz'"
    by (rule global_row_inj [OF assms b b'])
  then show "c = c'" by (simp add: 1 2)
qed

lemma card_box:
  assumes "0 \<le> a" and "0 \<le> b" and "0 \<le> c"
  shows "card ({0..<a} \<times> {0..<b} \<times> {0..<c::int}) = nat (a * b * c)"
  using assms by (simp add: card_cartesian_product nat_mult_distrib)

section \<open>The claim about the global-to-local map\<close>

text \<open>
  C9: on a geometry whose values fit the integer types, \<^verbatim>\<open>PopulateGlobalToLocalMap\<close> on an
  empty \<^verbatim>\<open>globalToLocalMap\<close> returns a map with exactly \<open>nx * ny * nz\<close> entries, whose keys
  are the global rows of the local grid points; for every \<open>(ix, iy, iz)\<close> with
  \<open>0 \<le> ix < nx\<close>, \<open>0 \<le> iy < ny\<close>, \<open>0 \<le> iz < nz\<close> it maps the global row
  \<open>(ipz*nz+iz)*(nx*npx)*(ny*npy) + (ipy*ny+iy)*(nx*npx) + (ipx*nx+ix)\<close> to the local row
  \<open>iz*nx*ny + iy*nx + ix\<close>; and the global row is injective over these points.
\<close>

theorem global_to_local_map_inverts_rows:
  assumes "geometry_fits T g"
  shows "\<exists>m. PopulateGlobalToLocalMap T g Map.empty = Inr m
           \<and> card (dom m) = nat (nx g * ny g * nz g)
           \<and> dom m = (\<lambda>(ix, iy, iz).
                         (ipz g * nz g + iz) * (nx g * npx g) * (ny g * npy g)
                           + (ipy g * ny g + iy) * (nx g * npx g) + (ipx g * nx g + ix))
                        ` ({0..<nx g} \<times> {0..<ny g} \<times> {0..<nz g})
           \<and> (\<forall>ix iy iz.
                  0 \<le> ix \<and> ix < nx g \<and> 0 \<le> iy \<and> iy < ny g \<and> 0 \<le> iz \<and> iz < nz g \<longrightarrow>
                  m ((ipz g * nz g + iz) * (nx g * npx g) * (ny g * npy g)
                       + (ipy g * ny g + iy) * (nx g * npx g) + (ipx g * nx g + ix))
                    = Some (iz * nx g * ny g + iy * nx g + ix))
           \<and> inj_on (\<lambda>(ix, iy, iz).
                         (ipz g * nz g + iz) * (nx g * npx g) * (ny g * npy g)
                           + (ipy g * ny g + iy) * (nx g * npx g) + (ipx g * nx g + ix))
                      ({0..<nx g} \<times> {0..<ny g} \<times> {0..<nz g})"
proof -
  let ?box = "{0..<nx g} \<times> {0..<ny g} \<times> {0..<nz g}"
  let ?m = "foldl store Map.empty (z_entries g 0)"
  note f = geometry_fitsD [OF assms]
  have G: "(\<lambda>(ix, iy, iz).
              (ipz g * nz g + iz) * (nx g * npx g) * (ny g * npy g)
                + (ipy g * ny g + iy) * (nx g * npx g) + (ipx g * nx g + ix))
           = (\<lambda>(ix, iy, iz). global_row g ix iy iz)"
    by (simp add: global_row_def)
  note inj = inj_on_global_row [OF assms]
  have ret: "PopulateGlobalToLocalMap T g Map.empty = Inr ?m"
    by (rule PopulateGlobalToLocalMap_ok [OF assms])
  have "dom ?m = fst ` set (z_entries g 0)"
    by (simp add: foldl_store_dom)
  also have "\<dots> = (\<lambda>(ix, iy, iz). global_row g ix iy iz) ` ?box"
    unfolding set_z_entries by (auto simp: image_image case_prod_beta)
  finally have dom: "dom ?m = (\<lambda>(ix, iy, iz). global_row g ix iy iz) ` ?box" .
  have "card (dom ?m) = card ?box"
    unfolding dom by (rule card_image [OF inj])
  also have "\<dots> = nat (nx g * ny g * nz g)"
    by (rule card_box) (use f in simp_all)
  finally have card: "card (dom ?m) = nat (nx g * ny g * nz g)" .
  have look: "?m (global_row g ix iy iz) = Some (local_row g ix iy iz)"
    if b: "0 \<le> ix" "ix < nx g" "0 \<le> iy" "iy < ny g" "0 \<le> iz" "iz < nz g" for ix iy iz
  proof (rule foldl_store_lookup)
    from b have "(ix, iy, iz) \<in> ?box" by simp
    then show "(global_row g ix iy iz, local_row g ix iy iz) \<in> set (z_entries g 0)"
      unfolding set_z_entries by (rule rev_image_eqI) simp
  next
    fix v'
    assume "(global_row g ix iy iz, v') \<in> set (z_entries g 0)"
    then obtain ix' iy' iz' where b': "0 \<le> ix'" "ix' < nx g" "0 \<le> iy'" "iy' < ny g"
      and e: "global_row g ix iy iz = global_row g ix' iy' iz'"
      and v': "v' = local_row g ix' iy' iz'"
      unfolding set_z_entries by auto
    from global_row_inj [OF assms b(1-4) b' e] v'
    show "v' = local_row g ix iy iz" by simp
  qed
  have all: "\<forall>ix iy iz.
      0 \<le> ix \<and> ix < nx g \<and> 0 \<le> iy \<and> iy < ny g \<and> 0 \<le> iz \<and> iz < nz g \<longrightarrow>
      ?m ((ipz g * nz g + iz) * (nx g * npx g) * (ny g * npy g)
            + (ipy g * ny g + iy) * (nx g * npx g) + (ipx g * nx g + ix))
        = Some (iz * nx g * ny g + iy * nx g + ix)"
    using look by (simp add: global_row_def local_row_def)
  show ?thesis
    unfolding G
    apply (rule exI [of _ ?m])
    using ret card dom all [unfolded G] inj
    apply (intro conjI)
    apply assumption+
    done
qed

theorem global_to_local_map_inverts_rows_witness:
  "\<exists>m. PopulateGlobalToLocalMap ex_types ex_geom2 Map.empty = Inr m
       \<and> card (dom m) = 8
       \<and> m 2 = Some 0 \<and> m 3 = Some 1 \<and> m 6 = Some 2 \<and> m 7 = Some 3
       \<and> m 10 = Some 4 \<and> m 11 = Some 5 \<and> m 14 = Some 6 \<and> m 15 = Some 7"
proof -
  have fit: "geometry_fits ex_types ex_geom2"
    by (simp add: geometry_fits_def ex_types_def ex_geom2_def)
  from global_to_local_map_inverts_rows [OF fit] obtain m where
    ret: "PopulateGlobalToLocalMap ex_types ex_geom2 Map.empty = Inr m"
    and card: "card (dom m) = nat (nx ex_geom2 * ny ex_geom2 * nz ex_geom2)"
    and look: "\<forall>ix iy iz.
        0 \<le> ix \<and> ix < nx ex_geom2 \<and> 0 \<le> iy \<and> iy < ny ex_geom2
          \<and> 0 \<le> iz \<and> iz < nz ex_geom2 \<longrightarrow>
        m ((ipz ex_geom2 * nz ex_geom2 + iz) * (nx ex_geom2 * npx ex_geom2)
              * (ny ex_geom2 * npy ex_geom2)
             + (ipy ex_geom2 * ny ex_geom2 + iy) * (nx ex_geom2 * npx ex_geom2)
             + (ipx ex_geom2 * nx ex_geom2 + ix))
          = Some (iz * nx ex_geom2 * ny ex_geom2 + iy * nx ex_geom2 + ix)"
    by blast
  have c: "card (dom m) = 8"
    using card by (simp add: ex_geom2_def)
  have l: "m 2 = Some 0" "m 3 = Some 1" "m 6 = Some 2" "m 7 = Some 3"
    "m 10 = Some 4" "m 11 = Some 5" "m 14 = Some 6" "m 15 = Some 7"
    using look [rule_format, of 0 0 0] look [rule_format, of 1 0 0]
      look [rule_format, of 0 1 0] look [rule_format, of 1 1 0]
      look [rule_format, of 0 0 1] look [rule_format, of 1 0 1]
      look [rule_format, of 0 1 1] look [rule_format, of 1 1 1]
    by (simp_all add: ex_geom2_def)
  show ?thesis
    by (rule exI [of _ m]) (simp only: ret c l simp_thms)
qed

section \<open>Proofs: running statements on the document\<close>

lemma run_append:
  "run (xs @ ys) e = (case run xs e of None \<Rightarrow> None | Some e' \<Rightarrow> run ys e')"
  by (induction xs arbitrary: e) (auto split: option.splits)

lemma add_at_key: "add_at p k v e = Some e' \<Longrightarrow> key e' = key e \<and> yvalue e' = yvalue e"
  by (cases p) (auto simp: add_def)

lemma exec_key: "exec s e = Some e' \<Longrightarrow> key e' = key e \<and> yvalue e' = yvalue e"
  by (cases s) (auto dest: add_at_key)

lemma run_key: "run L e = Some e' \<Longrightarrow> key e' = key e \<and> yvalue e' = yvalue e"
proof (induction L arbitrary: e)
  case Nil
  then show ?case by simp
next
  case (Cons s L)
  then obtain e1 where s: "exec s e = Some e1" and r: "run L e1 = Some e'"
    by (auto split: option.splits)
  from Cons.IH [OF r] exec_key [OF s] show ?case by simp
qed

lemma update_child_last:
  assumes "\<forall>c\<in>set cs. key c \<noteq> a" and "key x = a"
  shows "update_child a f (cs @ [x]) = map_option (\<lambda>x'. cs @ [x']) (f x)"
  using assms by (induction cs) (auto simp: option.map_comp comp_def)

lemma exec_under:
  assumes "under a s" and "\<forall>c\<in>set cs. key c \<noteq> a" and "key x = a"
  shows "exec s (YAML_Element k0 v0 (cs @ [x])) =
           map_option (\<lambda>x'. YAML_Element k0 v0 (cs @ [x'])) (exec (pop s) x)"
proof -
  obtain p k v where s: "s = Add p k v" by (cases s)
  with assms(1) obtain q where p: "p = a # q" by (cases p) (auto simp: under_def)
  show ?thesis
    using assms(2,3) by (simp add: s p update_child_last option.map_comp comp_def)
qed

lemma run_under:
  assumes "list_all (under a) L" and "\<forall>c\<in>set cs. key c \<noteq> a" and "key x = a"
  shows "run L (YAML_Element k0 v0 (cs @ [x])) =
           map_option (\<lambda>x'. YAML_Element k0 v0 (cs @ [x'])) (run (map pop L) x)"
  using assms
proof (induction L arbitrary: x)
  case Nil
  then show ?case by simp
next
  case (Cons s L)
  from Cons.prems have u: "under a s" and r: "list_all (under a) L" by simp_all
  show ?case
  proof (cases "exec (pop s) x")
    case None
    then show ?thesis
      using exec_under [OF u Cons.prems(2,3), of k0 v0] by simp
  next
    case (Some x1)
    then have k: "key x1 = a" using exec_key Cons.prems(3) by metis
    show ?thesis
      using exec_under [OF u Cons.prems(2,3), of k0 v0] Some
            Cons.IH [OF r Cons.prems(2) k]
      by simp
  qed
qed

lemma run_flat:
  "list_all (\<lambda>s. stmt_path s = []) L \<Longrightarrow>
   run L e = Some (YAML_Element (key e) (yvalue e) (children e @ map leaf_of L))"
proof (induction L arbitrary: e)
  case Nil
  then show ?case by simp
next
  case (Cons s L)
  obtain p k v where s: "s = Add p k v" by (cases s)
  with Cons.prems have p: "p = []" by simp
  from Cons.prems have "list_all (\<lambda>s. stmt_path s = []) L" by simp
  from Cons.IH [OF this] show ?case by (simp add: s p add_def)
qed

lemma run_block:
  assumes "block_ok B" and "\<forall>c\<in>set cs. key c \<noteq> block_key B"
  shows "run B (YAML_Element k0 v0 cs) = Some (YAML_Element k0 v0 (cs @ [block_elt B]))"
    and "key (block_elt B) = block_key B"
    and "yvalue (block_elt B) = (case B of Add p a v # L \<Rightarrow> v)"
proof -
  from assms(1) obtain p a v L where B: "B = Add p a v # L"
    by (cases B rule: block_ok.cases) auto
  from assms(1) B have p: "p = []" and u: "list_all (under a) L"
    and r: "run (map pop L) (YAML_Element a v []) \<noteq> None" by simp_all
  from r obtain x where x: "run (map pop L) (YAML_Element a v []) = Some x" by auto
  from assms(2) B have n: "\<forall>c\<in>set cs. key c \<noteq> a" by simp
  show "run B (YAML_Element k0 v0 cs) = Some (YAML_Element k0 v0 (cs @ [block_elt B]))"
    using run_under [OF u n, of "YAML_Element a v []" k0 v0] x
    by (simp add: B p add_def)
  show "key (block_elt B) = block_key B"
    using run_key [OF x] by (simp add: B x)
  show "yvalue (block_elt B) = (case B of Add p a v # L \<Rightarrow> v)"
    using run_key [OF x] by (simp add: B x)
qed

lemma run_blocks:
  assumes "list_all block_ok Bs" and "distinct (map key cs @ map block_key Bs)"
  shows "run (concat Bs) (YAML_Element k0 v0 cs) =
           Some (YAML_Element k0 v0 (cs @ map block_elt Bs))"
  using assms
proof (induction Bs arbitrary: cs)
  case Nil
  then show ?case by simp
next
  case (Cons B Bs)
  from Cons.prems have ok: "block_ok B" and oks: "list_all block_ok Bs" by simp_all
  from Cons.prems(2) have "block_key B \<notin> key ` set cs" by simp
  then have n: "\<forall>c\<in>set cs. key c \<noteq> block_key B" by (metis imageI)
  have kb: "key (block_elt B) = block_key B"
    by (rule run_block(2) [OF ok n])
  have d: "distinct (map key (cs @ [block_elt B]) @ map block_key Bs)"
    using Cons.prems(2) by (simp add: kb)
  show ?case
    using run_block(1) [OF ok n, of k0 v0] Cons.IH [OF oks d]
    by (simp add: run_append)
qed

lemma leaf_of_pop: "leaf_of (pop s) = leaf_of s"
  by (cases s) simp

lemma flat_pop:
  "list_all (\<lambda>s. stmt_path s = [a]) L \<Longrightarrow> list_all (\<lambda>s. stmt_path s = []) (map pop L)"
  by (induction L) (auto elim: stmt_path.elims)

lemma under_flat:
  "list_all (\<lambda>s. stmt_path s = a # q) L \<Longrightarrow> list_all (under a) L"
  by (induction L) (auto simp: under_def)

lemma pop_path:
  "list_all (\<lambda>s. stmt_path s = a # q) L \<Longrightarrow> list_all (\<lambda>s. stmt_path s = q) (map pop L)"
  by (induction L) (auto elim: stmt_path.elims)

lemma block_flat:
  assumes "list_all (\<lambda>s. stmt_path s = [a]) L"
  shows "block_ok (Add [] a v # L)"
    and "block_elt (Add [] a v # L) = YAML_Element a v (map leaf_of L)"
proof -
  have r: "run (map pop L) (YAML_Element a v []) = Some (YAML_Element a v (map leaf_of L))"
    using run_flat [OF flat_pop [OF assms], of "YAML_Element a v []"]
    by (simp add: comp_def leaf_of_pop)
  show "block_ok (Add [] a v # L)"
    using under_flat [OF assms] r by simp
  show "block_elt (Add [] a v # L) = YAML_Element a v (map leaf_of L)"
    using r by simp
qed

lemma block_nested:
  assumes pre: "list_all (\<lambda>s. stmt_path s = [a]) pre"
    and nb: "\<forall>s\<in>set pre. key (leaf_of s) \<noteq> b"
    and L: "list_all (\<lambda>s. stmt_path s = [a, b]) L"
  shows "block_ok (Add [] a v # pre @ Add [a] b vb # L)"
proof -
  let ?e = "YAML_Element a v (map leaf_of pre)"
  have r1: "run (map pop pre) (YAML_Element a v []) = Some ?e"
    using run_flat [OF flat_pop [OF pre], of "YAML_Element a v []"]
    by (simp add: comp_def leaf_of_pop)
  have u: "list_all (under b) (map pop L)"
    by (rule under_flat [OF pop_path [OF L]])
  have f: "list_all (\<lambda>s. stmt_path s = []) (map pop (map pop L))"
    by (rule flat_pop [OF pop_path [OF L]])
  have n: "\<forall>c\<in>set (map leaf_of pre). key c \<noteq> b"
    using nb by simp
  have r2: "run (map pop L) (YAML_Element a v (map leaf_of pre @ [YAML_Element b vb []])) \<noteq> None"
    using run_under [OF u n, of "YAML_Element b vb []" a v]
          run_flat [OF f, of "YAML_Element b vb []"]
    by simp
  have "run (map pop (pre @ Add [a] b vb # L)) (YAML_Element a v []) \<noteq> None"
    using r1 r2 by (simp add: run_append add_def)
  moreover have "list_all (under a) (pre @ Add [a] b vb # L)"
    using under_flat [OF pre] under_flat [OF L] by (simp add: under_def)
  ultimately show ?thesis by simp
qed

lemma stmts_coarse_grids_Inr:
  assumes "stmts_coarse_grids i n Af = Inr L" and "i < n"
  shows "\<exists>M Mc mg rest. Af = Some M \<and> Ac M = Some Mc \<and> mgData M = Some mg
     \<and> stmts_coarse_grids (i + 1) n (Ac M) = Inr rest
     \<and> list_all (\<lambda>s. stmt_path s = [''Multigrid Information'', ''Coarse Grids''])
         (take 5 L)
     \<and> drop 5 L = rest"
  using assms
  by (subst (asm) stmts_coarse_grids.simps) (auto split: option.splits sum.splits)

lemma stmts_coarse_grids_path:
  "stmts_coarse_grids i n Af = Inr L \<Longrightarrow>
   list_all (\<lambda>s. stmt_path s = [''Multigrid Information'', ''Coarse Grids'']) L"
proof (induction i n Af arbitrary: L rule: stmts_coarse_grids.induct)
  case (1 i n Af)
  show ?case
  proof (cases "i < n")
    case False
    with "1.prems" show ?thesis by (simp add: stmts_coarse_grids.simps)
  next
    case True
    from stmts_coarse_grids_Inr [OF "1.prems" True] obtain M Mc mg rest where
      Af: "Af = Some M" and Mc: "Ac M = Some Mc" and mg: "mgData M = Some mg"
      and rest: "stmts_coarse_grids (i + 1) n (Ac M) = Inr rest"
      and t: "list_all (\<lambda>s. stmt_path s = [''Multigrid Information'', ''Coarse Grids''])
               (take 5 L)"
      and d: "drop 5 L = rest"
      by blast
    from "1.IH" [OF True Af Mc mg rest]
    have "list_all (\<lambda>s. stmt_path s = [''Multigrid Information'', ''Coarse Grids''])
            (drop 5 L)"
      by (simp add: d)
    with t have "list_all (\<lambda>s. stmt_path s = [''Multigrid Information'', ''Coarse Grids''])
            (take 5 L @ drop 5 L)"
      by (simp only: list_all_append)
    then show ?thesis by simp
  qed
qed

lemma stmts_memory_coarse_grids_Inr:
  assumes "stmts_memory_coarse_grids D i n pl = Inr L" and "i < n"
  shows "\<exists>rest. 0 \<le> i \<and> nat i < length pl
     \<and> stmts_memory_coarse_grids D (i + 1) n pl = Inr rest
     \<and> list_all (\<lambda>s. stmt_path s = [''Memory Use Information'', ''Coarse Grids''])
         (take 2 L)
     \<and> drop 2 L = rest"
  using assms
  by (subst (asm) stmts_memory_coarse_grids.simps) (auto split: if_splits sum.splits)

lemma stmts_memory_coarse_grids_path:
  "stmts_memory_coarse_grids D i n pl = Inr L \<Longrightarrow>
   list_all (\<lambda>s. stmt_path s = [''Memory Use Information'', ''Coarse Grids'']) L"
proof (induction D i n pl arbitrary: L rule: stmts_memory_coarse_grids.induct)
  case (1 D i n pl)
  show ?case
  proof (cases "i < n")
    case False
    with "1.prems" show ?thesis by (simp add: stmts_memory_coarse_grids.simps)
  next
    case True
    from stmts_memory_coarse_grids_Inr [OF "1.prems" True] obtain rest where
      b: "0 \<le> i \<and> nat i < length pl"
      and rest: "stmts_memory_coarse_grids D (i + 1) n pl = Inr rest"
      and t: "list_all (\<lambda>s. stmt_path s = [''Memory Use Information'', ''Coarse Grids''])
               (take 2 L)"
      and d: "drop 2 L = rest"
      by blast
    from "1.IH" [OF True b rest]
    have "list_all (\<lambda>s. stmt_path s = [''Memory Use Information'', ''Coarse Grids''])
            (drop 2 L)"
      by (simp add: d)
    with t have "list_all (\<lambda>s. stmt_path s = [''Memory Use Information'', ''Coarse Grids''])
            (take 2 L @ drop 2 L)"
      by (simp only: list_all_append)
    then show ?thesis by simp
  qed
qed

lemma multigrid_information_block:
  assumes "stmts_multigrid_information A n = Inr mi"
  shows "block_ok mi" and "block_key mi = ''Multigrid Information''"
    and "block_value mi = YString []"
proof -
  from assms obtain grids where g: "stmts_coarse_grids 1 n (Some A) = Inr grids"
    and mi: "mi = Add [] ''Multigrid Information'' (YString '''') #
       [Add [''Multigrid Information''] ''Number of coarse grid levels'' (YInt (n - 1))] @
       Add [''Multigrid Information''] ''Coarse Grids'' (YString '''') # grids"
    by (auto simp: stmts_multigrid_information_def split: sum.splits)
  show "block_ok mi"
    unfolding mi
    by (rule block_nested) (simp_all add: stmts_coarse_grids_path [OF g])
  show "block_key mi = ''Multigrid Information''"
    by (simp add: mi)
  show "block_value mi = YString []"
    by (simp add: mi)
qed

lemma memory_use_information_block:
  assumes "stmts_memory_use_information D n mem = Inr mu"
  shows "block_ok mu" and "block_key mu = ''Memory Use Information''"
    and "block_value mu = YString []"
proof -
  from assms obtain grids where
    g: "stmts_memory_coarse_grids D 1 n (fnbytesPerLevel mem) = Inr grids"
    and mu: "mu = Add [] ''Memory Use Information'' (YString '''') #
       [Add [''Memory Use Information''] ''Total memory used for data (Gbytes)''
          (YDouble (fnbytes mem / D 1000000000)),
        Add [''Memory Use Information''] ''Memory used for OptimizeProblem data (Gbytes)''
          (YDouble (fnbytes_OptimizedProblem mem / D 1000000000)),
        Add [''Memory Use Information'']
          ''Bytes per equation (Total memory / Number of Equations)''
          (YDouble (fnbytesPerEquation mem)),
        Add [''Memory Use Information''] ''Memory used for linear system and CG (Gbytes)''
          (YDouble (fnbytesPerLevel mem ! 0 / D 1000000000))] @
       Add [''Memory Use Information''] ''Coarse Grids'' (YString '''') # grids"
    by (auto simp: stmts_memory_use_information_def split: sum.splits if_splits)
  show "block_ok mu"
    unfolding mu
    by (rule block_nested) (simp_all add: stmts_memory_coarse_grids_path [OF g])
  show "block_key mu = ''Memory Use Information''"
    by (simp add: mu)
  show "block_value mu = YString []"
    by (simp add: mu)
qed

lemma spectral_convergence_tests_block:
  "block_ok (stmts_spectral_convergence_tests cg)"
  by (simp add: stmts_spectral_convergence_tests_def under_def add_def)

lemma final_summary_flat:
  "stmts_final_summary D A tms f ops valid qp = Add [] FinalSummary (YString '''') # L \<Longrightarrow>
   list_all (\<lambda>s. stmt_path s = [FinalSummary]) L"
  by (auto simp: stmts_final_summary_def Let_def)

lemma final_summary_block:
  "block_ok (stmts_final_summary D A tms f ops valid qp)"
proof -
  obtain L where L: "stmts_final_summary D A tms f ops valid qp =
      Add [] FinalSummary (YString '''') # L"
    by (simp add: stmts_final_summary_def Let_def)
  show ?thesis
    unfolding L by (rule block_flat(1) [OF final_summary_flat [OF L]])
qed

lemma report_blocks_ok:
  assumes "stmts_multigrid_information A n = Inr mi"
    and "stmts_memory_use_information D n mem = Inr mu"
  shows "list_all block_ok
           (report_blocks D A ncg rf opt tms cg sy no gf qp t4min t4max t4avg ops bw mi mu)"
  unfolding report_blocks_def
  apply (simp add: multigrid_information_block(1) [OF assms(1)]
      memory_use_information_block(1) [OF assms(2)]
      spectral_convergence_tests_block final_summary_block)
  apply (simp add: stmts_release_date_def stmts_machine_summary_def
      stmts_global_problem_dimensions_def stmts_processor_dimensions_def
      stmts_local_domain_dimensions_def stmts_problem_summary_def
      stmts_setup_information_def stmts_linear_system_information_def
      stmts_memory_use_summary_def stmts_vv_testing_summary_def
      stmts_departure_from_symmetry_def stmts_iterations_summary_def
      stmts_iteration_count_information_def stmts_reproducibility_summary_def
      stmts_reproducibility_information_def stmts_performance_summary_def
      stmts_benchmark_time_summary_def stmts_floating_point_operations_summary_def
      stmts_gbs_summary_def stmts_gflops_summary_def stmts_user_optimization_overheads_def
      stmts_ddot_timing_variations_def under_def add_def)
  done

lemma block_elt_key: "block_ok B \<Longrightarrow> key (block_elt B) = block_key B"
  using run_block(2) [of B "[]"] by simp

lemma block_elt_yvalue: "block_ok B \<Longrightarrow> yvalue (block_elt B) = block_value B"
  using run_block(3) [of B "[]"] by (cases B rule: block_ok.cases) simp_all

lemma map_block_elt:
  "list_all block_ok Bs \<Longrightarrow>
   map key (map block_elt Bs) = map block_key Bs
   \<and> map yvalue (map block_elt Bs) = map block_value Bs"
  by (induction Bs) (simp_all add: block_elt_key block_elt_yvalue)

lemma find_block_elt:
  assumes "list_all block_ok Bs" and "distinct (map block_key Bs)" and "B \<in> set Bs"
  shows "find (\<lambda>c. key c = block_key B) (map block_elt Bs) = Some (block_elt B)"
  using assms
proof (induction Bs)
  case Nil
  then show ?case by simp
next
  case (Cons B' Bs)
  from Cons.prems(1) have k: "key (block_elt B') = block_key B'"
    by (simp add: block_elt_key)
  show ?case
  proof (cases "B = B'")
    case True
    then show ?thesis by (simp add: k)
  next
    case False
    with Cons.prems have in_tl: "B \<in> set Bs" by simp
    then have "block_key B \<in> set (map block_key Bs)" by simp
    with Cons.prems(2) have "block_key B' \<noteq> block_key B" by auto
    then show ?thesis
      using Cons.IH [OF _ _ in_tl] Cons.prems by (simp add: k)
  qed
qed

lemma lookup_block:
  assumes "list_all block_ok Bs" and "distinct (map block_key Bs)" and "B \<in> set Bs"
    and "block_key B = a"
  shows "lookup (a # p) (YAML_Element k0 v0 (map block_elt Bs)) = lookup p (block_elt B)"
  using find_block_elt [OF assms(1-3)] assms(4) by (simp add: lookup_def get_def)

lemma report_statements_blocks:
  assumes "report_statements D A n ncg rf opt tms cg sy no gf qp t4min t4max t4avg ops bw mem
             = Inr stmts"
  shows "\<exists>mi mu. stmts_multigrid_information A n = Inr mi
           \<and> stmts_memory_use_information D n mem = Inr mu
           \<and> stmts = concat (report_blocks D A ncg rf opt tms cg sy no gf qp
                               t4min t4max t4avg ops bw mi mu)"
  using assms
  by (auto simp: report_statements_def report_blocks_def split: sum.splits)

lemma final_summary_key:
  "block_key (stmts_final_summary D A tms f ops valid qp) = FinalSummary"
  by (simp add: stmts_final_summary_def Let_def)

lemma report_block_keys:
  assumes "block_key mi = ''Multigrid Information''"
    and "block_key mu = ''Memory Use Information''"
  shows "map block_key
           (report_blocks D A ncg rf opt tms cg sy no gf qp t4min t4max t4avg ops bw mi mu)
         = ''Release date'' # required_sections"
  using assms
  by (simp add: report_blocks_def required_sections_def final_summary_key FinalSummary_def
      stmts_release_date_def stmts_machine_summary_def
      stmts_global_problem_dimensions_def stmts_processor_dimensions_def
      stmts_local_domain_dimensions_def stmts_problem_summary_def
      stmts_setup_information_def stmts_linear_system_information_def
      stmts_memory_use_summary_def stmts_vv_testing_summary_def
      stmts_spectral_convergence_tests_def DepartureFromSymmetry_def
      stmts_departure_from_symmetry_def stmts_iterations_summary_def
      stmts_iteration_count_information_def stmts_reproducibility_summary_def
      stmts_reproducibility_information_def stmts_performance_summary_def
      stmts_benchmark_time_summary_def stmts_floating_point_operations_summary_def
      stmts_gbs_summary_def stmts_gflops_summary_def stmts_user_optimization_overheads_def
      stmts_ddot_timing_variations_def)

lemma distinct_sections: "distinct (''Release date'' # required_sections)"
  by (simp add: required_sections_def)

lemma final_summary_value:
  "block_value (stmts_final_summary D A tms f ops valid qp) = YString []"
  by (simp add: stmts_final_summary_def Let_def)

lemma report_block_values:
  assumes "block_value mi = YString []" and "block_value mu = YString []"
  shows "map block_value
           (report_blocks D A ncg rf opt tms cg sy no gf qp t4min t4max t4avg ops bw mi mu)
         = YString ''November 11, 2015'' # replicate 25 (YString [])"
  using assms
  by (simp add: report_blocks_def final_summary_value eval_nat_numeral
      stmts_release_date_def stmts_machine_summary_def
      stmts_global_problem_dimensions_def stmts_processor_dimensions_def
      stmts_local_domain_dimensions_def stmts_problem_summary_def
      stmts_setup_information_def stmts_linear_system_information_def
      stmts_memory_use_summary_def stmts_vv_testing_summary_def
      stmts_spectral_convergence_tests_def
      stmts_departure_from_symmetry_def stmts_iterations_summary_def
      stmts_iteration_count_information_def stmts_reproducibility_summary_def
      stmts_reproducibility_information_def stmts_performance_summary_def
      stmts_benchmark_time_summary_def stmts_floating_point_operations_summary_def
      stmts_gbs_summary_def stmts_gflops_summary_def stmts_user_optimization_overheads_def
      stmts_ddot_timing_variations_def)

lemma filter_sections:
  assumes "map key cs = k0 # ks" and "map yvalue cs = v0 # replicate (length ks) e"
    and "v0 \<noteq> e"
  shows "map key (filter (\<lambda>c. yvalue c = e) cs) = ks"
proof -
  from assms(1) obtain c cs' where cs: "cs = c # cs'" and ks: "map key cs' = ks"
    by (cases cs) auto
  from assms(2) cs have c: "yvalue c = v0" and r: "map yvalue cs' = replicate (length ks) e"
    by simp_all
  have "\<forall>x\<in>set cs'. yvalue x = e"
  proof
    fix x assume "x \<in> set cs'"
    then have "yvalue x \<in> set (map yvalue cs')" by simp
    then show "yvalue x = e" unfolding r by simp
  qed
  then have "filter (\<lambda>c. yvalue c = e) cs' = cs'"
    by (simp add: filter_id_conv)
  then show ?thesis
    using assms(3) by (simp add: cs c ks)
qed

text \<open>
  The document that a returning call on rank 0 has built: one element for each block,
  in order.
\<close>

lemma ReportResults_doc:
  assumes "ReportResults D S X A n ncg rf opt tms cg sy no gf qp = Inr out"
    and "yaml out = Some doc"
  obtains ops bw mem mi mu where
    "flop_count_model D A n ncg rf opt = Inr ops"
    "memory_bandwidth_model D S A n ncg rf opt = Inr bw"
    "memory_usage_model D S X A n ncg = Inr mem"
    "list_all block_ok (built_blocks D X A ncg rf opt tms cg sy no gf qp ops bw mi mu)"
    "map block_key (built_blocks D X A ncg rf opt tms cg sy no gf qp ops bw mi mu)
       = ''Release date'' # required_sections"
    "doc = YAML_Element ''HPCG-Benchmark'' (YString ''3.0'')
             (map block_elt (built_blocks D X A ncg rf opt tms cg sy no gf qp ops bw mi mu))"
    "map block_value (built_blocks D X A ncg rf opt tms cg sy no gf qp ops bw mi mu)
       = YString ''November 11, 2015'' # replicate 25 (YString [])"
proof -
  let ?t4min = "allReduce X MinFT (tms 4)"
  let ?t4max = "allReduce X MaxFT (tms 4)"
  let ?t4avg = "allReduce X SumFT (tms 4) / D (size_g (geom A))"
  from assms obtain ops bw mem stmts where
    ops: "flop_count_model D A n ncg rf opt = Inr ops" and
    bw: "memory_bandwidth_model D S A n ncg rf opt = Inr bw" and
    mem: "memory_usage_model D S X A n ncg = Inr mem" and
    st: "report_statements D A n ncg rf opt tms cg sy no gf qp ?t4min ?t4max ?t4avg ops bw mem
           = Inr stmts" and
    run: "run stmts (YAML_Doc ''HPCG-Benchmark'' ''3.0'') = Some doc"
    by (auto simp: ReportResults_def Let_def split: if_splits sum.splits option.splits)
  from report_statements_blocks [OF st] obtain mi mu where
    mi: "stmts_multigrid_information A n = Inr mi" and
    mu: "stmts_memory_use_information D n mem = Inr mu" and
    eq: "stmts = concat (report_blocks D A ncg rf opt tms cg sy no gf qp
                           ?t4min ?t4max ?t4avg ops bw mi mu)"
    by blast
  let ?Bs = "built_blocks D X A ncg rf opt tms cg sy no gf qp ops bw mi mu"
  have ok: "list_all block_ok ?Bs"
    unfolding built_blocks_def by (rule report_blocks_ok [OF mi mu])
  have keys: "map block_key ?Bs = ''Release date'' # required_sections"
    unfolding built_blocks_def
    by (rule report_block_keys [OF multigrid_information_block(2) [OF mi]
          memory_use_information_block(2) [OF mu]])
  have "distinct (map key ([] :: 'a YAML_Element list) @ map block_key ?Bs)"
    using distinct_sections by (simp only: keys list.map append_Nil)
  from run_blocks [OF ok this, of "''HPCG-Benchmark''" "YString ''3.0''"] run
  have doc: "doc = YAML_Element ''HPCG-Benchmark'' (YString ''3.0'') (map block_elt ?Bs)"
    by (simp add: eq YAML_Doc_def built_blocks_def)
  have vals: "map block_value ?Bs = YString ''November 11, 2015'' # replicate 25 (YString [])"
    unfolding built_blocks_def
    by (rule report_block_values [OF multigrid_information_block(3) [OF mi]
          memory_use_information_block(3) [OF mu]])
  show thesis
    by (rule that [OF ops bw mem ok keys doc vals])
qed

lemma lookup_flat_block:
  assumes "list_all block_ok Bs" and "distinct (map block_key Bs)"
    and "B \<in> set Bs" and "B = Add [] a v # L"
    and "list_all (\<lambda>s. stmt_path s = [a]) L"
  shows "lookup [a, k] (YAML_Element k0 v0 (map block_elt Bs)) =
           map_option yvalue (find (\<lambda>c. key c = k) (map leaf_of L))"
proof -
  have "lookup [a, k] (YAML_Element k0 v0 (map block_elt Bs)) = lookup [k] (block_elt B)"
    by (rule lookup_block [OF assms(1-3)]) (simp add: assms(4))
  also have "\<dots> = map_option yvalue (find (\<lambda>c. key c = k) (map leaf_of L))"
    unfolding assms(4) block_flat(2) [OF assms(5)]
    by (simp add: lookup_def get_def split: option.splits)
  finally show ?thesis .
qed

lemma built_blocks_mem:
  "stmts_floating_point_operations_summary ops
     \<in> set (built_blocks D X A ncg rf opt tms cg sy no gf qp ops bw mi mu)"
  "stmts_gflops_summary D tms (D ncg) ops
     \<in> set (built_blocks D X A ncg rf opt tms cg sy no gf qp ops bw mi mu)"
  "stmts_final_summary D A tms (D ncg) ops (isValidRun cg sy no gf) qp
     \<in> set (built_blocks D X A ncg rf opt tms cg sy no gf qp ops bw mi mu)"
  by (simp_all add: built_blocks_def report_blocks_def)

lemma distinct_block_keys:
  "map block_key Bs = ''Release date'' # required_sections \<Longrightarrow> distinct (map block_key Bs)"
  using distinct_sections by simp

lemma flop_count_model_Inr:
  assumes "flop_count_model D A n ncg rf opt = Inr ops"
  shows "fnops_ddot ops = (D 3 * (D ncg * D opt) + D ncg) * D 2 * D (totalNumberOfRows (sclrs A))"
    and "fnops_waxpby ops = (D 3 * (D ncg * D opt) + D ncg) * D 2 * D (totalNumberOfRows (sclrs A))"
    and "fnops_sparsemv ops = (D ncg * D opt + D ncg) * D 2 * D (totalNumberOfNonzeros (sclrs A))"
    and "fnops ops = fnops_ddot ops + fnops_waxpby ops + fnops_sparsemv ops + fnops_precond ops"
    and "frefnops ops = fnops ops * D rf / D opt"
  using assms
  by (auto simp: flop_count_model_def Let_def split: sum.splits option.splits prod.splits)

lemma find_append:
  "find P (xs @ ys) = (case find P xs of None \<Rightarrow> find P ys | Some x \<Rightarrow> Some x)"
  by (induction xs) auto

lemma find_if: "find P (if c then xs else ys) = (if c then find P xs else find P ys)"
  by simp

lemma map_if: "map f (if c then xs else ys) = (if c then map f xs else map f ys)"
  by simp

text \<open>
  Reading the "GFLOP/s Summary" and the "Final Summary" of the document that a call has
  built: the first entry with the key, among the entries of the block.
\<close>

lemma summaries_lookup:
  assumes "ReportResults D S X A n ncg rf opt tms cg sy no gf qp = Inr out"
    and "yaml out = Some doc"
  obtains ops where
    "flop_count_model D A n ncg rf opt = Inr ops"
    "\<forall>k. lookup [''GFLOP/s Summary'', k] doc =
        map_option yvalue (find (\<lambda>c. key c = k)
          (map leaf_of (tl (stmts_gflops_summary D tms (D ncg) ops))))"
    "\<forall>k. lookup [FinalSummary, k] doc =
        map_option yvalue (find (\<lambda>c. key c = k)
          (map leaf_of (tl (stmts_final_summary D A tms (D ncg) ops
             (isValidRun cg sy no gf) qp))))"
proof -
  from assms obtain ops bw mem mi mu where
    ops: "flop_count_model D A n ncg rf opt = Inr ops" and
    "memory_bandwidth_model D S A n ncg rf opt = Inr bw" and
    "memory_usage_model D S X A n ncg = Inr mem" and
    ok: "list_all block_ok (built_blocks D X A ncg rf opt tms cg sy no gf qp ops bw mi mu)" and
    keys: "map block_key (built_blocks D X A ncg rf opt tms cg sy no gf qp ops bw mi mu)
             = ''Release date'' # required_sections" and
    doc: "doc = YAML_Element ''HPCG-Benchmark'' (YString ''3.0'')
            (map block_elt (built_blocks D X A ncg rf opt tms cg sy no gf qp ops bw mi mu))" and
    "map block_value (built_blocks D X A ncg rf opt tms cg sy no gf qp ops bw mi mu)
       = YString ''November 11, 2015'' # replicate 25 (YString [])"
    by (rule ReportResults_doc)
  have g: "lookup [''GFLOP/s Summary'', k] doc =
        map_option yvalue (find (\<lambda>c. key c = k)
          (map leaf_of (tl (stmts_gflops_summary D tms (D ncg) ops))))" for k
    unfolding doc
    by (rule lookup_flat_block [OF ok distinct_block_keys [OF keys] built_blocks_mem(2)])
       (simp_all add: stmts_gflops_summary_def)
  have shape: "stmts_final_summary D A tms (D ncg) ops (isValidRun cg sy no gf) qp =
      Add [] FinalSummary (YString '''') #
        tl (stmts_final_summary D A tms (D ncg) ops (isValidRun cg sy no gf) qp)"
    by (simp add: stmts_final_summary_def Let_def)
  have f: "lookup [FinalSummary, k] doc =
        map_option yvalue (find (\<lambda>c. key c = k)
          (map leaf_of (tl (stmts_final_summary D A tms (D ncg) ops
             (isValidRun cg sy no gf) qp))))" for k
    unfolding doc
    by (rule lookup_flat_block [OF ok distinct_block_keys [OF keys] built_blocks_mem(3) shape
          final_summary_flat [OF shape]])
  show thesis
    apply (rule that [OF ops])
    using g f by blast+
qed

section \<open>Proofs: the loops over the levels, and when ReportResults returns\<close>

lemma levels_unfold:
  "levels M = M # (case Ac M of None \<Rightarrow> [] | Some M' \<Rightarrow> levels M')"
  by (cases M) simp

lemma levels_single:
  assumes "length (levels M) = 1"
  shows "Ac M = None" and "levels M = [M]"
proof -
  show "Ac M = None"
  proof (cases "Ac M")
    case None
    then show ?thesis .
  next
    case (Some M')
    have "levels M = M # levels M'"
      by (subst levels_unfold) (simp add: Some)
    moreover have "levels M' \<noteq> []"
      by (subst levels_unfold) simp
    ultimately show ?thesis using assms by simp
  qed
  then show "levels M = [M]"
    by (subst levels_unfold) simp
qed

lemma levels_step:
  assumes "2 \<le> length (levels M)"
  obtains M' where "Ac M = Some M'" and "levels M = M # levels M'"
    and "butlast (levels M) = M # butlast (levels M')"
proof (cases "Ac M")
  case None
  then have "levels M = [M]"
    by (subst levels_unfold) simp
  with assms show ?thesis by simp
next
  case (Some M')
  have l: "levels M = M # levels M'"
    by (subst levels_unfold) (simp add: Some)
  have "levels M' \<noteq> []"
    by (subst levels_unfold) simp
  then have "butlast (levels M) = M # butlast (levels M')"
    by (simp add: l)
  with Some l show ?thesis by (rule that)
qed

lemma last_levels_step: "levels M = M # levels M' \<Longrightarrow> last (levels M) = last (levels M')"
  using levels_unfold [of M'] by (metis last_ConsR list.distinct(1))

lemma levels_base:
  assumes "int (length (levels M)) = n - i + 1" and "0 = nat (n - i)"
  shows "n = i" and "length (levels M) = 1"
proof -
  have "levels M \<noteq> []" by (subst levels_unfold) simp
  then have "1 \<le> length (levels M)" by (cases "levels M") simp_all
  with assms show "n = i" and "length (levels M) = 1" by linarith+
qed

lemma fnops_precond_loop_ok:
  assumes "int (length (levels M)) = n - i + 1"
    and "list_all (\<lambda>M. mgData M \<noteq> None) (butlast (levels M))"
  shows "\<exists>acc'. fnops_precond_loop D f i n (Some M) acc = Inr (Some (last (levels M)), acc')"
  using assms
proof (induction "nat (n - i)" arbitrary: i M acc)
  case 0
  note ni = levels_base(1) [OF "0.prems"(1) "0.hyps"]
  note len = levels_base(2) [OF "0.prems"(1) "0.hyps"]
  show ?case
    using levels_single(2) [OF len]
    by (subst fnops_precond_loop.simps) (simp add: ni)
next
  case (Suc k)
  from Suc.hyps(2) have lt: "i < n" by simp
  with Suc.prems(1) have "2 \<le> length (levels M)" by simp
  then obtain M' where Ac: "Ac M = Some M'" and l: "levels M = M # levels M'"
    and b: "butlast (levels M) = M # butlast (levels M')"
    by (rule levels_step)
  from Suc.prems(2) b obtain mg where mg: "mgData M = Some mg"
    and rest: "list_all (\<lambda>M. mgData M \<noteq> None) (butlast (levels M'))"
    by auto
  have k: "k = nat (n - (i + 1))" using Suc.hyps(2) by simp
  have len: "int (length (levels M')) = n - (i + 1) + 1"
    using Suc.prems(1) l by simp
  show ?case
    apply (subst fnops_precond_loop.simps)
    apply (simp add: lt Ac mg Let_def last_levels_step [OF l])
    apply (rule Suc.hyps(1) [OF k len rest])
    done
qed

lemma rw_precond_loop_ok:
  assumes "int (length (levels M)) = n - i + 1"
    and "list_all (\<lambda>M. mgData M \<noteq> None) (butlast (levels M))"
  shows "\<exists>r'. rw_precond_loop D S f i n (Some M) r w =
           Inr (Some (last (levels M)), r', foldl (level_writes D S f) w (butlast (levels M)))"
  using assms
proof (induction "nat (n - i)" arbitrary: i M r w)
  case 0
  note ni = levels_base(1) [OF "0.prems"(1) "0.hyps"]
  note len = levels_base(2) [OF "0.prems"(1) "0.hyps"]
  show ?case
    using levels_single(2) [OF len]
    by (subst rw_precond_loop.simps) (simp add: ni)
next
  case (Suc k)
  from Suc.hyps(2) have lt: "i < n" by simp
  with Suc.prems(1) have "2 \<le> length (levels M)" by simp
  then obtain M' where Ac: "Ac M = Some M'" and l: "levels M = M # levels M'"
    and b: "butlast (levels M) = M # butlast (levels M')"
    by (rule levels_step)
  from Suc.prems(2) b obtain mg where mg: "mgData M = Some mg"
    and rest: "list_all (\<lambda>M. mgData M \<noteq> None) (butlast (levels M'))"
    by auto
  have k: "k = nat (n - (i + 1))" using Suc.hyps(2) by simp
  have len: "int (length (levels M')) = n - (i + 1) + 1"
    using Suc.prems(1) l by simp
  show ?case
    apply (subst rw_precond_loop.simps)
    apply (simp add: lt Ac mg Let_def last_levels_step [OF l] b level_writes_def)
    apply (rule Suc.hyps(1) [OF k len rest])
    done
qed

lemma fnbytes_loop_ok:
  assumes "int (length (case Af of None \<Rightarrow> [] | Some M \<Rightarrow> levels M)) = n - i"
    and "0 \<le> i" and "length pl = nat n"
  shows "\<exists>pl' b'. fnbytes_loop D S sz i n Af pl b = Inr (None, pl', b')
           \<and> length pl' = length pl"
  using assms
proof (induction "nat (n - i)" arbitrary: i Af pl b)
  case 0
  then have ni: "n = i" by simp
  have "Af = None"
  proof (cases Af)
    case None
    then show ?thesis .
  next
    case (Some M)
    have "levels M \<noteq> []" by (subst levels_unfold) simp
    with "0.prems"(1) ni Some show ?thesis by simp
  qed
  then show ?case
    by (subst fnbytes_loop.simps) (simp add: ni)
next
  case (Suc k)
  from Suc.hyps(2) have lt: "i < n" by simp
  with Suc.prems(1) obtain M where Af: "Af = Some M"
    by (cases Af) auto
  have l: "levels M = M # (case Ac M of None \<Rightarrow> [] | Some M' \<Rightarrow> levels M')"
    by (rule levels_unfold)
  have len: "int (length (case Ac M of None \<Rightarrow> [] | Some M' \<Rightarrow> levels M')) = n - (i + 1)"
    using Suc.prems(1) Af l by simp
  have k: "k = nat (n - (i + 1))" using Suc.hyps(2) by simp
  have inb: "nat i < length pl" using Suc.prems(2,3) lt by simp
  have i1: "0 \<le> i + 1" using Suc.prems(2) by simp
  have len': "length (pl[nat i := fnbytes_level D S sz M]) = nat n"
    using Suc.prems(3) by simp
  from Suc.hyps(1) [OF k len i1 len', of "b + fnbytes_level D S sz M"]
  obtain pl' b' where
    "fnbytes_loop D S sz (i + 1) n (Ac M) (pl[nat i := fnbytes_level D S sz M])
       (b + fnbytes_level D S sz M) = Inr (None, pl', b')"
    and "length pl' = length pl" by auto
  then show ?case
    using Suc.prems(2)
    by (subst fnbytes_loop.simps) (simp add: lt Af Let_def inb)
qed

lemma stmts_coarse_grids_ok:
  assumes "int (length (levels M)) = n - i + 1"
    and "list_all (\<lambda>M. mgData M \<noteq> None) (butlast (levels M))"
  shows "\<exists>L. stmts_coarse_grids i n (Some M) = Inr (L :: 'd doc_stmt list)"
  using assms
proof (induction "nat (n - i)" arbitrary: i M)
  case 0
  note ni = levels_base(1) [OF "0.prems"(1) "0.hyps"]
  show ?case
    by (subst stmts_coarse_grids.simps) (simp add: ni)
next
  case (Suc k)
  from Suc.hyps(2) have lt: "i < n" by simp
  with Suc.prems(1) have "2 \<le> length (levels M)" by simp
  then obtain M' where Ac: "Ac M = Some M'" and l: "levels M = M # levels M'"
    and b: "butlast (levels M) = M # butlast (levels M')"
    by (rule levels_step)
  from Suc.prems(2) b obtain mg where mg: "mgData M = Some mg"
    and rest: "list_all (\<lambda>M. mgData M \<noteq> None) (butlast (levels M'))"
    by auto
  have k: "k = nat (n - (i + 1))" using Suc.hyps(2) by simp
  have len: "int (length (levels M')) = n - (i + 1) + 1"
    using Suc.prems(1) l by simp
  from Suc.hyps(1) [OF k len rest] obtain L where
    "stmts_coarse_grids (i + 1) n (Some M') = Inr (L :: 'd doc_stmt list)" by blast
  then show ?case
    by (subst stmts_coarse_grids.simps) (simp add: lt Ac mg)
qed

lemma stmts_memory_coarse_grids_ok:
  assumes "0 \<le> i" and "length pl = nat n"
  shows "\<exists>L. stmts_memory_coarse_grids D i n pl = Inr L"
  using assms
proof (induction "nat (n - i)" arbitrary: i)
  case 0
  then show ?case
    by (subst stmts_memory_coarse_grids.simps) simp
next
  case (Suc k)
  from Suc.hyps(2) have lt: "i < n" by simp
  have k: "k = nat (n - (i + 1))" using Suc.hyps(2) by simp
  have inb: "nat i < length pl" using Suc.prems lt by simp
  from Suc.hyps(1) [OF k] Suc.prems obtain L where
    "stmts_memory_coarse_grids D (i + 1) n pl = Inr L" by auto
  then show ?case
    using Suc.prems(1)
    by (subst stmts_memory_coarse_grids.simps) (simp add: lt inb)
qed

lemma hierarchy_okD:
  assumes "hierarchy_ok n A"
  shows "1 \<le> n" and "int (length (levels A)) = n - 1 + 1"
    and "list_all (\<lambda>M. mgData M \<noteq> None) (butlast (levels A))"
  using assms by (simp_all add: hierarchy_ok_def)

lemma flop_count_model_ok:
  assumes "hierarchy_ok n A"
  shows "\<exists>ops. flop_count_model D A n ncg rf opt = Inr ops"
proof -
  from fnops_precond_loop_ok [OF hierarchy_okD(2,3) [OF assms], of D "D ncg * D opt" "D 0"]
  obtain acc' where "fnops_precond_loop D (D ncg * D opt) 1 n (Some A) (D 0) =
      Inr (Some (last (levels A)), acc')" by blast
  then show ?thesis
    by (simp add: flop_count_model_def Let_def)
qed

lemma memory_bandwidth_model_ok:
  assumes "hierarchy_ok n A"
  shows "\<exists>bw. memory_bandwidth_model D S A n ncg rf opt = Inr bw
           \<and> fnwrites_precond bw =
               foldl (level_writes D S (D ncg * D opt)) (D 0) (butlast (levels A))
               + D ncg * D opt * D (totalNumberOfRows (sclrs (last (levels A))))
                 * D (sizeof_double S)"
proof -
  from rw_precond_loop_ok [OF hierarchy_okD(2,3) [OF assms], of D S "D ncg * D opt" "D 0" "D 0"]
  obtain r' where "rw_precond_loop D S (D ncg * D opt) 1 n (Some A) (D 0) (D 0) =
      Inr (Some (last (levels A)), r',
           foldl (level_writes D S (D ncg * D opt)) (D 0) (butlast (levels A)))" by blast
  then show ?thesis
    by (simp add: memory_bandwidth_model_def Let_def)
qed

lemma memory_usage_model_ok:
  assumes "hierarchy_ok n A"
  shows "\<exists>mem. memory_usage_model D S X A n ncg = Inr mem
           \<and> length (fnbytesPerLevel mem) = nat n"
proof -
  note n1 = hierarchy_okD(1) [OF assms]
  have l: "levels A = A # (case Ac A of None \<Rightarrow> [] | Some M' \<Rightarrow> levels M')"
    by (rule levels_unfold)
  have len: "int (length (case Ac A of None \<Rightarrow> [] | Some M \<Rightarrow> levels M)) = n - 1"
    using hierarchy_okD(2) [OF assms] l by simp
  have ex: "\<exists>pl' b'. fnbytes_loop D S sz 1 n (Ac A) pl b = Inr (None, pl', b')
           \<and> length pl' = length pl" if "length pl = nat n" for sz pl b
    by (rule fnbytes_loop_ok [OF len _ that]) simp
  have loop: "\<not> isl (fnbytes_loop D S sz 1 n (Ac A) pl b)"
    "fst (projr (fnbytes_loop D S sz 1 n (Ac A) pl b)) = None"
    "length (fst (snd (projr (fnbytes_loop D S sz 1 n (Ac A) pl b)))) = nat n"
    if "length pl = nat n" for sz pl b
    using ex [OF that, of sz b] that by auto
  show ?thesis
    using n1
    by (simp add: memory_usage_model_def Let_def sum.case_eq_if prod.case_eq_if loop)
qed

lemma stmts_multigrid_information_ok:
  assumes "hierarchy_ok n A"
  shows "\<exists>mi. stmts_multigrid_information A n = Inr (mi :: 'd doc_stmt list)"
proof -
  from stmts_coarse_grids_ok [OF hierarchy_okD(2,3) [OF assms]]
  obtain L where "stmts_coarse_grids 1 n (Some A) = Inr (L :: 'd doc_stmt list)" by blast
  then show ?thesis
    by (simp add: stmts_multigrid_information_def)
qed

lemma stmts_memory_use_information_ok:
  assumes "1 \<le> n" and "length (fnbytesPerLevel mem) = nat n"
  shows "\<exists>mu. stmts_memory_use_information D n mem = Inr mu"
proof -
  from stmts_memory_coarse_grids_ok [OF _ assms(2), of 1 D]
  obtain L where "stmts_memory_coarse_grids D 1 n (fnbytesPerLevel mem) = Inr L" by auto
  then show ?thesis
    using assms by (simp add: stmts_memory_use_information_def)
qed

lemma report_statements_ok:
  assumes "hierarchy_ok n A" and "length (fnbytesPerLevel mem) = nat n"
  shows "\<exists>stmts. report_statements D A n ncg rf opt tms cg sy no gf qp t4min t4max t4avg
                    ops bw mem = Inr stmts"
proof -
  from stmts_multigrid_information_ok [OF assms(1)]
  obtain mi where mi: "stmts_multigrid_information A n = Inr (mi :: 'a doc_stmt list)"
    by blast
  from stmts_memory_use_information_ok [OF hierarchy_okD(1) [OF assms(1)] assms(2)]
  obtain mu where mu: "stmts_memory_use_information D n mem = Inr mu" by blast
  show ?thesis
    by (simp add: report_statements_def mi mu)
qed

lemma run_report_statements:
  assumes st: "report_statements D A n ncg rf opt tms cg sy no gf qp t4min t4max t4avg
                 ops bw mem = Inr stmts"
  shows "\<exists>doc. run stmts (YAML_Doc ''HPCG-Benchmark'' ''3.0'') = Some doc"
proof -
  from report_statements_blocks [OF st] obtain mi mu where
    mi: "stmts_multigrid_information A n = Inr mi" and
    mu: "stmts_memory_use_information D n mem = Inr mu" and
    eq: "stmts = concat (report_blocks D A ncg rf opt tms cg sy no gf qp
                           t4min t4max t4avg ops bw mi mu)"
    by blast
  let ?Bs = "report_blocks D A ncg rf opt tms cg sy no gf qp t4min t4max t4avg ops bw mi mu"
  have ok: "list_all block_ok ?Bs"
    by (rule report_blocks_ok [OF mi mu])
  have keys: "map block_key ?Bs = ''Release date'' # required_sections"
    by (rule report_block_keys [OF multigrid_information_block(2) [OF mi]
          memory_use_information_block(2) [OF mu]])
  have "distinct (map key ([] :: 'a YAML_Element list) @ map block_key ?Bs)"
    using distinct_sections by (simp only: keys list.map append_Nil)
  from run_blocks [OF ok this, of "''HPCG-Benchmark''" "YString ''3.0''"]
  show ?thesis
    by (simp add: eq YAML_Doc_def)
qed

lemma ReportResults_returns:
  assumes "hierarchy_ok n A" and "rank (geom A) = 0"
  obtains out doc where "ReportResults D S X A n ncg rf opt tms cg sy no gf qp = Inr out"
    and "yaml out = Some doc"
proof -
  let ?t4min = "allReduce X MinFT (tms 4)"
  let ?t4max = "allReduce X MaxFT (tms 4)"
  let ?t4avg = "allReduce X SumFT (tms 4) / D (size_g (geom A))"
  from flop_count_model_ok [OF assms(1)] obtain ops where
    ops: "flop_count_model D A n ncg rf opt = Inr ops" by blast
  from memory_bandwidth_model_ok [OF assms(1)] obtain bw where
    bw: "memory_bandwidth_model D S A n ncg rf opt = Inr bw" by blast
  from memory_usage_model_ok [OF assms(1)] obtain mem where
    mem: "memory_usage_model D S X A n ncg = Inr mem"
    and len: "length (fnbytesPerLevel mem) = nat n" by blast
  from report_statements_ok [OF assms(1) len] obtain stmts where
    st: "report_statements D A n ncg rf opt tms cg sy no gf qp ?t4min ?t4max ?t4avg ops bw mem
           = Inr stmts" by blast
  from run_report_statements [OF st] obtain doc where
    run: "run stmts (YAML_Doc ''HPCG-Benchmark'' ''3.0'') = Some doc" by blast
  have "ReportResults D S X A n ncg rf opt tms cg sy no gf qp =
          Inr \<lparr>reductions = [(MinFT, tms 4), (MaxFT, tms 4), (SumFT, tms 4)],
               yaml = Some doc, HPCG_fout = (if HPCG_DEBUG X then [doc] else [])\<rparr>"
    by (simp add: ReportResults_def Let_def assms(2) ops bw mem st run)
  then show thesis
    by (rule that) simp
qed

lemma ReportResults_total:
  assumes "hierarchy_ok n A"
  shows "\<exists>out. ReportResults D S X A n ncg rf opt tms cg sy no gf qp = Inr out"
proof (cases "rank (geom A) = 0")
  case True
  from ReportResults_returns [OF assms True] show ?thesis by metis
next
  case False
  then show ?thesis
    by (simp add: ReportResults_def Let_def)
qed

section \<open>The claims about the report\<close>

text \<open>
  C3: in the report of a call that returns with a document, the entries "Raw DDOT",
  "Raw WAXPBY" and "Raw SpMV" of the "Floating Point Operations Summary" hold
  \<open>(3 * niters + nCgSets) * 2 * nrow\<close>, the same, and \<open>(niters + nCgSets) * 2 * nnz\<close>,
  with \<open>niters = nCgSets * optMaxIters\<close>, \<open>nrow = totalNumberOfRows\<close> and
  \<open>nnz = totalNumberOfNonzeros\<close> of the matrix, computed in doubles as written.
\<close>

theorem raw_operation_counts:
  assumes "ReportResults D S X A n nCgSets refMaxIters optMaxIters tms cg sy no gf qp = Inr out"
    and "yaml out = Some doc"
  shows "lookup [''Floating Point Operations Summary'', ''Raw DDOT''] doc =
           Some (YDouble ((D 3 * (D nCgSets * D optMaxIters) + D nCgSets) * D 2
                          * D (totalNumberOfRows (sclrs A))))
       \<and> lookup [''Floating Point Operations Summary'', ''Raw WAXPBY''] doc =
           Some (YDouble ((D 3 * (D nCgSets * D optMaxIters) + D nCgSets) * D 2
                          * D (totalNumberOfRows (sclrs A))))
       \<and> lookup [''Floating Point Operations Summary'', ''Raw SpMV''] doc =
           Some (YDouble ((D nCgSets * D optMaxIters + D nCgSets) * D 2
                          * D (totalNumberOfNonzeros (sclrs A))))"
proof -
  from assms obtain ops bw mem mi mu where
    ops: "flop_count_model D A n nCgSets refMaxIters optMaxIters = Inr ops" and
    "memory_bandwidth_model D S A n nCgSets refMaxIters optMaxIters = Inr bw" and
    "memory_usage_model D S X A n nCgSets = Inr mem" and
    ok: "list_all block_ok
           (built_blocks D X A nCgSets refMaxIters optMaxIters tms cg sy no gf qp ops bw mi mu)" and
    keys: "map block_key
           (built_blocks D X A nCgSets refMaxIters optMaxIters tms cg sy no gf qp ops bw mi mu)
             = ''Release date'' # required_sections" and
    doc: "doc = YAML_Element ''HPCG-Benchmark'' (YString ''3.0'') (map block_elt
           (built_blocks D X A nCgSets refMaxIters optMaxIters tms cg sy no gf qp ops bw mi mu))" and
    "map block_value
           (built_blocks D X A nCgSets refMaxIters optMaxIters tms cg sy no gf qp ops bw mi mu)
       = YString ''November 11, 2015'' # replicate 25 (YString [])"
    by (rule ReportResults_doc)
  note f = flop_count_model_Inr [OF ops]
  have look: "lookup [''Floating Point Operations Summary'', k] doc =
      map_option yvalue (find (\<lambda>c. key c = k)
        (map leaf_of (tl (stmts_floating_point_operations_summary ops))))" for k
    unfolding doc
    by (rule lookup_flat_block [OF ok distinct_block_keys [OF keys] built_blocks_mem(1)])
       (simp_all add: stmts_floating_point_operations_summary_def)
  show ?thesis
    by (simp add: look stmts_floating_point_operations_summary_def f(1,2,3))
qed

text \<open>
  C1: in the report of a call that returns with a document, the Final Summary has the
  line "HPCG result is VALID with a GFLOP/s rating of" if and only if
  \<^verbatim>\<open>testcg_data.count_fail == 0\<close>, \<^verbatim>\<open>testsymmetry_data.count_fail == 0\<close>,
  \<^verbatim>\<open>testnorms_data.pass\<close> and \<^verbatim>\<open>!global_failure\<close>; in every other case it has the
  line "HPCG result is: INVALID." and the line that the results may NOT be submitted;
  and a valid run is not marked INVALID.
\<close>

theorem final_summary_validity:
  assumes "ReportResults D S X A n nCgSets refMaxIters optMaxIters tms testcg_data
             testsymmetry_data testnorms_data global_failure quickPath = Inr out"
    and "yaml out = Some doc"
  shows "(lookup [FinalSummary, ''HPCG result is VALID with a GFLOP/s rating of''] doc \<noteq> None
            \<longleftrightarrow> (TestCGData.count_fail testcg_data = 0
                 \<and> TestSymmetryData.count_fail testsymmetry_data = 0
                 \<and> pass testnorms_data \<and> global_failure = 0))
       \<and> (\<not> (TestCGData.count_fail testcg_data = 0
               \<and> TestSymmetryData.count_fail testsymmetry_data = 0
               \<and> pass testnorms_data \<and> global_failure = 0)
            \<longrightarrow> lookup [FinalSummary, ''HPCG result is''] doc = Some (YString ''INVALID.'')
              \<and> lookup [FinalSummary, ''Please review the YAML file contents''] doc =
                  Some (YString ''You may NOT submit these results for consideration.''))
       \<and> (TestCGData.count_fail testcg_data = 0
               \<and> TestSymmetryData.count_fail testsymmetry_data = 0
               \<and> pass testnorms_data \<and> global_failure = 0
            \<longrightarrow> lookup [FinalSummary, ''HPCG result is''] doc = None
              \<and> lookup [FinalSummary, ''Please review the YAML file contents''] doc = None)"
proof -
  from assms obtain ops where
    "flop_count_model D A n nCgSets refMaxIters optMaxIters = Inr ops" and
    "\<forall>k. lookup [''GFLOP/s Summary'', k] doc =
        map_option yvalue (find (\<lambda>c. key c = k)
          (map leaf_of (tl (stmts_gflops_summary D tms (D nCgSets) ops))))" and
    look: "\<forall>k. lookup [FinalSummary, k] doc =
        map_option yvalue (find (\<lambda>c. key c = k)
          (map leaf_of (tl (stmts_final_summary D A tms (D nCgSets) ops
             (isValidRun testcg_data testsymmetry_data testnorms_data global_failure)
             quickPath))))"
    by (rule summaries_lookup)
  have v: "isValidRun testcg_data testsymmetry_data testnorms_data global_failure
      \<longleftrightarrow> (TestCGData.count_fail testcg_data = 0
           \<and> TestSymmetryData.count_fail testsymmetry_data = 0
           \<and> pass testnorms_data \<and> global_failure = 0)"
    by (simp add: isValidRun_def)
  show ?thesis
    unfolding look [rule_format] v [symmetric]
    by (cases "isValidRun testcg_data testsymmetry_data testnorms_data global_failure")
       (simp_all add: stmts_final_summary_def Let_def find_append map_if find_if
          split del: if_split cong: if_cong)
qed

text \<open>
  C2: in the report of a call that returns with a document, the entry "Total with
  convergence and optimization phase overhead" of the "GFLOP/s Summary", and the rating
  of the VALID line when the run is valid, are
  \<open>frefnops / (times[0] + numberOfCgSets * (times[7] / 10 + times[9] / 10)) / 1e9\<close>, where
  \<open>frefnops = fnops * refMaxIters / optMaxIters\<close> and \<open>fnops\<close> is the sum of the four
  operation counts, computed in doubles as written.
\<close>

theorem headline_rating:
  assumes "ReportResults D S X A n nCgSets refMaxIters optMaxIters tms testcg_data
             testsymmetry_data testnorms_data global_failure quickPath = Inr out"
    and "yaml out = Some doc"
  shows "\<exists>ops. flop_count_model D A n nCgSets refMaxIters optMaxIters = Inr ops
         \<and> fnops ops = fnops_ddot ops + fnops_waxpby ops + fnops_sparsemv ops + fnops_precond ops
         \<and> frefnops ops = fnops ops * D refMaxIters / D optMaxIters
         \<and> lookup [''GFLOP/s Summary'',
                    ''Total with convergence and optimization phase overhead''] doc =
             Some (YDouble (frefnops ops
                            / (tms 0 + D nCgSets * (tms 7 / D 10 + tms 9 / D 10))
                            / D 1000000000))
         \<and> (isValidRun testcg_data testsymmetry_data testnorms_data global_failure \<longrightarrow>
              lookup [FinalSummary, ''HPCG result is VALID with a GFLOP/s rating of''] doc =
                Some (YDouble (frefnops ops
                               / (tms 0 + D nCgSets * (tms 7 / D 10 + tms 9 / D 10))
                               / D 1000000000)))"
proof -
  from assms obtain ops where
    ops: "flop_count_model D A n nCgSets refMaxIters optMaxIters = Inr ops" and
    g: "\<forall>k. lookup [''GFLOP/s Summary'', k] doc =
        map_option yvalue (find (\<lambda>c. key c = k)
          (map leaf_of (tl (stmts_gflops_summary D tms (D nCgSets) ops))))" and
    look: "\<forall>k. lookup [FinalSummary, k] doc =
        map_option yvalue (find (\<lambda>c. key c = k)
          (map leaf_of (tl (stmts_final_summary D A tms (D nCgSets) ops
             (isValidRun testcg_data testsymmetry_data testnorms_data global_failure)
             quickPath))))"
    by (rule summaries_lookup)
  note f = flop_count_model_Inr [OF ops]
  have 1: "lookup [''GFLOP/s Summary'',
                   ''Total with convergence and optimization phase overhead''] doc =
             Some (YDouble (frefnops ops
                            / (tms 0 + D nCgSets * (tms 7 / D 10 + tms 9 / D 10))
                            / D 1000000000))"
    unfolding g [rule_format]
    by (simp add: stmts_gflops_summary_def totalGflops_def)
  have 2: "isValidRun testcg_data testsymmetry_data testnorms_data global_failure \<longrightarrow>
              lookup [FinalSummary, ''HPCG result is VALID with a GFLOP/s rating of''] doc =
                Some (YDouble (frefnops ops
                               / (tms 0 + D nCgSets * (tms 7 / D 10 + tms 9 / D 10))
                               / D 1000000000))"
    unfolding look [rule_format]
    by (simp add: stmts_final_summary_def Let_def totalGflops_def)
  show ?thesis
    apply (rule exI [of _ ops])
    using ops f(4) f(5) 1 2 by (intro conjI)
qed

text \<open>
  C5: in the report of a valid run, with the threshold \<^verbatim>\<open>minOfficialTime = 1800\<close>: when
  \<^verbatim>\<open>times[0] >= 1800\<close> the Final Summary asks to upload the results to
  hpcg-benchmark.org; otherwise (the test \<^verbatim>\<open>times[0] >= 1800\<close> fails, as it does for every
  \<^verbatim>\<open>times[0]\<close> below 1800), with \<^verbatim>\<open>quickPath\<close> the report still has its VALID line and
  carries the line "You have selected the QuickPath option", and without \<^verbatim>\<open>quickPath\<close>
  it says that the execution time of official results must be at least 1800.
\<close>

theorem official_time_threshold:
  assumes "ReportResults D S X A n nCgSets refMaxIters optMaxIters tms testcg_data
             testsymmetry_data testnorms_data global_failure quickPath = Inr out"
    and "yaml out = Some doc"
    and "isValidRun testcg_data testsymmetry_data testnorms_data global_failure"
  shows "(tms 0 \<ge> D 1800 \<longrightarrow>
            lookup [FinalSummary, ''Please upload results from the YAML file contents to''] doc
              = Some (YString ''http://hpcg-benchmark.org'')
          \<and> lookup [FinalSummary,
                ''     Official results execution time (sec) must be at least''] doc = None)
       \<and> (\<not> tms 0 \<ge> D 1800 \<and> quickPath \<longrightarrow>
            lookup [FinalSummary, ''HPCG result is VALID with a GFLOP/s rating of''] doc \<noteq> None
          \<and> lookup [FinalSummary, ''Results are valid but execution time (sec) is''] doc
              = Some (YDouble (tms 0))
          \<and> lookup [FinalSummary, ''     You have selected the QuickPath option''] doc
              = Some (YString ''Results are official for legacy installed systems with confirmation from the HPCG Benchmark leaders.''))
       \<and> (\<not> tms 0 \<ge> D 1800 \<and> \<not> quickPath \<longrightarrow>
            lookup [FinalSummary, ''Results are valid but execution time (sec) is''] doc
              = Some (YDouble (tms 0))
          \<and> lookup [FinalSummary,
                ''     Official results execution time (sec) must be at least''] doc
              = Some (YDouble (D 1800)))"
proof -
  from assms(1,2) obtain ops where
    "flop_count_model D A n nCgSets refMaxIters optMaxIters = Inr ops" and
    "\<forall>k. lookup [''GFLOP/s Summary'', k] doc =
        map_option yvalue (find (\<lambda>c. key c = k)
          (map leaf_of (tl (stmts_gflops_summary D tms (D nCgSets) ops))))" and
    look: "\<forall>k. lookup [FinalSummary, k] doc =
        map_option yvalue (find (\<lambda>c. key c = k)
          (map leaf_of (tl (stmts_final_summary D A tms (D nCgSets) ops
             (isValidRun testcg_data testsymmetry_data testnorms_data global_failure)
             quickPath))))"
    by (rule summaries_lookup)
  show ?thesis
    unfolding look [rule_format]
    using assms(3)
    apply (cases "tms 0 \<ge> D 1800"; cases quickPath)
    apply (simp_all add: stmts_final_summary_def Let_def find_append map_if find_if
          split del: if_split cong: if_cong)
    done
qed

text \<open>
  C4: in the report of a call that returns with a document, the top-level elements are
  "Release date" and then the required sections, with exactly their header strings and
  in exactly their order, from "Machine Summary" to the Final Summary; the sections (the
  top-level elements added with an empty value) are exactly the required ones, in order.
\<close>

theorem report_sections_in_order:
  assumes "ReportResults D S X A n nCgSets refMaxIters optMaxIters tms testcg_data
             testsymmetry_data testnorms_data global_failure quickPath = Inr out"
    and "yaml out = Some doc"
  shows "map key (children doc) = ''Release date'' # required_sections
       \<and> map key (filter (\<lambda>c. yvalue c = YString []) (children doc)) = required_sections
       \<and> hd required_sections = ''Machine Summary''
       \<and> last required_sections = FinalSummary"
proof -
  from assms obtain ops bw mem mi mu where
    "flop_count_model D A n nCgSets refMaxIters optMaxIters = Inr ops" and
    "memory_bandwidth_model D S A n nCgSets refMaxIters optMaxIters = Inr bw" and
    "memory_usage_model D S X A n nCgSets = Inr mem" and
    ok: "list_all block_ok
           (built_blocks D X A nCgSets refMaxIters optMaxIters tms testcg_data
              testsymmetry_data testnorms_data global_failure quickPath ops bw mi mu)" and
    keys: "map block_key
           (built_blocks D X A nCgSets refMaxIters optMaxIters tms testcg_data
              testsymmetry_data testnorms_data global_failure quickPath ops bw mi mu)
             = ''Release date'' # required_sections" and
    doc: "doc = YAML_Element ''HPCG-Benchmark'' (YString ''3.0'') (map block_elt
           (built_blocks D X A nCgSets refMaxIters optMaxIters tms testcg_data
              testsymmetry_data testnorms_data global_failure quickPath ops bw mi mu))" and
    vals: "map block_value
           (built_blocks D X A nCgSets refMaxIters optMaxIters tms testcg_data
              testsymmetry_data testnorms_data global_failure quickPath ops bw mi mu)
       = YString ''November 11, 2015'' # replicate 25 (YString [])"
    by (rule ReportResults_doc)
  have k: "map key (children doc) = ''Release date'' # required_sections"
    using map_block_elt [OF ok] keys by (simp add: doc)
  have len: "length required_sections = 25"
    by (simp add: required_sections_def)
  have v: "map yvalue (children doc) =
      YString ''November 11, 2015'' # replicate (length required_sections) (YString [])"
    using map_block_elt [OF ok] vals by (simp add: doc len)
  have "map key (filter (\<lambda>c. yvalue c = YString []) (children doc)) = required_sections"
    by (rule filter_sections [OF k v]) simp
  moreover have "hd required_sections = ''Machine Summary''"
    by (simp add: required_sections_def)
  moreover have "last required_sections = FinalSummary"
    by (simp add: required_sections_def FinalSummary_def)
  ultimately show ?thesis
    using k by simp
qed

text \<open>
  C10: on a rank other than 0 the call returns, and all it has done is to take part in
  the three reductions of \<^verbatim>\<open>times[4]\<close> (min, max, sum): no document is built and nothing
  is written. On every rank a call that returns has taken part in exactly these three
  reductions, and a document is built or written only on rank 0.
\<close>

theorem report_only_on_rank_zero:
  "(rank (geom A) \<noteq> 0 \<longrightarrow>
      ReportResults D S X A n nCgSets refMaxIters optMaxIters tms testcg_data
        testsymmetry_data testnorms_data global_failure quickPath
      = Inr \<lparr>reductions = [(MinFT, tms 4), (MaxFT, tms 4), (SumFT, tms 4)],
              yaml = None, HPCG_fout = []\<rparr>)
   \<and> (\<forall>out. ReportResults D S X A n nCgSets refMaxIters optMaxIters tms testcg_data
               testsymmetry_data testnorms_data global_failure quickPath = Inr out \<longrightarrow>
          reductions out = [(MinFT, tms 4), (MaxFT, tms 4), (SumFT, tms 4)]
          \<and> (yaml out \<noteq> None \<or> HPCG_fout out \<noteq> [] \<longrightarrow> rank (geom A) = 0))"
  by (auto simp: ReportResults_def Let_def split: sum.splits option.splits if_splits)

text \<open>
  C8: on a hierarchy of \<open>numberOfMgLevels\<close> levels the memory bandwidth model returns, and
  its \<^verbatim>\<open>fnwrites_precond\<close> is the sum, over the intermediate levels \<open>Af\<close> (every level but
  the coarsest, finest first), of the presmoother writes, of
  \<open>fniters * fnnz_Af * sizeof(double)\<close> for the fine grid residual calculation, where
  \<open>fnnz_Af\<close> is the total number of nonzeros of the level and not its number of rows, and
  of the postsmoother writes, followed by the sweep at the coarsest level; all in doubles,
  in the order of the source.
\<close>

theorem residual_writes_use_nonzeros:
  assumes "hierarchy_ok n A"
  shows "\<exists>bw. memory_bandwidth_model D S A n nCgSets refMaxIters optMaxIters = Inr bw
           \<and> fnwrites_precond bw =
               foldl (\<lambda>w Af.
                        w + D (numberOfPresmootherSteps (the (mgData Af)))
                              * (D nCgSets * D optMaxIters)
                              * D (totalNumberOfRows (sclrs Af)) * D (sizeof_double S)
                          + (D nCgSets * D optMaxIters)
                              * D (totalNumberOfNonzeros (sclrs Af)) * D (sizeof_double S)
                          + D (numberOfPostsmootherSteps (the (mgData Af)))
                              * (D nCgSets * D optMaxIters)
                              * D (totalNumberOfNonzeros (sclrs Af)) * D (sizeof_double S))
                     (D 0) (butlast (levels A))
               + D nCgSets * D optMaxIters * D (totalNumberOfRows (sclrs (last (levels A))))
                 * D (sizeof_double S)"
proof -
  have "level_writes D S (D nCgSets * D optMaxIters) =
      (\<lambda>w Af.
          w + D (numberOfPresmootherSteps (the (mgData Af)))
                * (D nCgSets * D optMaxIters)
                * D (totalNumberOfRows (sclrs Af)) * D (sizeof_double S)
            + (D nCgSets * D optMaxIters)
                * D (totalNumberOfNonzeros (sclrs Af)) * D (sizeof_double S)
            + D (numberOfPostsmootherSteps (the (mgData Af)))
                * (D nCgSets * D optMaxIters)
                * D (totalNumberOfNonzeros (sclrs Af)) * D (sizeof_double S))"
    by (intro ext) (simp add: level_writes_def)
  with memory_bandwidth_model_ok [OF assms, of D S nCgSets refMaxIters optMaxIters]
  show ?thesis by simp
qed

section \<open>The claims on the example inputs\<close>

lemma ex_hierarchy: "hierarchy_ok 2 (ex_fine g)"
  by (simp add: hierarchy_ok_def ex_fine_def ex_coarse_def)

lemma ex_rank: "rank (geom (ex_fine (ex_geom sz rk))) = rk"
  by (simp add: ex_fine_def ex_geom_def)

lemma ex_valid:
  "isValidRun (ex_testcg fails) ex_testsym ex_testnorms gf \<longleftrightarrow> fails = 0 \<and> gf = 0"
  by (simp add: isValidRun_def ex_testcg_def ex_testsym_def ex_testnorms_def)

theorem residual_writes_use_nonzeros_witness:
  "\<exists>bw. memory_bandwidth_model real_of_int ex_sizes (ex_fine (ex_geom 1 0)) 2 1 50 50 = Inr bw
         \<and> fnwrites_precond bw = 828800"
  using residual_writes_use_nonzeros [OF ex_hierarchy, of real_of_int ex_sizes "ex_geom 1 0" 1 50 50]
  by (simp add: ex_fine_def ex_coarse_def ex_sclrs_def ex_sizes_def)

theorem raw_operation_counts_witness:
  "\<exists>out doc. ReportResults real_of_int ex_sizes ex_externals (ex_fine (ex_geom 1 0)) 2 1 50 50
                (ex_times 1) (ex_testcg 0) ex_testsym ex_testnorms 0 True = Inr out
      \<and> yaml out = Some doc
      \<and> lookup [''Floating Point Operations Summary'', ''Raw DDOT''] doc = Some (YDouble 19328)
      \<and> lookup [''Floating Point Operations Summary'', ''Raw WAXPBY''] doc
          = Some (YDouble 19328)
      \<and> lookup [''Floating Point Operations Summary'', ''Raw SpMV''] doc
          = Some (YDouble 102000)"
proof -
  obtain out doc where
    o: "ReportResults real_of_int ex_sizes ex_externals (ex_fine (ex_geom 1 0)) 2 1 50 50
          (ex_times 1) (ex_testcg 0) ex_testsym ex_testnorms 0 True = Inr out"
    and d: "yaml out = Some doc"
    by (rule ReportResults_returns [OF ex_hierarchy ex_rank])
  from raw_operation_counts [OF o d]
  have r: "lookup [''Floating Point Operations Summary'', ''Raw DDOT''] doc = Some (YDouble 19328)
      \<and> lookup [''Floating Point Operations Summary'', ''Raw WAXPBY''] doc
          = Some (YDouble 19328)
      \<and> lookup [''Floating Point Operations Summary'', ''Raw SpMV''] doc
          = Some (YDouble 102000)"
    by (simp add: ex_fine_def ex_sclrs_def)
  show ?thesis
    by (rule exI [of _ out], rule exI [of _ doc]) (simp only: o d r simp_thms)
qed

lemma ex_flops:
  "flop_count_model real_of_int (ex_fine g) 2 1 50 50 =
     Inr \<lparr>fnops_ddot = 19328, fnops_waxpby = 19328, fnops_sparsemv = 102000,
          fnops_precond = 512800, fnops = 653456, frefnops = 653456\<rparr>"
  by (simp add: flop_count_model_def fnops_precond_loop.simps Let_def
      ex_fine_def ex_coarse_def ex_sclrs_def)

theorem final_summary_validity_witness:
  "(\<exists>out doc. ReportResults real_of_int ex_sizes ex_externals (ex_fine (ex_geom 1 0)) 2 1 50 50
                 (ex_times 1) (ex_testcg 0) ex_testsym ex_testnorms 0 True = Inr out
      \<and> yaml out = Some doc
      \<and> lookup [FinalSummary, ''HPCG result is VALID with a GFLOP/s rating of''] doc \<noteq> None
      \<and> lookup [FinalSummary, ''HPCG result is''] doc = None
      \<and> lookup [FinalSummary, ''Please review the YAML file contents''] doc = None)
   \<and> (\<exists>out doc. ReportResults real_of_int ex_sizes ex_externals (ex_fine (ex_geom 1 0)) 2 1 50 50
                 (ex_times 1) (ex_testcg 0) ex_testsym ex_testnorms 1 True = Inr out
      \<and> yaml out = Some doc
      \<and> lookup [FinalSummary, ''HPCG result is VALID with a GFLOP/s rating of''] doc = None
      \<and> lookup [FinalSummary, ''HPCG result is''] doc = Some (YString ''INVALID.'')
      \<and> lookup [FinalSummary, ''Please review the YAML file contents''] doc =
            Some (YString ''You may NOT submit these results for consideration.''))"
proof -
  obtain out doc where
    o: "ReportResults real_of_int ex_sizes ex_externals (ex_fine (ex_geom 1 0)) 2 1 50 50
          (ex_times 1) (ex_testcg 0) ex_testsym ex_testnorms 0 True = Inr out"
    and d: "yaml out = Some doc"
    by (rule ReportResults_returns [OF ex_hierarchy ex_rank])
  from final_summary_validity [OF o d]
  have r: "lookup [FinalSummary, ''HPCG result is VALID with a GFLOP/s rating of''] doc \<noteq> None
      \<and> lookup [FinalSummary, ''HPCG result is''] doc = None
      \<and> lookup [FinalSummary, ''Please review the YAML file contents''] doc = None"
    by (simp add: ex_testcg_def ex_testsym_def ex_testnorms_def)
  obtain out' doc' where
    o': "ReportResults real_of_int ex_sizes ex_externals (ex_fine (ex_geom 1 0)) 2 1 50 50
          (ex_times 1) (ex_testcg 0) ex_testsym ex_testnorms 1 True = Inr out'"
    and d': "yaml out' = Some doc'"
    by (rule ReportResults_returns [OF ex_hierarchy ex_rank])
  from final_summary_validity [OF o' d']
  have r': "lookup [FinalSummary, ''HPCG result is VALID with a GFLOP/s rating of''] doc' = None
      \<and> lookup [FinalSummary, ''HPCG result is''] doc' = Some (YString ''INVALID.'')
      \<and> lookup [FinalSummary, ''Please review the YAML file contents''] doc' =
            Some (YString ''You may NOT submit these results for consideration.'')"
    by (simp add: ex_testcg_def ex_testsym_def ex_testnorms_def)
  have 1: "\<exists>out doc. ReportResults real_of_int ex_sizes ex_externals (ex_fine (ex_geom 1 0))
                 2 1 50 50 (ex_times 1) (ex_testcg 0) ex_testsym ex_testnorms 0 True = Inr out
      \<and> yaml out = Some doc
      \<and> lookup [FinalSummary, ''HPCG result is VALID with a GFLOP/s rating of''] doc \<noteq> None
      \<and> lookup [FinalSummary, ''HPCG result is''] doc = None
      \<and> lookup [FinalSummary, ''Please review the YAML file contents''] doc = None"
    by (rule exI [of _ out], rule exI [of _ doc]) (simp only: o d r simp_thms)
  have 2: "\<exists>out doc. ReportResults real_of_int ex_sizes ex_externals (ex_fine (ex_geom 1 0))
                 2 1 50 50 (ex_times 1) (ex_testcg 0) ex_testsym ex_testnorms 1 True = Inr out
      \<and> yaml out = Some doc
      \<and> lookup [FinalSummary, ''HPCG result is VALID with a GFLOP/s rating of''] doc = None
      \<and> lookup [FinalSummary, ''HPCG result is''] doc = Some (YString ''INVALID.'')
      \<and> lookup [FinalSummary, ''Please review the YAML file contents''] doc =
            Some (YString ''You may NOT submit these results for consideration.'')"
    by (rule exI [of _ out'], rule exI [of _ doc']) (simp only: o' d' r' simp_thms)
  from 1 2 show ?thesis by (rule conjI)
qed

theorem headline_rating_witness:
  "\<exists>out doc. ReportResults real_of_int ex_sizes ex_externals (ex_fine (ex_geom 1 0)) 2 1 50 50
                (ex_times 1) (ex_testcg 0) ex_testsym ex_testnorms 0 True = Inr out
      \<and> yaml out = Some doc
      \<and> lookup [''GFLOP/s Summary'',
                 ''Total with convergence and optimization phase overhead''] doc =
            Some (YDouble (653456 / (1 + 1 * (8 / 10 + 10 / 10)) / 1000000000))
      \<and> lookup [FinalSummary, ''HPCG result is VALID with a GFLOP/s rating of''] doc =
            Some (YDouble (653456 / (1 + 1 * (8 / 10 + 10 / 10)) / 1000000000))"
proof -
  obtain out doc where
    o: "ReportResults real_of_int ex_sizes ex_externals (ex_fine (ex_geom 1 0)) 2 1 50 50
          (ex_times 1) (ex_testcg 0) ex_testsym ex_testnorms 0 True = Inr out"
    and d: "yaml out = Some doc"
    by (rule ReportResults_returns [OF ex_hierarchy ex_rank])
  from headline_rating [OF o d]
  have r: "lookup [''GFLOP/s Summary'',
                 ''Total with convergence and optimization phase overhead''] doc =
            Some (YDouble (653456 / (1 + 1 * (8 / 10 + 10 / 10)) / 1000000000))
      \<and> lookup [FinalSummary, ''HPCG result is VALID with a GFLOP/s rating of''] doc =
            Some (YDouble (653456 / (1 + 1 * (8 / 10 + 10 / 10)) / 1000000000))"
    by (simp add: ex_flops ex_valid ex_times_def)
  show ?thesis
    by (rule exI [of _ out], rule exI [of _ doc]) (simp only: o d r simp_thms)
qed

theorem official_time_threshold_witness:
  "(\<exists>out doc. ReportResults real_of_int ex_sizes ex_externals (ex_fine (ex_geom 1 0)) 2 1 50 50
                 (ex_times 2000) (ex_testcg 0) ex_testsym ex_testnorms 0 False = Inr out
      \<and> yaml out = Some doc
      \<and> lookup [FinalSummary, ''Please upload results from the YAML file contents to''] doc
           = Some (YString ''http://hpcg-benchmark.org''))
   \<and> (\<exists>out doc. ReportResults real_of_int ex_sizes ex_externals (ex_fine (ex_geom 1 0)) 2 1 50 50
                 (ex_times 1) (ex_testcg 0) ex_testsym ex_testnorms 0 True = Inr out
      \<and> yaml out = Some doc
      \<and> lookup [FinalSummary, ''HPCG result is VALID with a GFLOP/s rating of''] doc \<noteq> None
      \<and> lookup [FinalSummary, ''Results are valid but execution time (sec) is''] doc
           = Some (YDouble 1)
      \<and> lookup [FinalSummary, ''     You have selected the QuickPath option''] doc
           = Some (YString ''Results are official for legacy installed systems with confirmation from the HPCG Benchmark leaders.''))
   \<and> (\<exists>out doc. ReportResults real_of_int ex_sizes ex_externals (ex_fine (ex_geom 1 0)) 2 1 50 50
                 (ex_times 1) (ex_testcg 0) ex_testsym ex_testnorms 0 False = Inr out
      \<and> yaml out = Some doc
      \<and> lookup [FinalSummary, ''Results are valid but execution time (sec) is''] doc
           = Some (YDouble 1)
      \<and> lookup [FinalSummary,
                ''     Official results execution time (sec) must be at least''] doc
           = Some (YDouble 1800))"
proof -
  obtain out doc where
    o: "ReportResults real_of_int ex_sizes ex_externals (ex_fine (ex_geom 1 0)) 2 1 50 50
          (ex_times 2000) (ex_testcg 0) ex_testsym ex_testnorms 0 False = Inr out"
    and d: "yaml out = Some doc"
    by (rule ReportResults_returns [OF ex_hierarchy ex_rank])
  have v: "isValidRun (ex_testcg 0) ex_testsym ex_testnorms 0"
    by (simp add: ex_valid)
  from official_time_threshold [OF o d v]
  have r: "lookup [FinalSummary, ''Please upload results from the YAML file contents to''] doc
           = Some (YString ''http://hpcg-benchmark.org'')"
    by (simp add: ex_times_def)
  obtain out' doc' where
    o': "ReportResults real_of_int ex_sizes ex_externals (ex_fine (ex_geom 1 0)) 2 1 50 50
          (ex_times 1) (ex_testcg 0) ex_testsym ex_testnorms 0 True = Inr out'"
    and d': "yaml out' = Some doc'"
    by (rule ReportResults_returns [OF ex_hierarchy ex_rank])
  from official_time_threshold [OF o' d' v]
  have r': "lookup [FinalSummary, ''HPCG result is VALID with a GFLOP/s rating of''] doc' \<noteq> None
      \<and> lookup [FinalSummary, ''Results are valid but execution time (sec) is''] doc'
           = Some (YDouble 1)
      \<and> lookup [FinalSummary, ''     You have selected the QuickPath option''] doc'
           = Some (YString ''Results are official for legacy installed systems with confirmation from the HPCG Benchmark leaders.'')"
    by (simp add: ex_times_def)
  obtain out'' doc'' where
    o'': "ReportResults real_of_int ex_sizes ex_externals (ex_fine (ex_geom 1 0)) 2 1 50 50
          (ex_times 1) (ex_testcg 0) ex_testsym ex_testnorms 0 False = Inr out''"
    and d'': "yaml out'' = Some doc''"
    by (rule ReportResults_returns [OF ex_hierarchy ex_rank])
  from official_time_threshold [OF o'' d'' v]
  have r'': "lookup [FinalSummary, ''Results are valid but execution time (sec) is''] doc''
           = Some (YDouble 1)
      \<and> lookup [FinalSummary,
                ''     Official results execution time (sec) must be at least''] doc''
           = Some (YDouble 1800)"
    by (simp add: ex_times_def)
  have 1: "\<exists>out doc. ReportResults real_of_int ex_sizes ex_externals (ex_fine (ex_geom 1 0))
                 2 1 50 50 (ex_times 2000) (ex_testcg 0) ex_testsym ex_testnorms 0 False = Inr out
      \<and> yaml out = Some doc
      \<and> lookup [FinalSummary, ''Please upload results from the YAML file contents to''] doc
           = Some (YString ''http://hpcg-benchmark.org'')"
    by (rule exI [of _ out], rule exI [of _ doc]) (simp only: o d r simp_thms)
  have 2: "\<exists>out doc. ReportResults real_of_int ex_sizes ex_externals (ex_fine (ex_geom 1 0))
                 2 1 50 50 (ex_times 1) (ex_testcg 0) ex_testsym ex_testnorms 0 True = Inr out
      \<and> yaml out = Some doc
      \<and> lookup [FinalSummary, ''HPCG result is VALID with a GFLOP/s rating of''] doc \<noteq> None
      \<and> lookup [FinalSummary, ''Results are valid but execution time (sec) is''] doc
           = Some (YDouble 1)
      \<and> lookup [FinalSummary, ''     You have selected the QuickPath option''] doc
           = Some (YString ''Results are official for legacy installed systems with confirmation from the HPCG Benchmark leaders.'')"
    by (rule exI [of _ out'], rule exI [of _ doc']) (simp only: o' d' r' simp_thms)
  have 3: "\<exists>out doc. ReportResults real_of_int ex_sizes ex_externals (ex_fine (ex_geom 1 0))
                 2 1 50 50 (ex_times 1) (ex_testcg 0) ex_testsym ex_testnorms 0 False = Inr out
      \<and> yaml out = Some doc
      \<and> lookup [FinalSummary, ''Results are valid but execution time (sec) is''] doc
           = Some (YDouble 1)
      \<and> lookup [FinalSummary,
                ''     Official results execution time (sec) must be at least''] doc
           = Some (YDouble 1800)"
    by (rule exI [of _ out''], rule exI [of _ doc'']) (simp only: o'' d'' r'' simp_thms)
  from 1 2 3 show ?thesis by (intro conjI)
qed

theorem report_sections_in_order_witness:
  "\<exists>out doc. ReportResults real_of_int ex_sizes ex_externals (ex_fine (ex_geom 1 0)) 2 1 50 50
                (ex_times 1) (ex_testcg 0) ex_testsym ex_testnorms 0 True = Inr out
      \<and> yaml out = Some doc
      \<and> map key (children doc) = ''Release date'' # required_sections
      \<and> map key (filter (\<lambda>c. yvalue c = YString []) (children doc)) = required_sections"
proof -
  obtain out doc where
    o: "ReportResults real_of_int ex_sizes ex_externals (ex_fine (ex_geom 1 0)) 2 1 50 50
          (ex_times 1) (ex_testcg 0) ex_testsym ex_testnorms 0 True = Inr out"
    and d: "yaml out = Some doc"
    by (rule ReportResults_returns [OF ex_hierarchy ex_rank])
  note r = report_sections_in_order [OF o d]
  show ?thesis
    by (rule exI [of _ out], rule exI [of _ doc])
       (simp only: o d r [THEN conjunct1] r [THEN conjunct2, THEN conjunct1] simp_thms)
qed

theorem report_only_on_rank_zero_witness:
  "ReportResults real_of_int ex_sizes ex_externals (ex_fine (ex_geom 2 1)) 2 1 50 50
     (ex_times 1) (ex_testcg 0) ex_testsym ex_testnorms 0 True
     = Inr \<lparr>reductions = [(MinFT, 5), (MaxFT, 5), (SumFT, 5)], yaml = None, HPCG_fout = []\<rparr>
   \<and> (\<exists>out doc. ReportResults real_of_int ex_sizes ex_externals (ex_fine (ex_geom 2 0)) 2 1 50 50
                  (ex_times 1) (ex_testcg 0) ex_testsym ex_testnorms 0 True = Inr out
        \<and> yaml out = Some doc
        \<and> reductions out = [(MinFT, 5), (MaxFT, 5), (SumFT, 5)])"
proof -
  have t4: "ex_times 1 4 = 5"
    by (simp add: ex_times_def)
  have nz: "rank (geom (ex_fine (ex_geom 2 1))) \<noteq> 0"
    by (simp add: ex_rank)
  have 1: "ReportResults real_of_int ex_sizes ex_externals (ex_fine (ex_geom 2 1)) 2 1 50 50
     (ex_times 1) (ex_testcg 0) ex_testsym ex_testnorms 0 True
     = Inr \<lparr>reductions = [(MinFT, 5), (MaxFT, 5), (SumFT, 5)], yaml = None, HPCG_fout = []\<rparr>"
    using report_only_on_rank_zero [of "ex_fine (ex_geom 2 1)" real_of_int ex_sizes ex_externals
        2 1 50 50 "ex_times 1" "ex_testcg 0" ex_testsym ex_testnorms 0 True,
        THEN conjunct1, rule_format, OF nz]
    by (simp only: t4)
  obtain out doc where
    o: "ReportResults real_of_int ex_sizes ex_externals (ex_fine (ex_geom 2 0)) 2 1 50 50
          (ex_times 1) (ex_testcg 0) ex_testsym ex_testnorms 0 True = Inr out"
    and d: "yaml out = Some doc"
    by (rule ReportResults_returns [OF ex_hierarchy ex_rank])
  have r: "reductions out = [(MinFT, 5), (MaxFT, 5), (SumFT, 5)]"
    using report_only_on_rank_zero [of "ex_fine (ex_geom 2 0)" real_of_int ex_sizes ex_externals
        2 1 50 50 "ex_times 1" "ex_testcg 0" ex_testsym ex_testnorms 0 True,
        THEN conjunct2, rule_format, OF o, THEN conjunct1]
    by (simp only: t4)
  have 2: "\<exists>out doc. ReportResults real_of_int ex_sizes ex_externals (ex_fine (ex_geom 2 0))
                  2 1 50 50 (ex_times 1) (ex_testcg 0) ex_testsym ex_testnorms 0 True = Inr out
        \<and> yaml out = Some doc
        \<and> reductions out = [(MinFT, 5), (MaxFT, 5), (SumFT, 5)]"
    by (rule exI [of _ out], rule exI [of _ doc]) (simp only: o d r simp_thms)
  from 1 2 show ?thesis by (rule conjI)
qed

end
